(* ===== verification/Prelude.thy ===== *)
theory Prelude
  imports Complex_Main
begin

text \<open>
  Shared vocabulary of the weather-monitor development: the names of the model's basic
  types, the collections of rules that the component theories fill, and generic facts on
  lists and counting that several components use (the frequency table of the statistics
  aggregator, the logs and stores of the schedulers).
\<close>

section \<open>Names of the model's basic types\<close>

type_synonym condition = string \<comment> \<open>a weather condition such as \<open>''Clear''\<close>\<close>
type_synonym attribute = string \<comment> \<open>a property name of an observation object\<close>
type_synonym city = string

section \<open>Rule collections\<close>

named_theorems js_eval "evaluation rules of the JavaScript value model"
named_theorems stats_simps "characteristic equations of the statistics aggregator"
named_theorems sched_simps "characteristic equations of the scheduler steps"

section \<open>Generic lemmas on lists\<close>

lemma count_list_take_le: "count_list (take k xs) c \<le> count_list xs c"
proof (induction xs arbitrary: k)
  case Nil
  then show ?case by simp
next
  case (Cons x xs)
  then show ?case by (cases k) auto
qed

lemma find_snoc:
  "List.find P (xs @ [x]) = (case List.find P xs of None \<Rightarrow> (if P x then Some x else None) | Some i \<Rightarrow> Some i)"
  by (induction xs) auto

lemma find_upt_Some_less: "List.find P [0..<n] = Some i \<Longrightarrow> i < n \<and> P i"
  by (auto simp: find_Some_iff)

lemma find_upt_cong:
  "(\<And>i. i < n \<Longrightarrow> P i = Q i) \<Longrightarrow> List.find P [0..<n] = List.find Q [0..<n]"
  by (rule find_cong) auto

lemma list_all_remove_nth: "list_all P xs \<Longrightarrow> list_all P (take i xs @ drop (Suc i) xs)"
  by (auto simp: list_all_iff dest: in_set_takeD in_set_dropD)

section \<open>Generic lemmas on maps\<close>

text \<open>The largest value of a counter map after one entry is raised to \<open>n\<close>.\<close>

lemma Max_ran_upd:
  assumes "finite (dom f)" and "\<And>k. f c = Some k \<Longrightarrow> k \<le> n"
  shows "Max (insert 0 (ran (f(c \<mapsto> n)))) = max n (Max (insert (0::nat) (ran f)))"
proof -
  let ?R = "ran (f(c := None))"
  have fin: "finite ?R" using assms(1) by (simp add: finite_ran)
  have r1: "ran (f(c \<mapsto> n)) = insert n ?R"
    by (metis fun_upd_same fun_upd_upd ran_map_upd)
  have ins: "Max (insert 0 (insert k ?R)) = max k (Max (insert 0 ?R))" for k :: nat
    using fin by (metis Max_insert finite_insert insert_commute insert_not_empty)
  show ?thesis
  proof (cases "f c")
    case None
    then have "f = f(c := None)" by auto
    then have "ran f = ?R" by simp
    with r1 ins[of n] show ?thesis by simp
  next
    case (Some k)
    then have "f = (f(c := None))(c \<mapsto> k)" by auto
    then have "ran f = insert k ?R" by (metis fun_upd_same ran_map_upd)
    moreover have "k \<le> n" using Some assms(2) by simp
    ultimately show ?thesis using r1 ins[of n] ins[of k] by (simp add: max_def)
  qed
qed

end
