(* ===== verification/JsValues.thy ===== *)
theory JsValues
  imports Prelude
begin

text \<open>
  The JavaScript values the program computes with, and the language operators it applies
  to them: Number arithmetic with its special values (\<open>NaN\<close>, \<open>Infinity\<close>,
  \<open>-Infinity\<close>, used as initial values in \<open>src/services/weather_stats.js\<close>), the
  relational operators \<open>< <= > >=\<close> (ECMAScript's IsLessThan, with string comparison
  and ToNumber coercion), strict equality \<open>===\<close>, and ToNumber on strings
  (StringToNumber), which decides every trigger comparison because the thresholds the
  program reads in \<open>src/app.js\<close> are strings. These definitions model the language,
  not code of the repository.

  Finite Numbers are exact reals: IEEE rounding, overflow to \<open>Infinity\<close> and the sign
  of zero are not modelled. Strings are lists of 8-bit characters compared by code.
\<close>

section \<open>Numbers\<close>

datatype jsnum = NaN | PosInf | NegInf | Fin real

text \<open>Number::lessThan: \<open>None\<close> is the spec's \<open>undefined\<close> result (a \<open>NaN\<close> operand).\<close>

fun js_num_less :: "jsnum \<Rightarrow> jsnum \<Rightarrow> bool option" where
  "js_num_less NaN _ = None"
| "js_num_less _ NaN = None"
| "js_num_less (Fin a) (Fin b) = Some (a < b)"
| "js_num_less PosInf _ = Some False"
| "js_num_less _ PosInf = Some True"
| "js_num_less _ NegInf = Some False"
| "js_num_less NegInf _ = Some True"

text \<open>The relational operators applied to two Numbers (\<open>a > b\<close> is IsLessThan(b, a)).\<close>

definition num_gt :: "jsnum \<Rightarrow> jsnum \<Rightarrow> bool" where
  "num_gt a b \<longleftrightarrow> js_num_less b a = Some True"

definition num_lt :: "jsnum \<Rightarrow> jsnum \<Rightarrow> bool" where
  "num_lt a b \<longleftrightarrow> js_num_less a b = Some True"

fun js_add :: "jsnum \<Rightarrow> jsnum \<Rightarrow> jsnum" where
  "js_add (Fin a) (Fin b) = Fin (a + b)"
| "js_add NaN _ = NaN"
| "js_add _ NaN = NaN"
| "js_add PosInf NegInf = NaN"
| "js_add NegInf PosInf = NaN"
| "js_add PosInf _ = PosInf"
| "js_add NegInf _ = NegInf"
| "js_add _ PosInf = PosInf"
| "js_add _ NegInf = NegInf"

fun js_neg :: "jsnum \<Rightarrow> jsnum" where
  "js_neg (Fin a) = Fin (- a)"
| "js_neg NaN = NaN"
| "js_neg PosInf = NegInf"
| "js_neg NegInf = PosInf"

definition js_sub :: "jsnum \<Rightarrow> jsnum \<Rightarrow> jsnum" where
  "js_sub a b = js_add a (js_neg b)"

text \<open>Division; a zero divisor counts as \<open>+0\<close>.\<close>

fun js_div :: "jsnum \<Rightarrow> jsnum \<Rightarrow> jsnum" where
  "js_div NaN _ = NaN"
| "js_div _ NaN = NaN"
| "js_div (Fin a) (Fin b) =
     (if b \<noteq> 0 then Fin (a / b) else if 0 < a then PosInf else if a < 0 then NegInf else NaN)"
| "js_div (Fin a) _ = Fin 0"
| "js_div PosInf (Fin b) = (if b < 0 then NegInf else PosInf)"
| "js_div NegInf (Fin b) = (if b < 0 then PosInf else NegInf)"
| "js_div _ _ = NaN"

text \<open>Multiplication; \<open>Infinity\<close> times zero is \<open>NaN\<close>.\<close>

fun js_mul :: "jsnum \<Rightarrow> jsnum \<Rightarrow> jsnum" where
  "js_mul (Fin a) (Fin b) = Fin (a * b)"
| "js_mul NaN _ = NaN"
| "js_mul _ NaN = NaN"
| "js_mul (Fin a) y = (if a = 0 then NaN else if 0 < a then y else js_neg y)"
| "js_mul x (Fin b) = (if b = 0 then NaN else if 0 < b then x else js_neg x)"
| "js_mul PosInf y = y"
| "js_mul NegInf y = js_neg y"

fun is_nan :: "jsnum \<Rightarrow> bool" where
  "is_nan NaN = True"
| "is_nan _ = False"

fun is_fin :: "jsnum \<Rightarrow> bool" where
  "is_fin (Fin _) = True"
| "is_fin _ = False"

text \<open>The real value of a finite Number (used only where \<open>is_fin\<close> holds).\<close>

fun fin_val :: "jsnum \<Rightarrow> real" where
  "fin_val (Fin r) = r"
| "fin_val _ = 0"

section \<open>Values\<close>

datatype jsval = JUndefined | JNum jsnum | JStr string

subsection \<open>StringToNumber\<close>

text \<open>
  The StringNumericLiteral grammar: surrounding white space (the ASCII white space and
  line terminators), an empty or blank string is \<open>0\<close>, \<open>Infinity\<close> with an optional
  sign, unsigned \<open>0x\<close>/\<open>0o\<close>/\<open>0b\<close> integers, and signed decimal literals with an
  optional fraction and exponent; anything else is \<open>NaN\<close>. White space beyond ASCII
  (such as U+00A0) is not recognised.
\<close>

definition js_space :: "char \<Rightarrow> bool" where
  "js_space c \<longleftrightarrow> of_char c \<in> {9, 10, 11, 12, 13, 32 :: nat}"

definition js_trim :: "string \<Rightarrow> string" where
  "js_trim s = rev (dropWhile js_space (rev (dropWhile js_space s)))"

definition digit_value :: "nat \<Rightarrow> char \<Rightarrow> nat option" where
  "digit_value base c =
     (let n = of_char c :: nat;
          d = (if 48 \<le> n \<and> n \<le> 57 then n - 48
               else if 97 \<le> n \<and> n \<le> 122 then n - 87
               else if 65 \<le> n \<and> n \<le> 90 then n - 55 else base)
      in if d < base then Some d else None)"

definition is_digit :: "char \<Rightarrow> bool" where
  "is_digit c \<longleftrightarrow> digit_value 10 c \<noteq> None"

fun digits_acc :: "nat \<Rightarrow> nat \<Rightarrow> string \<Rightarrow> nat option" where
  "digits_acc base acc [] = Some acc"
| "digits_acc base acc (c # cs) =
     (case digit_value base c of None \<Rightarrow> None | Some d \<Rightarrow> digits_acc base (acc * base + d) cs)"

text \<open>A non-empty digit string in the given base.\<close>

definition digits_nat :: "nat \<Rightarrow> string \<Rightarrow> nat option" where
  "digits_nat base cs = (if cs = [] then None else digits_acc base 0 cs)"

definition scale10 :: "nat \<Rightarrow> int \<Rightarrow> real" where
  "scale10 m e = (if 0 \<le> e then real m * 10 ^ nat e else real m / 10 ^ nat (- e))"

definition parse_exponent :: "string \<Rightarrow> int option" where
  "parse_exponent s =
     (case s of
        [] \<Rightarrow> Some 0
      | c # r \<Rightarrow>
          if c = CHR ''e'' \<or> c = CHR ''E'' then
            (case r of
               CHR ''+'' # ds \<Rightarrow> map_option int (digits_nat 10 ds)
             | CHR ''-'' # ds \<Rightarrow> map_option (\<lambda>n. - int n) (digits_nat 10 ds)
             | ds \<Rightarrow> map_option int (digits_nat 10 ds))
          else None)"

text \<open>StrUnsignedDecimalLiteral other than \<open>Infinity\<close>.\<close>

definition parse_unsigned_decimal :: "string \<Rightarrow> real option" where
  "parse_unsigned_decimal s =
     (let ip = takeWhile is_digit s;
          r1 = dropWhile is_digit s;
          (fp, r2) = (case r1 of CHR ''.'' # r \<Rightarrow> (takeWhile is_digit r, dropWhile is_digit r)
                               | _ \<Rightarrow> ([], r1))
      in if ip = [] \<and> fp = [] then None
         else (case (digits_nat 10 (ip @ fp), parse_exponent r2) of
                 (Some m, Some e) \<Rightarrow> Some (scale10 m (e - int (length fp)))
               | _ \<Rightarrow> None))"

definition parse_unsigned :: "string \<Rightarrow> jsnum" where
  "parse_unsigned s =
     (if s = ''Infinity'' then PosInf
      else case parse_unsigned_decimal s of None \<Rightarrow> NaN | Some r \<Rightarrow> Fin r)"

definition parse_radix :: "nat \<Rightarrow> string \<Rightarrow> jsnum" where
  "parse_radix base ds = (case digits_nat base ds of None \<Rightarrow> NaN | Some n \<Rightarrow> Fin (real n))"

definition string_to_number :: "string \<Rightarrow> jsnum" where
  "string_to_number str =
     (case js_trim str of
        [] \<Rightarrow> Fin 0
      | CHR ''0'' # c # ds \<Rightarrow>
          (if c = CHR ''x'' \<or> c = CHR ''X'' then parse_radix 16 ds
           else if c = CHR ''o'' \<or> c = CHR ''O'' then parse_radix 8 ds
           else if c = CHR ''b'' \<or> c = CHR ''B'' then parse_radix 2 ds
           else parse_unsigned (CHR ''0'' # c # ds))
      | CHR ''+'' # s \<Rightarrow> parse_unsigned s
      | CHR ''-'' # s \<Rightarrow> js_neg (parse_unsigned s)
      | s \<Rightarrow> parse_unsigned s)"

fun to_number :: "jsval \<Rightarrow> jsnum" where
  "to_number JUndefined = NaN"
| "to_number (JNum n) = n"
| "to_number (JStr s) = string_to_number s"

subsection \<open>Number to string\<close>

text \<open>Decimal rendering of a non-negative integral Number, as template literals print it.\<close>

fun nat_str :: "nat \<Rightarrow> string" where
  "nat_str n = (if n < 10 then [char_of (48 + n)] else nat_str (n div 10) @ [char_of (48 + n mod 10)])"

declare nat_str.simps [simp del]

subsection \<open>Relational operators and strict equality\<close>

text \<open>Strings compare by code units, a proper prefix being smaller.\<close>

fun str_less :: "string \<Rightarrow> string \<Rightarrow> bool" where
  "str_less [] (_ # _) = True"
| "str_less _ [] = False"
| "str_less (x # xs) (y # ys) =
     (if x = y then str_less xs ys else (of_char x :: nat) < of_char y)"

text \<open>IsLessThan on primitive values: two strings compare as strings, anything else as Numbers.\<close>

fun js_less_than :: "jsval \<Rightarrow> jsval \<Rightarrow> bool option" where
  "js_less_than (JStr a) (JStr b) = Some (str_less a b)"
| "js_less_than x y = js_num_less (to_number x) (to_number y)"

definition js_gt :: "jsval \<Rightarrow> jsval \<Rightarrow> bool" where
  "js_gt x y \<longleftrightarrow> js_less_than y x = Some True"

definition js_ge :: "jsval \<Rightarrow> jsval \<Rightarrow> bool" where
  "js_ge x y \<longleftrightarrow> js_less_than x y = Some False"

definition js_lt :: "jsval \<Rightarrow> jsval \<Rightarrow> bool" where
  "js_lt x y \<longleftrightarrow> js_less_than x y = Some True"

definition js_le :: "jsval \<Rightarrow> jsval \<Rightarrow> bool" where
  "js_le x y \<longleftrightarrow> js_less_than y x = Some False"

fun js_strict_eq :: "jsval \<Rightarrow> jsval \<Rightarrow> bool" where
  "js_strict_eq (JNum (Fin a)) (JNum (Fin b)) = (a = b)"
| "js_strict_eq (JNum PosInf) (JNum PosInf) = True"
| "js_strict_eq (JNum NegInf) (JNum NegInf) = True"
| "js_strict_eq (JStr a) (JStr b) = (a = b)"
| "js_strict_eq JUndefined JUndefined = True"
| "js_strict_eq _ _ = False"

declare num_gt_def [js_eval] num_lt_def [js_eval] js_sub_def [js_eval]
  js_gt_def [js_eval] js_ge_def [js_eval] js_lt_def [js_eval] js_le_def [js_eval]

section \<open>Facts about the number model\<close>

lemma num_gt_Fin [simp]: "num_gt (Fin a) (Fin b) \<longleftrightarrow> b < a"
  by (simp add: num_gt_def)

lemma num_lt_Fin [simp]: "num_lt (Fin a) (Fin b) \<longleftrightarrow> a < b"
  by (simp add: num_lt_def)

lemma num_gt_NegInf [simp]: "num_gt x NegInf \<longleftrightarrow> x \<noteq> NaN \<and> x \<noteq> NegInf"
  by (cases x) (simp_all add: num_gt_def)

lemma num_lt_PosInf [simp]: "num_lt x PosInf \<longleftrightarrow> x \<noteq> NaN \<and> x \<noteq> PosInf"
  by (cases x) (simp_all add: num_lt_def)

lemma NegInf_not_gt [simp]: "\<not> num_gt NegInf x"
  by (cases x) (simp_all add: num_gt_def)

lemma PosInf_not_lt [simp]: "\<not> num_lt PosInf x"
  by (cases x) (simp_all add: num_lt_def)

lemma num_gt_NaN [simp]: "\<not> num_gt NaN x" "\<not> num_gt x NaN"
  by (cases x; simp add: num_gt_def)+

lemma num_lt_NaN [simp]: "\<not> num_lt NaN x" "\<not> num_lt x NaN"
  by (cases x; simp add: num_lt_def)+

lemma js_sub_Fin [simp]: "js_sub (Fin a) (Fin b) = Fin (a - b)"
  by (simp add: js_sub_def)

lemma js_add_NaN [simp]: "js_add NaN x = NaN" "js_add x NaN = NaN"
  by (cases x; simp)+

text \<open>The order the relational operators induce on the Numbers other than \<open>NaN\<close> is total.\<close>

lemma num_gt_trans: "num_gt a b \<Longrightarrow> num_gt b c \<Longrightarrow> num_gt a c"
  by (cases a; cases b; cases c) (auto simp: num_gt_def)

lemma num_gt_total: "\<not> is_nan a \<Longrightarrow> \<not> is_nan b \<Longrightarrow> \<not> num_gt a b \<Longrightarrow> a \<noteq> b \<Longrightarrow> num_gt b a"
  by (cases a; cases b) (auto simp: num_gt_def)

lemma num_gt_irrefl [simp]: "\<not> num_gt a a"
  by (cases a) (auto simp: num_gt_def)

lemma num_lt_trans: "num_lt a b \<Longrightarrow> num_lt b c \<Longrightarrow> num_lt a c"
  by (cases a; cases b; cases c) (auto simp: num_lt_def)

lemma num_lt_total: "\<not> is_nan a \<Longrightarrow> \<not> is_nan b \<Longrightarrow> \<not> num_lt a b \<Longrightarrow> a \<noteq> b \<Longrightarrow> num_lt b a"
  by (cases a; cases b) (auto simp: num_lt_def)

lemma num_lt_irrefl [simp]: "\<not> num_lt a a"
  by (cases a) (auto simp: num_lt_def)

lemma is_fin_sub_Fin [simp]: "is_fin (js_sub x (Fin r)) \<longleftrightarrow> is_fin x"
  by (cases x) (simp_all add: js_sub_def)

lemma is_fin_conv: "is_fin x \<longleftrightarrow> x = Fin (fin_val x)"
  by (cases x) auto

lemma num_lt_gt_conv: "num_lt a b \<longleftrightarrow> num_gt b a"
  by (simp add: num_lt_def num_gt_def)

section \<open>StringToNumber on decimal digit strings\<close>

lemma digits_acc_append:
  "digits_acc base acc (xs @ ys) = (case digits_acc base acc xs of None \<Rightarrow> None | Some a \<Rightarrow> digits_acc base a ys)"
  by (induction xs arbitrary: acc) (auto split: option.split)

lemma digit_value_char: "d < 10 \<Longrightarrow> digit_value 10 (char_of (48 + d :: nat)) = Some d"
  by (simp add: digit_value_def)

lemma is_digit_char: "d < 10 \<Longrightarrow> is_digit (char_of (48 + d :: nat))"
  by (simp add: is_digit_def digit_value_char)

lemma nat_str_digits:
  "nat_str n \<noteq> [] \<and> list_all is_digit (nat_str n) \<and>
   digits_acc 10 acc (nat_str n) = Some (acc * 10 ^ length (nat_str n) + n)"
proof (induction n arbitrary: acc rule: nat_str.induct)
  case (1 n)
  show ?case
  proof (cases "n < 10")
    case True
    then show ?thesis by (simp add: nat_str.simps [of n] is_digit_char digit_value_char)
  next
    case False
    have d: "n mod 10 < 10" by simp
    have IH: "nat_str (n div 10) \<noteq> [] \<and> list_all is_digit (nat_str (n div 10)) \<and>
        digits_acc 10 acc (nat_str (n div 10)) = Some (acc * 10 ^ length (nat_str (n div 10)) + n div 10)"
      using "1.IH" False by blast
    have "(acc * 10 ^ length (nat_str (n div 10)) + n div 10) * 10 + n mod 10 =
          acc * 10 ^ Suc (length (nat_str (n div 10))) + n"
      by (simp add: algebra_simps)
    with IH False d show ?thesis
      by (simp add: nat_str.simps [of n] is_digit_char digit_value_char digits_acc_append)
  qed
qed

lemma js_trim_no_space: "\<forall>c \<in> set s. \<not> js_space c \<Longrightarrow> js_trim s = s"
proof -
  assume h: "\<forall>c \<in> set s. \<not> js_space c"
  then have "dropWhile js_space s = s" by (cases s) auto
  moreover have "dropWhile js_space (rev s) = rev s" using h by (cases "rev s") (auto dest: arg_cong [of _ _ set])
  ultimately show ?thesis by (simp add: js_trim_def)
qed

lemma is_digit_not_space: "is_digit c \<Longrightarrow> \<not> js_space c"
  by (auto simp: is_digit_def digit_value_def js_space_def Let_def split: if_splits)

lemma parse_unsigned_digits:
  assumes "list_all is_digit s" and "s \<noteq> []" and "digits_nat 10 s = Some k"
  shows "parse_unsigned s = Fin (real k)"
proof -
  have tw: "takeWhile is_digit s = s" and dw: "dropWhile is_digit s = []"
    using assms(1) by (simp_all add: list_all_iff)
  have "s \<noteq> ''Infinity''"
  proof
    assume "s = ''Infinity''"
    with assms(1) have "is_digit CHR ''I''" by simp
    then show False by (simp add: is_digit_def digit_value_def)
  qed
  then show ?thesis
    unfolding parse_unsigned_def parse_unsigned_decimal_def Let_def tw dw
    using assms(2,3) by (simp add: parse_exponent_def scale10_def)
qed

lemma is_digit_cases: "is_digit c \<Longrightarrow> c \<in> set ''0123456789''"
proof -
  assume "is_digit c"
  then have "of_char c \<in> {48..57::nat}"
    by (auto simp: is_digit_def digit_value_def Let_def split: if_splits)
  then have "of_char c \<in> {48, 49, 50, 51, 52, 53, 54, 55, 56, 57::nat}" by (auto; presburger)
  then have c: "c \<in> char_of ` {48, 49, 50, 51, 52, 53, 54, 55, 56, 57::nat}"
    by (metis char_of_char image_eqI)
  have eq: "char_of ` {48, 49, 50, 51, 52, 53, 54, 55, 56, 57::nat} = set ''0123456789''"
    by code_simp
  from c show ?thesis by (rule subst [OF eq])
qed

lemma string_to_number_digit_start:
  assumes "js_trim s = c # cs" and "is_digit c" and "c = CHR ''0'' \<Longrightarrow> cs = [] \<or> is_digit (hd cs)"
  shows "string_to_number s = parse_unsigned (c # cs)"
proof (cases "c = CHR ''0''")
  case True
  show ?thesis
  proof (cases cs)
    case Nil
    with True assms(1) show ?thesis by (simp add: string_to_number_def)
  next
    case (Cons c' ds)
    with True assms(3) have "is_digit c'" by simp
    then have "c' \<notin> {CHR ''x'', CHR ''X'', CHR ''o'', CHR ''O'', CHR ''b'', CHR ''B''}"
      by (auto simp: is_digit_def digit_value_def)
    with True Cons assms(1) show ?thesis by (simp add: string_to_number_def)
  qed
next
  case False
  from is_digit_cases [OF assms(2)] False
  have "c \<in> set ''123456789''" by auto
  with assms(1) show ?thesis by (auto simp: string_to_number_def)
qed

lemma string_to_number_digits:
  assumes "list_all is_digit s" and "s \<noteq> []" and "digits_nat 10 s = Some k"
  shows "string_to_number s = Fin (real k)"
proof -
  have t: "js_trim s = s" using assms(1) is_digit_not_space by (auto intro: js_trim_no_space simp: list_all_iff)
  obtain c cs where s: "s = c # cs" using assms(2) by (cases s) auto
  have d: "\<forall>x \<in> set (c # cs). is_digit x" using assms(1) s by (simp add: list_all_iff)
  then have "cs = [] \<or> is_digit (hd cs)" by (cases cs) auto
  with d t s have "string_to_number s = parse_unsigned (c # cs)"
    by (intro string_to_number_digit_start) auto
  with parse_unsigned_digits [OF assms] s show ?thesis by simp
qed

lemma string_to_number_nat_str: "string_to_number (nat_str n) = Fin (real n)"
  using nat_str_digits [of n 0] by (intro string_to_number_digits) (simp_all add: digits_nat_def)

end
