(* ===== verification/WeatherStats.thy ===== *)
theory WeatherStats
  imports JsValues
begin

text \<open>
  \<open>src/services/weather_stats.js\<close>, class \<open>WeatherStats\<close>: the running statistics of one
  city. The object's fields become a record; \<open>resetStats\<close>, \<open>add_stats\<close>,
  \<open>getAverageTemperature\<close> and \<open>getDailySummary\<close> become functions on it, the mutating
  ones returning the updated record. The frequency table, a plain object used as a
  dictionary, is a map from condition names to counts.

  The theory then states what the aggregate means: \<open>summary_spec\<close> computes the summary
  directly from the whole history of observations (greatest maximum, least minimum,
  arithmetic mean, most frequent condition with the first-to-reach tie-break), and the
  lemmas show that the incremental code computes it.
\<close>

section \<open>State and operations\<close>

text \<open>
  The observation \<open>add_stats\<close> reads (\<open>weather_data\<close> after unit conversion in
  \<open>WeatherManager.addWeatherData\<close>).
\<close>

record weather_data =
  wd_temperature :: jsnum
  wd_maxTemperature :: jsnum
  wd_minTemperature :: jsnum
  wd_condition :: condition

record weather_stats =
  city :: city
  temperatures :: "jsnum list"
  maxTemperature :: jsnum
  minTemperature :: jsnum
  sumTemperature :: jsnum
  weatherFrequency :: "condition \<rightharpoonup> nat"
  dominantWeather :: condition
  dominantWeatherFrequency :: nat

text \<open>\<open>resetStats()\<close>, lines 10--18: every field but the city returns to its initial value.\<close>

definition reset_stats :: "weather_stats \<Rightarrow> weather_stats" where
  "reset_stats s =
     s\<lparr>temperatures := [], maxTemperature := NegInf, minTemperature := PosInf,
       sumTemperature := Fin 0, weatherFrequency := Map.empty,
       dominantWeather := [], dominantWeatherFrequency := 0\<rparr>"

text \<open>
  The constructor (lines 2--5) sets the city and calls \<open>resetStats\<close>. Before that call the
  other fields do not exist (reading one gives \<open>undefined\<close>); the placeholders below stand
  for that and are all overwritten.
\<close>

definition new_weather_stats :: "city \<Rightarrow> weather_stats" where
  "new_weather_stats c =
     reset_stats \<lparr>city = c, temperatures = [], maxTemperature = NaN, minTemperature = NaN,
       sumTemperature = NaN, weatherFrequency = Map.empty, dominantWeather = [],
       dominantWeatherFrequency = 0\<rparr>"

text \<open>
  \<open>add_stats(weather_data)\<close>, lines 31--58, step by step: push the temperature and add it
  to the sum; replace the maximum and minimum when the new value compares greater (less)
  with JavaScript's \<open>>\<close> (\<open><\<close>); increment the condition's count when the property is
  truthy (present and non-zero) and set it to 1 otherwise; make the condition dominant
  when its new count strictly exceeds the dominant count.
\<close>

definition add_stats :: "weather_stats \<Rightarrow> weather_data \<Rightarrow> weather_stats" where
  "add_stats s d =
     (let s1 = s\<lparr>temperatures := temperatures s @ [wd_temperature d],
                  sumTemperature := js_add (sumTemperature s) (wd_temperature d)\<rparr>;
          s2 = (if num_gt (wd_maxTemperature d) (maxTemperature s1)
                then s1\<lparr>maxTemperature := wd_maxTemperature d\<rparr> else s1);
          s3 = (if num_lt (wd_minTemperature d) (minTemperature s2)
                then s2\<lparr>minTemperature := wd_minTemperature d\<rparr> else s2);
          c = wd_condition d;
          n = (case weatherFrequency s3 c of Some k \<Rightarrow> if k \<noteq> 0 then k + 1 else 1 | None \<Rightarrow> 1);
          s4 = s3\<lparr>weatherFrequency := (weatherFrequency s3)(c \<mapsto> n)\<rparr>
      in if dominantWeatherFrequency s4 < n
         then s4\<lparr>dominantWeather := c, dominantWeatherFrequency := n\<rparr> else s4)"

text \<open>\<open>getAverageTemperature()\<close>, lines 65--70.\<close>

definition get_average_temperature :: "weather_stats \<Rightarrow> jsnum" where
  "get_average_temperature s =
     (if length (temperatures s) = 0 then Fin 0
      else js_div (sumTemperature s) (Fin (real (length (temperatures s)))))"

record daily_summary =
  ds_city :: city
  ds_maxTemperature :: jsnum
  ds_minTemperature :: jsnum
  ds_avgTemperature :: jsnum
  ds_dominantWeather :: condition
  ds_dominantWeatherFrequency :: nat

text \<open>\<open>getDailySummary()\<close>, lines 77--86.\<close>

definition get_daily_summary :: "weather_stats \<Rightarrow> daily_summary" where
  "get_daily_summary s =
     \<lparr>ds_city = city s, ds_maxTemperature = maxTemperature s,
      ds_minTemperature = minTemperature s, ds_avgTemperature = get_average_temperature s,
      ds_dominantWeather = dominantWeather s,
      ds_dominantWeatherFrequency = dominantWeatherFrequency s\<rparr>"

text \<open>The statistics after a history of \<open>add_stats\<close> calls on a fresh object.\<close>

definition stats_of :: "city \<Rightarrow> weather_data list \<Rightarrow> weather_stats" where
  "stats_of c ds = foldl add_stats (new_weather_stats c) ds"

section \<open>What the statistics mean\<close>

text \<open>
  The abstract specification, computed from the history alone. \<open>max_count\<close> is the
  highest frequency of any condition (0 for no history); \<open>reach_pos\<close> is the first
  position at which some condition's running count reaches that highest frequency, and
  \<open>first_to_reach\<close> the condition observed there: the spec's first-to-reach tie-break.
\<close>

definition max_count :: "condition list \<Rightarrow> nat" where
  "max_count xs = Max (insert 0 (count_list xs ` set xs))"

definition reach_pos :: "condition list \<Rightarrow> nat option" where
  "reach_pos xs =
     List.find (\<lambda>i. count_list (take (Suc i) xs) (xs ! i) = max_count xs) [0..<length xs]"

definition first_to_reach :: "condition list \<Rightarrow> condition" where
  "first_to_reach xs = (case reach_pos xs of None \<Rightarrow> [] | Some i \<Rightarrow> xs ! i)"

definition frequency_spec :: "condition list \<Rightarrow> condition \<rightharpoonup> nat" where
  "frequency_spec xs y = (if y \<in> set xs then Some (count_list xs y) else None)"

definition finite_data :: "weather_data \<Rightarrow> bool" where
  "finite_data d \<longleftrightarrow> is_fin (wd_temperature d) \<and> is_fin (wd_maxTemperature d) \<and> is_fin (wd_minTemperature d)"

definition summary_spec :: "city \<Rightarrow> weather_data list \<Rightarrow> daily_summary" where
  "summary_spec c ds =
     (let conds = map wd_condition ds
      in \<lparr>ds_city = c,
          ds_maxTemperature = (if ds = [] then NegInf
                               else Fin (Max (set (map (fin_val \<circ> wd_maxTemperature) ds)))),
          ds_minTemperature = (if ds = [] then PosInf
                               else Fin (Min (set (map (fin_val \<circ> wd_minTemperature) ds)))),
          ds_avgTemperature = (if ds = [] then Fin 0
                               else Fin (sum_list (map (fin_val \<circ> wd_temperature) ds) / real (length ds))),
          ds_dominantWeather = first_to_reach conds,
          ds_dominantWeatherFrequency = max_count conds\<rparr>)"

text \<open>
  The invariant of a \<open>WeatherStats\<close> object: every stored count is positive, the dominant
  count is the largest stored count (0 for an empty table) and is the dominant
  condition's count, the table is finite, and the running extremes are never \<open>NaN\<close>.
\<close>

definition stats_inv :: "weather_stats \<Rightarrow> bool" where
  "stats_inv s \<longleftrightarrow>
     finite (dom (weatherFrequency s)) \<and>
     (\<forall>k \<in> ran (weatherFrequency s). 0 < k) \<and>
     dominantWeatherFrequency s = Max (insert 0 (ran (weatherFrequency s))) \<and>
     (0 < dominantWeatherFrequency s \<longrightarrow>
        weatherFrequency s (dominantWeather s) = Some (dominantWeatherFrequency s)) \<and>
     \<not> is_nan (maxTemperature s) \<and> \<not> is_nan (minTemperature s)"

text \<open>Observations with finite readings, for the concrete instances below.\<close>

definition obs :: "real \<Rightarrow> real \<Rightarrow> real \<Rightarrow> condition \<Rightarrow> weather_data" where
  "obs t hi lo c = \<lparr>wd_temperature = Fin t, wd_maxTemperature = Fin hi, wd_minTemperature = Fin lo, wd_condition = c\<rparr>"

section \<open>Characteristic equations\<close>

lemma add_stats_fields [stats_simps]:
  "city (add_stats s d) = city s"
  "temperatures (add_stats s d) = temperatures s @ [wd_temperature d]"
  "sumTemperature (add_stats s d) = js_add (sumTemperature s) (wd_temperature d)"
  "maxTemperature (add_stats s d) =
     (if num_gt (wd_maxTemperature d) (maxTemperature s) then wd_maxTemperature d else maxTemperature s)"
  "minTemperature (add_stats s d) =
     (if num_lt (wd_minTemperature d) (minTemperature s) then wd_minTemperature d else minTemperature s)"
  by (simp_all add: add_stats_def Let_def)

lemma add_stats_frequency [stats_simps]:
  "weatherFrequency (add_stats s d) =
     (weatherFrequency s)(wd_condition d \<mapsto>
        (case weatherFrequency s (wd_condition d) of Some k \<Rightarrow> if k \<noteq> 0 then k + 1 else 1 | None \<Rightarrow> 1))"
  by (simp add: add_stats_def Let_def)

lemma add_stats_dominant_fields [stats_simps]:
  "dominantWeather (add_stats s d) =
     (if dominantWeatherFrequency s < (case weatherFrequency s (wd_condition d) of Some k \<Rightarrow> if k \<noteq> 0 then k + 1 else 1 | None \<Rightarrow> 1)
      then wd_condition d else dominantWeather s)"
  "dominantWeatherFrequency (add_stats s d) =
     max (case weatherFrequency s (wd_condition d) of Some k \<Rightarrow> if k \<noteq> 0 then k + 1 else 1 | None \<Rightarrow> 1)
         (dominantWeatherFrequency s)"
  by (simp_all add: add_stats_def Let_def)

lemma new_weather_stats_fields [stats_simps]:
  "city (new_weather_stats c) = c"
  "temperatures (new_weather_stats c) = []"
  "maxTemperature (new_weather_stats c) = NegInf"
  "minTemperature (new_weather_stats c) = PosInf"
  "sumTemperature (new_weather_stats c) = Fin 0"
  "weatherFrequency (new_weather_stats c) = Map.empty"
  "dominantWeather (new_weather_stats c) = []"
  "dominantWeatherFrequency (new_weather_stats c) = 0"
  by (simp_all add: new_weather_stats_def reset_stats_def)

lemma stats_of_Nil [simp]: "stats_of c [] = new_weather_stats c"
  by (simp add: stats_of_def)

lemma stats_of_snoc [simp]: "stats_of c (ds @ [d]) = add_stats (stats_of c ds) d"
  by (simp add: stats_of_def)



section \<open>The highest frequency and the first condition to reach it\<close>

lemma count_le_max_count: "count_list xs y \<le> max_count xs"
proof (cases "y \<in> set xs")
  case True
  then show ?thesis unfolding max_count_def by (intro Max_ge) auto
next
  case False
  then show ?thesis by simp
qed

lemma max_count_attained: "xs \<noteq> [] \<Longrightarrow> \<exists>y \<in> set xs. count_list xs y = max_count xs"
proof -
  assume ne: "xs \<noteq> []"
  have fin: "finite (insert 0 (count_list xs ` set xs))" by simp
  have "max_count xs \<in> insert 0 (count_list xs ` set xs)"
    unfolding max_count_def using fin by (rule Max_in) simp
  moreover obtain x where x: "x \<in> set xs" using ne by (cases xs) auto
  moreover have "0 < count_list xs x" using x by (metis count_list_0_iff gr0I)
  moreover have "count_list xs x \<le> max_count xs" by (rule count_le_max_count)
  ultimately show ?thesis by auto
qed

lemma max_count_eqI:
  assumes "\<And>y. count_list xs y \<le> m" and "m = 0 \<or> (\<exists>y. count_list xs y = m)"
  shows "max_count xs = m"
proof (cases "xs = []")
  case True
  with assms(2) show ?thesis by (auto simp: max_count_def)
next
  case False
  then obtain y where y: "y \<in> set xs" "count_list xs y = max_count xs"
    using max_count_attained by blast
  have "m \<le> max_count xs"
    using assms(2) count_le_max_count[of xs] by fastforce
  moreover have "max_count xs \<le> m" using y(2) assms(1)[of y] by simp
  ultimately show ?thesis by simp
qed

lemma max_count_snoc:
  "max_count (xs @ [x]) = max (max_count xs) (Suc (count_list xs x))"
proof (rule max_count_eqI)
  fix y
  show "count_list (xs @ [x]) y \<le> max (max_count xs) (Suc (count_list xs x))"
    using count_le_max_count[of xs y] by auto
next
  show "max (max_count xs) (Suc (count_list xs x)) = 0 \<or>
        (\<exists>y. count_list (xs @ [x]) y = max (max_count xs) (Suc (count_list xs x)))"
  proof (cases "max_count xs \<le> Suc (count_list xs x)")
    case True
    then show ?thesis by (intro disjI2 exI[of _ x]) simp
  next
    case False
    then have "xs \<noteq> []" by (auto simp: max_count_def)
    then obtain y where "count_list xs y = max_count xs" using max_count_attained by blast
    with False show ?thesis
      by (intro disjI2 exI[of _ y]) (auto simp: count_le_max_count)
  qed
qed

lemma running_count_snoc:
  "i < length xs \<Longrightarrow> count_list (take (Suc i) (xs @ [x])) ((xs @ [x]) ! i) = count_list (take (Suc i) xs) (xs ! i)"
  by (simp add: nth_append)

lemma running_count_le: "i < length xs \<Longrightarrow> count_list (take (Suc i) xs) (xs ! i) \<le> max_count xs"
  using count_list_take_le count_le_max_count le_trans by metis

lemma reach_pos_snoc:
  assumes "xs \<noteq> [] \<Longrightarrow> reach_pos xs \<noteq> None"
  shows "reach_pos (xs @ [x]) =
           (if max_count xs < Suc (count_list xs x) then Some (length xs) else reach_pos xs)"
proof (cases "max_count xs < Suc (count_list xs x)")
  case True
  then have m: "max_count (xs @ [x]) = Suc (count_list xs x)" by (simp add: max_count_snoc)
  have "\<And>i. i < length xs \<Longrightarrow> count_list (take (Suc i) (xs @ [x])) ((xs @ [x]) ! i) \<noteq> max_count (xs @ [x])"
    using True m running_count_snoc running_count_le by (metis not_less)
  then have "List.find (\<lambda>i. count_list (take (Suc i) (xs @ [x])) ((xs @ [x]) ! i) = max_count (xs @ [x])) [0..<length xs] = None"
    by (auto simp: find_None_iff)
  with True m show ?thesis by (simp add: reach_pos_def find_snoc)
next
  case False
  then have m: "max_count (xs @ [x]) = max_count xs" by (simp add: max_count_snoc)
  have ne: "xs \<noteq> []" using False by (auto simp: max_count_def)
  have eq: "List.find (\<lambda>i. count_list (take (Suc i) (xs @ [x])) ((xs @ [x]) ! i) = max_count (xs @ [x])) [0..<length xs]
          = reach_pos xs"
    unfolding reach_pos_def m by (rule find_upt_cong) (simp add: nth_append)
  from ne assms obtain i where "reach_pos xs = Some i" by blast
  with False eq show ?thesis by (simp add: reach_pos_def find_snoc)
qed

lemma reach_pos_ne: "xs \<noteq> [] \<Longrightarrow> reach_pos xs \<noteq> None"
proof (induction xs rule: rev_induct)
  case Nil
  then show ?case by simp
next
  case (snoc x xs)
  show ?case
    using reach_pos_snoc[of xs x] snoc.IH by (cases "xs = []") (auto simp: max_count_def)
qed

lemma first_to_reach_snoc:
  "first_to_reach (xs @ [x]) =
     (if max_count xs < Suc (count_list xs x) then x else first_to_reach xs)"
proof -
  have rp: "reach_pos (xs @ [x]) = (if max_count xs < Suc (count_list xs x) then Some (length xs) else reach_pos xs)"
    using reach_pos_snoc reach_pos_ne by blast
  show ?thesis
  proof (cases "max_count xs < Suc (count_list xs x)")
    case True
    with rp show ?thesis by (simp add: first_to_reach_def)
  next
    case False
    then have "xs \<noteq> []" by (auto simp: max_count_def)
    then obtain i where i: "reach_pos xs = Some i" using reach_pos_ne by blast
    then have "i < length xs" by (auto simp: reach_pos_def dest: find_upt_Some_less)
    with False rp i show ?thesis by (simp add: first_to_reach_def nth_append)
  qed
qed

lemma frequency_spec_snoc:
  "frequency_spec (xs @ [x]) = (frequency_spec xs)(x \<mapsto> Suc (count_list xs x))"
  by (auto simp: frequency_spec_def fun_eq_iff count_list_0_iff)

text \<open>The three facts about the frequency table hold together along every history.\<close>

lemma stats_of_frequency_dominant:
  "weatherFrequency (stats_of c ds) = frequency_spec (map wd_condition ds) \<and>
   dominantWeatherFrequency (stats_of c ds) = max_count (map wd_condition ds) \<and>
   dominantWeather (stats_of c ds) = first_to_reach (map wd_condition ds)"
proof (induction ds rule: rev_induct)
  case Nil
  show ?case
    by (simp add: stats_simps frequency_spec_def max_count_def first_to_reach_def reach_pos_def)
next
  case (snoc d ds)
  let ?xs = "map wd_condition ds" and ?x = "wd_condition d"
  have f: "weatherFrequency (stats_of c ds) ?x = (if ?x \<in> set ?xs then Some (count_list ?xs ?x) else None)"
    using snoc.IH by (simp add: frequency_spec_def)
  have n: "(case weatherFrequency (stats_of c ds) ?x of Some k \<Rightarrow> if k \<noteq> 0 then k + 1 else 1 | None \<Rightarrow> 1)
           = Suc (count_list ?xs ?x)"
    using f by (auto simp: count_list_0_iff)
  have dom: "(dominantWeather (stats_of c (ds @ [d])), dominantWeatherFrequency (stats_of c (ds @ [d]))) =
             (first_to_reach (?xs @ [?x]), max_count (?xs @ [?x]))"
    using snoc.IH n by (simp add: add_stats_dominant_fields first_to_reach_snoc max_count_snoc max_def)
  show ?case
    using dom snoc.IH n by (simp add: add_stats_frequency frequency_spec_snoc)
qed

section \<open>Extremes and average along a history\<close>

lemma stats_of_max:
  "\<not> is_nan (maxTemperature (stats_of c ds)) \<and>
   (\<forall>d \<in> set ds. \<not> num_gt (wd_maxTemperature d) (maxTemperature (stats_of c ds))) \<and>
   (maxTemperature (stats_of c ds) = NegInf \<or> maxTemperature (stats_of c ds) \<in> wd_maxTemperature ` set ds)"
proof (induction ds rule: rev_induct)
  case Nil
  then show ?case by (simp add: stats_simps)
next
  case (snoc d ds)
  then show ?case
    by (cases "wd_maxTemperature d") (auto simp: add_stats_fields dest: num_gt_trans)
qed

lemma stats_of_min:
  "\<not> is_nan (minTemperature (stats_of c ds)) \<and>
   (\<forall>d \<in> set ds. \<not> num_lt (wd_minTemperature d) (minTemperature (stats_of c ds))) \<and>
   (minTemperature (stats_of c ds) = PosInf \<or> minTemperature (stats_of c ds) \<in> wd_minTemperature ` set ds)"
proof (induction ds rule: rev_induct)
  case Nil
  then show ?case by (simp add: stats_simps)
next
  case (snoc d ds)
  then show ?case
    by (cases "wd_minTemperature d") (auto simp: add_stats_fields dest: num_lt_trans)
qed

lemma stats_of_city [simp]: "city (stats_of c ds) = c"
  by (induction ds rule: rev_induct) (simp_all add: stats_simps)

lemma stats_of_temperatures: "temperatures (stats_of c ds) = map wd_temperature ds"
  by (induction ds rule: rev_induct) (simp_all add: stats_simps)

lemma stats_of_sum_finite:
  "\<forall>d \<in> set ds. is_fin (wd_temperature d) \<Longrightarrow>
   sumTemperature (stats_of c ds) = Fin (sum_list (map (fin_val \<circ> wd_temperature) ds))"
proof (induction ds rule: rev_induct)
  case Nil
  then show ?case by (simp add: stats_simps)
next
  case (snoc d ds)
  then show ?case by (cases "wd_temperature d") (simp_all add: add_stats_fields)
qed

lemma stats_of_sum_nan:
  "\<exists>d \<in> set ds. is_nan (wd_temperature d) \<Longrightarrow> sumTemperature (stats_of c ds) = NaN"
proof (induction ds rule: rev_induct)
  case Nil
  then show ?case by simp
next
  case (snoc d ds)
  then show ?case by (cases "wd_temperature d") (auto simp: add_stats_fields)
qed

lemma max_finite_eq:
  assumes "ds \<noteq> []" and "\<forall>d \<in> set ds. is_fin (wd_maxTemperature d)"
  shows "maxTemperature (stats_of c ds) = Fin (Max (set (map (fin_val \<circ> wd_maxTemperature) ds)))"
proof -
  let ?m = "maxTemperature (stats_of c ds)" and ?R = "set (map (fin_val \<circ> wd_maxTemperature) ds)"
  have ch: "\<forall>d \<in> set ds. \<not> num_gt (wd_maxTemperature d) ?m"
    and mem: "?m = NegInf \<or> ?m \<in> wd_maxTemperature ` set ds"
    using stats_of_max[of c ds] by auto
  obtain d0 where d0: "d0 \<in> set ds" using assms(1) by (cases ds) auto
  have "?m \<noteq> NegInf"
    using ch d0 assms(2) by (cases "wd_maxTemperature d0") auto
  with mem obtain d1 where d1: "d1 \<in> set ds" "?m = wd_maxTemperature d1" by auto
  with assms(2) obtain r where r: "?m = Fin r" "r \<in> ?R" by (auto simp: is_fin_conv)
  have "\<forall>x \<in> ?R. x \<le> r"
  proof
    fix x assume "x \<in> ?R"
    then obtain d where "d \<in> set ds" "x = fin_val (wd_maxTemperature d)" by auto
    with ch assms(2) r(1) show "x \<le> r" by (cases "wd_maxTemperature d") (auto simp: not_less)
  qed
  with r have "Max ?R = r" by (intro Max_eqI) auto
  with r show ?thesis by simp
qed

lemma min_finite_eq:
  assumes "ds \<noteq> []" and "\<forall>d \<in> set ds. is_fin (wd_minTemperature d)"
  shows "minTemperature (stats_of c ds) = Fin (Min (set (map (fin_val \<circ> wd_minTemperature) ds)))"
proof -
  let ?m = "minTemperature (stats_of c ds)" and ?R = "set (map (fin_val \<circ> wd_minTemperature) ds)"
  have ch: "\<forall>d \<in> set ds. \<not> num_lt (wd_minTemperature d) ?m"
    and mem: "?m = PosInf \<or> ?m \<in> wd_minTemperature ` set ds"
    using stats_of_min[of c ds] by auto
  obtain d0 where d0: "d0 \<in> set ds" using assms(1) by (cases ds) auto
  have "?m \<noteq> PosInf"
    using ch d0 assms(2) by (cases "wd_minTemperature d0") auto
  with mem obtain d1 where d1: "d1 \<in> set ds" "?m = wd_minTemperature d1" by auto
  with assms(2) obtain r where r: "?m = Fin r" "r \<in> ?R" by (auto simp: is_fin_conv)
  have "\<forall>x \<in> ?R. r \<le> x"
  proof
    fix x assume "x \<in> ?R"
    then obtain d where "d \<in> set ds" "x = fin_val (wd_minTemperature d)" by auto
    with ch assms(2) r(1) show "r \<le> x" by (cases "wd_minTemperature d") (auto simp: not_less)
  qed
  with r have "Min ?R = r" by (intro Min_eqI) auto
  with r show ?thesis by simp
qed

lemma summary_of_finite_history:
  assumes "\<forall>d \<in> set ds. finite_data d"
  shows "get_daily_summary (stats_of c ds) = summary_spec c ds"
proof -
  have t: "\<forall>d \<in> set ds. is_fin (wd_temperature d)"
    and mx: "\<forall>d \<in> set ds. is_fin (wd_maxTemperature d)"
    and mn: "\<forall>d \<in> set ds. is_fin (wd_minTemperature d)"
    using assms by (auto simp: finite_data_def)
  have fd: "dominantWeatherFrequency (stats_of c ds) = max_count (map wd_condition ds)"
    and dw: "dominantWeather (stats_of c ds) = first_to_reach (map wd_condition ds)"
    using stats_of_frequency_dominant by blast+
  show ?thesis
  proof (cases "ds = []")
    case True
    then show ?thesis
      by (simp add: get_daily_summary_def summary_spec_def get_average_temperature_def stats_simps
                    max_count_def first_to_reach_def reach_pos_def)
  next
    case False
    then show ?thesis
      using max_finite_eq[OF False mx] min_finite_eq[OF False mn] stats_of_sum_finite[OF t] fd dw
      by (simp add: get_daily_summary_def summary_spec_def get_average_temperature_def
                    stats_of_temperatures Let_def)
  qed
qed

section \<open>The invariant\<close>

lemma stats_inv_reset: "stats_inv (reset_stats s)"
  by (simp add: stats_inv_def reset_stats_def)

lemma stats_inv_new: "stats_inv (new_weather_stats c)"
  by (simp add: new_weather_stats_def stats_inv_reset)

section \<open>Properties\<close>

text \<open>
  C2: every \<open>add_stats\<close> call keeps the object's invariant: counts stay positive, the
  dominant count stays the largest count and the dominant condition's count, and the
  running maximum and minimum never become \<open>NaN\<close>, whatever the observation.
\<close>

theorem add_stats_preserves_inv:
  assumes inv: "stats_inv s"
  shows "stats_inv (add_stats s d)"
proof -
  let ?f = "weatherFrequency s" and ?c = "wd_condition d" and ?m = "dominantWeatherFrequency s"
  define n where "n = (case ?f ?c of Some k \<Rightarrow> if k \<noteq> 0 then k + 1 else 1 | None \<Rightarrow> 1)"
  have pos: "\<And>x k. ?f x = Some k \<Longrightarrow> 0 < k" using inv by (auto simp: stats_inv_def ran_def)
  have n: "n = (case ?f ?c of Some k \<Rightarrow> Suc k | None \<Rightarrow> 1)"
    using pos[of ?c] by (auto simp: n_def split: option.splits)
  have fin: "finite (dom ?f)" using inv by (simp add: stats_inv_def)
  have le_m: "k \<le> ?m" if "?f x = Some k" for x k
  proof -
    from that have "k \<in> ran ?f" by (rule ranI)
    with fin inv show ?thesis by (auto simp: stats_inv_def intro!: Max_ge finite_ran)
  qed
  have freq: "weatherFrequency (add_stats s d) = ?f(?c \<mapsto> n)"
    by (simp add: add_stats_frequency n_def)
  have dw: "dominantWeather (add_stats s d) = (if ?m < n then ?c else dominantWeather s)"
    and dm: "dominantWeatherFrequency (add_stats s d) = max n ?m"
    by (simp_all add: add_stats_dominant_fields n_def)
  have c1: "finite (dom (weatherFrequency (add_stats s d)))" using fin freq by simp
  have c2: "\<forall>k \<in> ran (weatherFrequency (add_stats s d)). 0 < k"
    using pos n freq by (auto simp: ran_def split: if_splits option.splits)
  have c3: "dominantWeatherFrequency (add_stats s d) = Max (insert 0 (ran (weatherFrequency (add_stats s d))))"
  proof -
    have "Max (insert 0 (ran (?f(?c \<mapsto> n)))) = max n (Max (insert 0 (ran ?f)))"
      by (rule Max_ran_upd[OF fin]) (simp add: n)
    with inv freq dm show ?thesis by (simp add: stats_inv_def)
  qed
  have c4: "weatherFrequency (add_stats s d) (dominantWeather (add_stats s d)) = Some (dominantWeatherFrequency (add_stats s d))"
    if "0 < dominantWeatherFrequency (add_stats s d)"
  proof (cases "?m < n")
    case True
    then show ?thesis using freq dw dm by simp
  next
    case False
    then have m0: "0 < ?m" using n by (auto split: option.splits)
    with inv have old: "?f (dominantWeather s) = Some ?m" by (simp add: stats_inv_def)
    have "dominantWeather s \<noteq> ?c"
    proof
      assume "dominantWeather s = ?c"
      with old n have "n = Suc ?m" by simp
      with False show False by simp
    qed
    with False old freq dw dm show ?thesis by simp
  qed
  have c5: "\<not> is_nan (maxTemperature (add_stats s d)) \<and> \<not> is_nan (minTemperature (add_stats s d))"
    using inv by (cases "wd_maxTemperature d"; cases "wd_minTemperature d") (auto simp: stats_inv_def add_stats_fields)
  show ?thesis using c1 c2 c3 c4 c5 by (simp add: stats_inv_def)
qed


text \<open>
  C1: for any history of finite observations, the summary that \<open>getDailySummary\<close> returns
  after the incremental updates is the summary computed from the whole history: the
  greatest maximum and least minimum ever passed (\<open>-Infinity\<close>/\<open>Infinity\<close> for
  none), the mean temperature (0 for none), and the most frequent condition with its
  count, ties going to the condition that reached the count first.
\<close>

theorem summary_refinement:
  assumes "\<forall>d \<in> set ds. finite_data d"
  shows "get_daily_summary (stats_of c ds) = summary_spec c ds"
  using assms by (rule summary_of_finite_history)

text \<open>
  C3: for any history, finite or not, the dominant condition is the first condition whose
  running count reached the highest frequency, the dominant count is that frequency, and
  the frequency table holds exactly the observed conditions with their counts.
\<close>

theorem dominant_first_to_reach:
  "ds_dominantWeather (get_daily_summary (stats_of c ds)) = first_to_reach (map wd_condition ds) \<and>
   ds_dominantWeatherFrequency (get_daily_summary (stats_of c ds)) = max_count (map wd_condition ds) \<and>
   weatherFrequency (stats_of c ds) = frequency_spec (map wd_condition ds)"
  using stats_of_frequency_dominant[of c ds] by (simp add: get_daily_summary_def)

text \<open>
  C4: for any history, the summary's maximum is never \<open>NaN\<close>, no observed maximum compares
  greater than it, and it is an observed maximum or \<open>-Infinity\<close>; dually for the minimum.
  An observation whose extreme is \<open>NaN\<close> is ignored, since \<open>NaN > x\<close> is false.
\<close>

theorem extremes_over_history:
  "\<not> is_nan (ds_maxTemperature (get_daily_summary (stats_of c ds))) \<and>
   (\<forall>d \<in> set ds. \<not> num_gt (wd_maxTemperature d) (ds_maxTemperature (get_daily_summary (stats_of c ds)))) \<and>
   (ds_maxTemperature (get_daily_summary (stats_of c ds)) \<in> insert NegInf (wd_maxTemperature ` set ds)) \<and>
   \<not> is_nan (ds_minTemperature (get_daily_summary (stats_of c ds))) \<and>
   (\<forall>d \<in> set ds. \<not> num_lt (wd_minTemperature d) (ds_minTemperature (get_daily_summary (stats_of c ds)))) \<and>
   (ds_minTemperature (get_daily_summary (stats_of c ds)) \<in> insert PosInf (wd_minTemperature ` set ds))"
  using stats_of_max[of c ds] stats_of_min[of c ds] by (simp add: get_daily_summary_def)

text \<open>
  C5: one temperature that is \<open>NaN\<close> makes the sum \<open>NaN\<close>, and the average stays
  \<open>NaN\<close> for the rest of the process: the aggregator is never reset.
\<close>

theorem average_nan_poisoned:
  assumes "\<exists>d \<in> set ds. is_nan (wd_temperature d)"
  shows "ds_avgTemperature (get_daily_summary (stats_of c ds)) = NaN"
proof -
  have "ds \<noteq> []" using assms by auto
  with stats_of_sum_nan[OF assms, of c] show ?thesis
    by (simp add: get_daily_summary_def get_average_temperature_def stats_of_temperatures)
qed

section \<open>Witnesses\<close>

lemma summary_refinement_witness:
  "finite_data (obs 10 12 8 ''Clear'') \<and> finite_data (obs 20 25 15 ''Rain'') \<and>
   get_daily_summary (stats_of ''Paris'' [obs 10 12 8 ''Clear'', obs 20 25 15 ''Rain''])
     = summary_spec ''Paris'' [obs 10 12 8 ''Clear'', obs 20 25 15 ''Rain'']"
proof -
  have h: "\<forall>d \<in> set [obs 10 12 8 ''Clear'', obs 20 25 15 ''Rain'']. finite_data d"
    by (simp add: obs_def finite_data_def)
  show ?thesis using h summary_refinement[OF h, of "''Paris''"] by simp
qed

lemma add_stats_preserves_inv_witness:
  "stats_inv (new_weather_stats ''Paris'') \<and> stats_inv (add_stats (new_weather_stats ''Paris'') (obs 10 12 8 ''Clear''))"
  using stats_inv_new add_stats_preserves_inv[OF stats_inv_new] by blast

lemma average_nan_poisoned_witness:
  "(\<exists>d \<in> set [obs 10 12 8 ''Clear'', obs 10 12 8 ''Rain''\<lparr>wd_temperature := NaN\<rparr>]. is_nan (wd_temperature d)) \<and>
   ds_avgTemperature (get_daily_summary (stats_of ''Paris'' [obs 10 12 8 ''Clear'', obs 10 12 8 ''Rain''\<lparr>wd_temperature := NaN\<rparr>])) = NaN"
proof -
  have h: "\<exists>d \<in> set [obs 10 12 8 ''Clear'', obs 10 12 8 ''Rain''\<lparr>wd_temperature := NaN\<rparr>]. is_nan (wd_temperature d)"
    by simp
  show ?thesis using h average_nan_poisoned[OF h] by simp
qed

text \<open>The spec's tie-break example: \<open>A, B, A, B\<close> both reach 2, and \<open>A\<close> reached it first.\<close>

lemma dominant_first_to_reach_witness:
  "ds_dominantWeather (get_daily_summary (stats_of ''Paris'' [obs 1 1 1 ''A'', obs 2 2 2 ''B'', obs 3 3 3 ''A'', obs 4 4 4 ''B''])) = ''A'' \<and>
   ds_dominantWeatherFrequency (get_daily_summary (stats_of ''Paris'' [obs 1 1 1 ''A'', obs 2 2 2 ''B'', obs 3 3 3 ''A'', obs 4 4 4 ''B''])) = 2"
proof -
  have "first_to_reach [''A'', ''B'', ''A'', ''B''] = ''A''" and "max_count [''A'', ''B'', ''A'', ''B''] = 2"
    by code_simp+
  then show ?thesis
    using dominant_first_to_reach[of "''Paris''" "[obs 1 1 1 ''A'', obs 2 2 2 ''B'', obs 3 3 3 ''A'', obs 4 4 4 ''B'']"]
    by (simp add: obs_def)
qed

lemma extremes_over_history_witness:
  "ds_maxTemperature (get_daily_summary (stats_of ''Paris'' [obs 10 12 8 ''Clear'', obs 10 12 8 ''Clear''\<lparr>wd_maxTemperature := NaN\<rparr>])) \<in> {NegInf, Fin 12}"
proof -
  let ?m = "ds_maxTemperature (get_daily_summary (stats_of ''Paris'' [obs 10 12 8 ''Clear'', obs 10 12 8 ''Clear''\<lparr>wd_maxTemperature := NaN\<rparr>]))"
  have "\<not> is_nan ?m" and "?m \<in> {NegInf, Fin 12, NaN}"
    using extremes_over_history[of "''Paris''" "[obs 10 12 8 ''Clear'', obs 10 12 8 ''Clear''\<lparr>wd_maxTemperature := NaN\<rparr>]"]
    by (simp_all add: obs_def)
  then show ?thesis by auto
qed

end
