(* ===== verification/WeatherTriggers.thy ===== *)
theory WeatherTriggers
  imports JsValues
begin

text \<open>
  \<open>src/services/weather_triggers.js\<close>, class \<open>WeatherTrigger\<close>: one condition
  \<open>(attribute, operator, threshold)\<close>. \<open>isTriggered(value)\<close> switches on the operator
  string with strict equality and applies JavaScript's \<open>> >= < <=\<close> or \<open>===\<close> to the
  value and the threshold; any other operator throws \<open>Unsupported operator: op\<close>. The
  exception is the \<open>Inl\<close> branch of the result. The threshold is an arbitrary JavaScript
  value: \<open>src/app.js\<close> passes the string the user typed.
\<close>

record weather_trigger =
  attribute :: attribute
  operator :: string
  threshold :: jsval

definition new_weather_trigger :: "attribute \<Rightarrow> string \<Rightarrow> jsval \<Rightarrow> weather_trigger" where
  "new_weather_trigger a op th = \<lparr>attribute = a, operator = op, threshold = th\<rparr>"

datatype trigger_error = UnsupportedOperator string

primrec trigger_error_message :: "trigger_error \<Rightarrow> string" where
  "trigger_error_message (UnsupportedOperator op) = ''Unsupported operator: '' @ op"

definition is_triggered :: "weather_trigger \<Rightarrow> jsval \<Rightarrow> trigger_error + bool" where
  "is_triggered t value =
     (if operator t = ''>'' then Inr (js_gt value (threshold t))
      else if operator t = ''>='' then Inr (js_ge value (threshold t))
      else if operator t = ''<'' then Inr (js_lt value (threshold t))
      else if operator t = ''<='' then Inr (js_le value (threshold t))
      else if operator t = ''=='' then Inr (js_strict_eq value (threshold t))
      else Inl (UnsupportedOperator (operator t)))"

text \<open>The operators the switch handles.\<close>

definition supported_operator :: "string \<Rightarrow> bool" where
  "supported_operator op \<longleftrightarrow> op \<in> {''>'', ''>='', ''<'', ''<='', ''==''}"

text \<open>
  The comparison on real numbers each relational operator means once both sides are
  finite Numbers.
\<close>

definition real_rel :: "string \<Rightarrow> real \<Rightarrow> real \<Rightarrow> bool" where
  "real_rel op v r =
     (if op = ''>'' then r < v else if op = ''>='' then r \<le> v
      else if op = ''<'' then v < r else v \<le> r)"

section \<open>Lemmas\<close>

lemma is_triggered_supported: "supported_operator (operator t) \<longleftrightarrow> (\<exists>b. is_triggered t v = Inr b)"
  by (auto simp: is_triggered_def supported_operator_def)

lemma is_triggered_unsupported:
  "\<not> supported_operator (operator t) \<Longrightarrow> is_triggered t v = Inl (UnsupportedOperator (operator t))"
  by (auto simp: is_triggered_def supported_operator_def)

lemma is_triggered_Inl:
  "is_triggered t v = Inl e \<Longrightarrow> e = UnsupportedOperator (operator t) \<and> \<not> supported_operator (operator t)"
  by (auto simp: is_triggered_def supported_operator_def split: if_splits)

section \<open>Properties\<close>

text \<open>
  A relational trigger compares numerically when the observed value is a finite Number
  and the threshold string reads as a finite Number: \<open>temperature > "30"\<close> fires for 35
  and not for 25. A threshold string that does not read as a Number (ToNumber gives
  \<open>NaN\<close>) never fires.
\<close>

theorem relational_trigger_numeric:
  assumes "operator t \<in> {''>'', ''>='', ''<'', ''<=''}" and "threshold t = JStr s"
  shows "(string_to_number s = Fin r \<longrightarrow> is_triggered t (JNum (Fin v)) = Inr (real_rel (operator t) v r)) \<and>
         (string_to_number s = NaN \<longrightarrow> is_triggered t (JNum (Fin v)) = Inr False)"
  using assms by (auto simp: is_triggered_def real_rel_def js_eval)

text \<open>
  C8: an \<open>==\<close> trigger uses \<open>===\<close>, so a Number never equals the threshold string that
  \<open>app.js\<close> stores: a temperature trigger with \<open>==\<close> never fires, whatever the user typed.
\<close>

theorem strict_eq_trigger_never_fires_on_number:
  "operator t = ''=='' \<Longrightarrow> threshold t = JStr s \<Longrightarrow> is_triggered t (JNum n) = Inr False"
  by (cases n) (simp_all add: is_triggered_def)

text \<open>
  C33: a threshold typed as the decimal digits of a natural number \<open>n\<close> compares as
  \<open>n\<close>: ToNumber reads the digit string back exactly, so a relational trigger fires on
  a finite observation \<open>v\<close> exactly when \<open>v\<close> stands in the operator's relation to
  \<open>n\<close>. Unlike \<open>relational_trigger_numeric\<close>, nothing is assumed about what ToNumber
  returns.
\<close>

theorem decimal_threshold_numeric:
  assumes "operator t \<in> {''>'', ''>='', ''<'', ''<=''}" and "threshold t = JStr (nat_str n)"
  shows "is_triggered t (JNum (Fin v)) = Inr (real_rel (operator t) v (real n))"
  using assms string_to_number_nat_str [of n] by (auto simp: is_triggered_def real_rel_def js_eval)

section \<open>Witnesses\<close>

lemma relational_trigger_numeric_witness:
  "is_triggered (new_weather_trigger ''temperature'' ''>'' (JStr ''30'')) (JNum (Fin 35)) = Inr True \<and>
   is_triggered (new_weather_trigger ''temperature'' ''>'' (JStr ''30'')) (JNum (Fin 25)) = Inr False"
proof -
  have n: "string_to_number ''30'' = Fin 30" by code_simp
  have op: "operator (new_weather_trigger ''temperature'' ''>'' (JStr ''30'')) \<in> {''>'', ''>='', ''<'', ''<=''}"
    and th: "threshold (new_weather_trigger ''temperature'' ''>'' (JStr ''30'')) = JStr ''30''"
    by (simp_all add: new_weather_trigger_def)
  show ?thesis
    using relational_trigger_numeric[OF op th, of 30 35] relational_trigger_numeric[OF op th, of 30 25] n
    by (simp add: real_rel_def new_weather_trigger_def)
qed

lemma strict_eq_trigger_never_fires_on_number_witness:
  "is_triggered (new_weather_trigger ''temperature'' ''=='' (JStr ''35'')) (JNum (Fin 35)) = Inr False"
  by (rule strict_eq_trigger_never_fires_on_number) (simp_all add: new_weather_trigger_def)

lemma decimal_threshold_numeric_witness:
  "nat_str 30 = ''30'' \<and>
   is_triggered (new_weather_trigger ''temperature'' ''>='' (JStr (nat_str 30))) (JNum (Fin 30)) = Inr True \<and>
   is_triggered (new_weather_trigger ''temperature'' ''<'' (JStr (nat_str 30))) (JNum (Fin 30)) = Inr False"
proof -
  have s: "nat_str 30 = ''30''" by code_simp
  show ?thesis
    using decimal_threshold_numeric [of "new_weather_trigger ''temperature'' ''>='' (JStr (nat_str 30))" 30 30]
      decimal_threshold_numeric [of "new_weather_trigger ''temperature'' ''<'' (JStr (nat_str 30))" 30 30] s
    by (simp add: new_weather_trigger_def real_rel_def)
qed

end
