(* ===== verification/Enums.thy ===== *)
theory Enums
  imports Prelude
begin

text \<open>
  \<open>src/utils/enums.js\<close>: the temperature unit the user chooses, a class with two static
  string fields, and \<open>getTemperatureType\<close>, which lower-cases its argument and returns the
  matching field or \<open>null\<close>. The class becomes a datatype with the two strings as its
  names, \<open>null\<close> becomes \<open>None\<close>.
\<close>

datatype temperature_type = Celsius | Fahrenheit

primrec temperature_type_name :: "temperature_type \<Rightarrow> string" where
  "temperature_type_name Celsius = ''celsius''"
| "temperature_type_name Fahrenheit = ''fahrenheit''"

text \<open>
  \<open>String.prototype.toLowerCase\<close> on the ASCII letters. Beyond ASCII only U+0130 and
  U+212A lower-case to ASCII letters (\<open>i\<close> followed by U+0307, and \<open>k\<close>), and neither
  can complete \<open>celsius\<close> or \<open>fahrenheit\<close>, so for the comparison below the ASCII
  mapping decides the same strings as the full Unicode one.
\<close>

definition ascii_lower :: "char \<Rightarrow> char" where
  "ascii_lower c = (let n = of_char c :: nat in if 65 \<le> n \<and> n \<le> 90 then char_of (n + 32) else c)"

definition to_lower_case :: "string \<Rightarrow> string" where
  "to_lower_case s = map ascii_lower s"

definition get_temperature_type :: "string \<Rightarrow> temperature_type option" where
  "get_temperature_type type_str =
     (let normalized_type = to_lower_case type_str
      in if normalized_type = temperature_type_name Celsius then Some Celsius
         else if normalized_type = temperature_type_name Fahrenheit then Some Fahrenheit
         else None)"


section \<open>Lemmas\<close>

lemma to_lower_case_name: "to_lower_case (temperature_type_name t) = temperature_type_name t"
proof (cases t)
  case Celsius
  have "to_lower_case ''celsius'' = ''celsius''" by code_simp
  with Celsius show ?thesis by simp
next
  case Fahrenheit
  have "to_lower_case ''fahrenheit'' = ''fahrenheit''" by code_simp
  with Fahrenheit show ?thesis by simp
qed

section \<open>Properties\<close>

text \<open>
  C21: \<open>getTemperatureType\<close> accepts a string exactly when its lower-case form is the name
  of a unit, and then returns that unit; in particular each unit's own name maps back to it.
\<close>

theorem temperature_type_lookup:
  "get_temperature_type (temperature_type_name t) = Some t \<and>
   (get_temperature_type s = Some t \<longleftrightarrow> to_lower_case s = temperature_type_name t)"
proof -
  have "get_temperature_type s = Some t \<longleftrightarrow> to_lower_case s = temperature_type_name t" for s
    by (cases t) (auto simp: get_temperature_type_def Let_def)
  with to_lower_case_name show ?thesis by blast
qed

section \<open>Witnesses\<close>

lemma temperature_type_lookup_witness:
  "get_temperature_type ''CELSIUS'' = Some Celsius \<and> get_temperature_type ''kelvin'' = None"
proof -
  have "to_lower_case ''CELSIUS'' = temperature_type_name Celsius" by code_simp
  then have "get_temperature_type ''CELSIUS'' = Some Celsius"
    using temperature_type_lookup [of Celsius "''CELSIUS''"] by blast
  moreover have "get_temperature_type ''kelvin'' = None" by code_simp
  ultimately show ?thesis by blast
qed

end
