(* ===== verification/Utils.thy ===== *)
theory Utils
  imports JsValues
begin

text \<open>
  \<open>src/utils/utils.js\<close>: the two unit conversions and \<open>logErrorToFile\<close>. The error
  log \<open>cron_error.log\<close> is modelled as the list of its lines, each an ISO timestamp
  (the time in milliseconds) and the error's message; \<open>appendFileSync\<close> appends one line.
\<close>

definition kelvin_to_celsius :: "jsnum \<Rightarrow> jsnum" where
  "kelvin_to_celsius temp = js_sub temp (Fin 273.15)"

definition celsius_to_fahrenheit :: "jsnum \<Rightarrow> jsnum" where
  "celsius_to_fahrenheit temp = js_add (js_div (js_mul temp (Fin 9)) (Fin 5)) (Fin 32)"

type_synonym timestamp = nat

record error_line =
  el_time :: timestamp
  el_message :: string

type_synonym error_log = "error_line list"

definition log_error_to_file :: "timestamp \<Rightarrow> string \<Rightarrow> error_log \<Rightarrow> error_log" where
  "log_error_to_file now message lines = lines @ [\<lparr>el_time = now, el_message = message\<rparr>]"

end
