(* ===== verification/WeatherManager.thy ===== *)
theory WeatherManager
  imports WeatherStats WeatherTriggers Enums Utils
begin

text \<open>
  \<open>src/services/weather_manager.js\<close>, class \<open>WeatherManager\<close>: the composition root.
  It owns one \<open>WeatherStats\<close>, a list of \<open>WeatherTrigger\<close>s and the unit. The record
  \<open>weather_manager\<close> holds the three fields; each method is a function that returns the
  updated record, the console lines it prints, and (for \<open>addWeatherData\<close>) the exception
  it lets escape.

  \<open>checkWeatherTriggers\<close> loops over the triggers in insertion order. A trigger whose
  attribute the observation lacks prints \<open>Invalid attribute\<close> and is skipped. A trigger
  whose operator is unsupported throws from \<open>isTriggered\<close>; nothing in the loop catches it,
  so the loop stops there, the remaining triggers are not evaluated and the list of met
  triggers is never printed. \<open>addWeatherData\<close> has already updated the statistics when
  this happens.
\<close>

section \<open>State and operations\<close>

record weather_manager =
  weatherStats :: weather_stats
  triggers :: "weather_trigger list"
  temperatureType :: temperature_type

text \<open>Constructor, lines 7--11.\<close>

definition new_weather_manager :: "city \<Rightarrow> temperature_type \<Rightarrow> weather_manager" where
  "new_weather_manager c tt = \<lparr>weatherStats = new_weather_stats c, triggers = [], temperatureType = tt\<rparr>"

text \<open>\<open>addTrigger\<close>, lines 17--19.\<close>

definition add_trigger :: "weather_manager \<Rightarrow> attribute \<Rightarrow> string \<Rightarrow> jsval \<Rightarrow> weather_manager" where
  "add_trigger m a op th = m\<lparr>triggers := triggers m @ [new_weather_trigger a op th]\<rparr>"

text \<open>\<open>format_temperature\<close>, lines 66--71: Kelvin to Celsius, or the value unchanged.\<close>

definition format_temperature :: "weather_manager \<Rightarrow> jsnum \<Rightarrow> jsnum" where
  "format_temperature m t = (if temperatureType m = Celsius then kelvin_to_celsius t else t)"

text \<open>
  \<open>weatherData[trigger.attribute]\<close> (line 43) on the object the polling job builds: its four
  own properties, and \<open>undefined\<close> for any other name.
\<close>

definition weather_data_get :: "weather_data \<Rightarrow> attribute \<Rightarrow> jsval" where
  "weather_data_get d a =
     (if a = ''temperature'' then JNum (wd_temperature d)
      else if a = ''maxTemperature'' then JNum (wd_maxTemperature d)
      else if a = ''minTemperature'' then JNum (wd_minTemperature d)
      else if a = ''condition'' then JStr (wd_condition d)
      else JUndefined)"

text \<open>A met trigger as the template string of line 47 shows it: its three parts and the value.\<close>

record trigger_fired =
  tf_attribute :: attribute
  tf_operator :: string
  tf_threshold :: jsval
  tf_current :: jsval

datatype manager_log = InvalidAttribute attribute | TriggersMet "trigger_fired list"

text \<open>The \<open>for\<close> loop of \<open>checkWeatherTriggers\<close>, lines 41--52.\<close>

fun check_triggers_loop ::
  "weather_trigger list \<Rightarrow> weather_data \<Rightarrow> trigger_fired list \<Rightarrow> manager_log list \<Rightarrow>
   (trigger_error + trigger_fired list) \<times> manager_log list" where
  "check_triggers_loop [] d met logs = (Inr met, logs)"
| "check_triggers_loop (t # ts) d met logs =
     (let value = weather_data_get d (attribute t)
      in if value \<noteq> JUndefined then
           (case is_triggered t value of
              Inl e \<Rightarrow> (Inl e, logs)
            | Inr True \<Rightarrow> check_triggers_loop ts d
                 (met @ [\<lparr>tf_attribute = attribute t, tf_operator = operator t,
                          tf_threshold = threshold t, tf_current = value\<rparr>]) logs
            | Inr False \<Rightarrow> check_triggers_loop ts d met logs)
         else check_triggers_loop ts d met (logs @ [InvalidAttribute (attribute t)]))"

text \<open>\<open>checkWeatherTriggers\<close>, lines 38--56: \<open>Some e\<close> is the exception that escapes.\<close>

definition check_weather_triggers ::
  "weather_manager \<Rightarrow> weather_data \<Rightarrow> trigger_error option \<times> manager_log list" where
  "check_weather_triggers m d =
     (case check_triggers_loop (triggers m) d [] [] of
        (Inl e, logs) \<Rightarrow> (Some e, logs)
      | (Inr met, logs) \<Rightarrow> (None, logs @ [TriggersMet met]))"

text \<open>\<open>addWeatherData\<close>, lines 25--32: convert the three temperatures, record, check.\<close>

definition format_weather_data :: "weather_manager \<Rightarrow> weather_data \<Rightarrow> weather_data" where
  "format_weather_data m d =
     d\<lparr>wd_temperature := format_temperature m (wd_temperature d),
       wd_maxTemperature := format_temperature m (wd_maxTemperature d),
       wd_minTemperature := format_temperature m (wd_minTemperature d)\<rparr>"

definition add_weather_data ::
  "weather_manager \<Rightarrow> weather_data \<Rightarrow> weather_manager \<times> trigger_error option \<times> manager_log list" where
  "add_weather_data m d =
     (let d' = format_weather_data m d;
          m' = m\<lparr>weatherStats := add_stats (weatherStats m) d'\<rparr>
      in (m', check_weather_triggers m' d'))"

text \<open>\<open>getDailySummary\<close> and \<open>getCity\<close>, lines 58--64.\<close>

definition manager_daily_summary :: "weather_manager \<Rightarrow> daily_summary" where
  "manager_daily_summary m = get_daily_summary (weatherStats m)"

definition get_city :: "weather_manager \<Rightarrow> city" where
  "get_city m = city (weatherStats m)"

text \<open>The manager after a sequence of \<open>addWeatherData\<close> calls (exceptions do not stop it).\<close>

fun ingest_all :: "weather_manager \<Rightarrow> weather_data list \<Rightarrow> weather_manager" where
  "ingest_all m [] = m"
| "ingest_all m (d # ds) = ingest_all (fst (add_weather_data m d)) ds"

text \<open>The triggers that fire on an observation, in insertion order, as the loop reports them.\<close>

definition met_triggers :: "weather_trigger list \<Rightarrow> weather_data \<Rightarrow> trigger_fired list" where
  "met_triggers ts d =
     [\<lparr>tf_attribute = attribute t, tf_operator = operator t, tf_threshold = threshold t,
       tf_current = weather_data_get d (attribute t)\<rparr>.
       t \<leftarrow> ts, weather_data_get d (attribute t) \<noteq> JUndefined \<and>
                is_triggered t (weather_data_get d (attribute t)) = Inr True]"


text \<open>The attribute names the observation object has as own properties.\<close>

definition known_attribute :: "attribute \<Rightarrow> bool" where
  "known_attribute a \<longleftrightarrow> a \<in> {''temperature'', ''maxTemperature'', ''minTemperature'', ''condition''}"

text \<open>A trigger the loop passes without an exception: unknown attribute, or supported operator.\<close>

definition trigger_ok :: "weather_trigger \<Rightarrow> bool" where
  "trigger_ok t \<longleftrightarrow> \<not> known_attribute (attribute t) \<or> supported_operator (operator t)"

definition invalid_lines :: "weather_trigger list \<Rightarrow> manager_log list" where
  "invalid_lines ts = [InvalidAttribute (attribute t). t \<leftarrow> ts, \<not> known_attribute (attribute t)]"

section \<open>Lemmas\<close>

lemma weather_data_get_undefined [simp]:
  "weather_data_get d a = JUndefined \<longleftrightarrow> \<not> known_attribute a"
  by (simp add: weather_data_get_def known_attribute_def)

lemma check_triggers_loop_ok:
  "list_all trigger_ok ts \<Longrightarrow>
   check_triggers_loop ts d met logs = (Inr (met @ met_triggers ts d), logs @ invalid_lines ts)"
proof (induction ts arbitrary: met logs)
  case Nil
  then show ?case by (simp add: met_triggers_def invalid_lines_def)
next
  case (Cons t ts)
  then show ?case
    by (auto simp: met_triggers_def invalid_lines_def trigger_ok_def Let_def
             split: sum.splits bool.splits dest: is_triggered_Inl)
qed

lemma check_triggers_loop_error:
  "list_all trigger_ok ts1 \<Longrightarrow> known_attribute (attribute t) \<Longrightarrow> \<not> supported_operator (operator t) \<Longrightarrow>
   check_triggers_loop (ts1 @ t # ts2) d met logs = (Inl (UnsupportedOperator (operator t)), logs @ invalid_lines ts1)"
proof (induction ts1 arbitrary: met logs)
  case Nil
  then show ?case by (simp add: invalid_lines_def is_triggered_unsupported)
next
  case (Cons t' ts)
  then show ?case
    by (auto simp: invalid_lines_def trigger_ok_def Let_def
             split: sum.splits bool.splits dest: is_triggered_Inl)
qed

lemma add_weather_data_manager:
  "fst (add_weather_data m d) = m\<lparr>weatherStats := add_stats (weatherStats m) (format_weather_data m d)\<rparr>"
  by (simp add: add_weather_data_def Let_def)

lemma format_weather_data_condition [simp]: "wd_condition (format_weather_data m d) = wd_condition d"
  by (simp add: format_weather_data_def)

lemma ingest_all_fields:
  "triggers (ingest_all m ds) = triggers m \<and> temperatureType (ingest_all m ds) = temperatureType m \<and>
   weatherStats (ingest_all m ds) = foldl add_stats (weatherStats m) (map (format_weather_data m) ds)"
proof (induction ds arbitrary: m)
  case Nil
  then show ?case by simp
next
  case (Cons d ds)
  have "format_weather_data (fst (add_weather_data m d)) = format_weather_data m"
    by (simp add: add_weather_data_manager format_weather_data_def format_temperature_def fun_eq_iff)
  with Cons[of "fst (add_weather_data m d)"] show ?case by (simp add: add_weather_data_manager)
qed

lemma ingest_all_new:
  "weatherStats (ingest_all (new_weather_manager c tt) ds) =
     stats_of c (map (format_weather_data (new_weather_manager c tt)) ds)"
  using ingest_all_fields by (simp add: stats_of_def new_weather_manager_def)

lemma finite_data_format: "finite_data d \<Longrightarrow> finite_data (format_weather_data m d)"
  by (simp add: finite_data_def format_weather_data_def format_temperature_def kelvin_to_celsius_def)

section \<open>Properties\<close>

text \<open>
  C9: an unsupported operator aborts the whole trigger pass, not only its own rule. When
  the first trigger that throws is \<open>t\<close> (its attribute is present and its operator is not
  one of \<open>> >= < <= ==\<close>), \<open>addWeatherData\<close> has already recorded the observation, the
  exception escapes, the only lines printed are the \<open>Invalid attribute\<close> lines of the
  triggers before \<open>t\<close>, the triggers after \<open>t\<close> are never evaluated and the list of met
  triggers is never printed.
\<close>

theorem unsupported_operator_aborts_pass:
  assumes "triggers m = ts1 @ t # ts2" and "list_all trigger_ok ts1"
    and "known_attribute (attribute t)" and "\<not> supported_operator (operator t)"
  shows "add_weather_data m d =
           (m\<lparr>weatherStats := add_stats (weatherStats m) (format_weather_data m d)\<rparr>,
            Some (UnsupportedOperator (operator t)), invalid_lines ts1)"
  using check_triggers_loop_error[OF assms(2-4), of ts2 "format_weather_data m d" "[]" "[]"] assms(1)
  by (simp add: add_weather_data_def check_weather_triggers_def Let_def)

text \<open>
  C10: when no trigger throws, \<open>addWeatherData\<close> records the converted observation and
  prints one \<open>Invalid attribute\<close> line per trigger on an unknown attribute, then the met
  triggers in insertion order, each with the value it was compared with.
\<close>

theorem triggers_reported_in_order:
  assumes "list_all trigger_ok (triggers m)"
  shows "add_weather_data m d =
           (m\<lparr>weatherStats := add_stats (weatherStats m) (format_weather_data m d)\<rparr>, None,
            invalid_lines (triggers m) @ [TriggersMet (met_triggers (triggers m) (format_weather_data m d))])"
  using check_triggers_loop_ok[OF assms, of "format_weather_data m d" "[]" "[]"]
  by (simp add: add_weather_data_def check_weather_triggers_def Let_def)

text \<open>
  C11: the unit conversion \<open>addWeatherData\<close> applies, for every manager and every
  finite Kelvin reading \<open>r\<close>: in \<open>celsius\<close> mode the recorded temperature is
  \<open>r - 273.15\<close>; in \<open>fahrenheit\<close> mode it is \<open>r\<close> itself, the Kelvin value
  (\<open>celsiusToFahrenheit\<close> is never called), which is the Fahrenheit temperature of the
  reading only for \<open>r = 574.5875\<close>.
\<close>

theorem unit_conversion:
  assumes "wd_temperature d = Fin r"
  shows "temperatures (weatherStats (fst (add_weather_data m d))) =
           temperatures (weatherStats m) @ [if temperatureType m = Celsius then Fin (r - 273.15) else Fin r] \<and>
         (Fin r = celsius_to_fahrenheit (kelvin_to_celsius (Fin r)) \<longleftrightarrow> r = 574.5875)"
proof -
  have "Fin r = celsius_to_fahrenheit (kelvin_to_celsius (Fin r)) \<longleftrightarrow> r = (r - 273.15) * 9 / 5 + 32"
    by (simp add: celsius_to_fahrenheit_def kelvin_to_celsius_def js_sub_def)
  also have "\<dots> \<longleftrightarrow> r = 574.5875" by (simp add: field_simps)
  finally show ?thesis using assms
    by (simp add: add_weather_data_manager format_weather_data_def format_temperature_def
                  kelvin_to_celsius_def js_sub_def add_stats_fields)
qed

section \<open>Witnesses\<close>

lemma unit_conversion_witness:
  "wd_temperature \<lparr>wd_temperature = Fin 300.15, wd_maxTemperature = Fin 300.15, wd_minTemperature = Fin 300.15,
                   wd_condition = ''Clear''\<rparr> = Fin 300.15 \<and>
   temperatures (weatherStats (fst (add_weather_data (new_weather_manager ''Paris'' Fahrenheit)
      \<lparr>wd_temperature = Fin 300.15, wd_maxTemperature = Fin 300.15, wd_minTemperature = Fin 300.15,
       wd_condition = ''Clear''\<rparr>))) = [Fin 300.15]"
  using unit_conversion [of "\<lparr>wd_temperature = Fin 300.15, wd_maxTemperature = Fin 300.15, wd_minTemperature = Fin 300.15,
                              wd_condition = ''Clear''\<rparr>" "300.15" "new_weather_manager ''Paris'' Fahrenheit"]
  by (simp add: new_weather_manager_def new_weather_stats_fields)

lemma unsupported_operator_aborts_pass_witness:
  "snd (add_weather_data (add_trigger (add_trigger (new_weather_manager ''Paris'' Celsius) ''temperature'' ''!='' (JStr ''30''))
                       ''condition'' ''=='' (JStr ''Rain''))
     \<lparr>wd_temperature = Fin 300, wd_maxTemperature = Fin 301, wd_minTemperature = Fin 299, wd_condition = ''Rain''\<rparr>)
   = (Some (UnsupportedOperator ''!=''), [])"
proof -
  let ?m = "add_trigger (add_trigger (new_weather_manager ''Paris'' Celsius) ''temperature'' ''!='' (JStr ''30''))
              ''condition'' ''=='' (JStr ''Rain'')"
  have t: "triggers ?m = [] @ new_weather_trigger ''temperature'' ''!='' (JStr ''30'') # [new_weather_trigger ''condition'' ''=='' (JStr ''Rain'')]"
    by (simp add: add_trigger_def new_weather_manager_def)
  have k: "known_attribute (attribute (new_weather_trigger ''temperature'' ''!='' (JStr ''30'')))"
    by (simp add: known_attribute_def new_weather_trigger_def)
  have u: "\<not> supported_operator (operator (new_weather_trigger ''temperature'' ''!='' (JStr ''30'')))"
    by (simp add: supported_operator_def new_weather_trigger_def)
  show ?thesis
    using unsupported_operator_aborts_pass[OF t _ k u]
    by (simp add: invalid_lines_def new_weather_trigger_def add_trigger_def new_weather_manager_def format_weather_data_def)
qed

lemma triggers_reported_in_order_witness:
  "snd (snd (add_weather_data (add_trigger (new_weather_manager ''Paris'' Celsius) ''condition'' ''=='' (JStr ''Rain''))
     \<lparr>wd_temperature = Fin 300, wd_maxTemperature = Fin 301, wd_minTemperature = Fin 299, wd_condition = ''Rain''\<rparr>))
   = [TriggersMet [\<lparr>tf_attribute = ''condition'', tf_operator = ''=='', tf_threshold = JStr ''Rain'', tf_current = JStr ''Rain''\<rparr>]]"
proof -
  let ?m = "add_trigger (new_weather_manager ''Paris'' Celsius) ''condition'' ''=='' (JStr ''Rain'')"
  have ok: "list_all trigger_ok (triggers ?m)"
    by (simp add: add_trigger_def new_weather_manager_def new_weather_trigger_def trigger_ok_def supported_operator_def)
  show ?thesis
    using triggers_reported_in_order[OF ok]
    by (simp add: add_trigger_def new_weather_manager_def new_weather_trigger_def invalid_lines_def
                  known_attribute_def met_triggers_def weather_data_get_def format_weather_data_def is_triggered_def)
qed

end
