(* ===== verification/WeatherSummaryModel.thy ===== *)
theory WeatherSummaryModel
  imports WeatherStats
begin

text \<open>
  \<open>src/models/weather_stats_schema.js\<close>: the Mongoose model \<open>WeatherSummary\<close> that the
  persistence job writes with \<open>WeatherSummary.create(statsToSave)\<close>. The schema declares
  six paths, all \<open>required\<close>; the snapshot also carries \<open>dominantWeatherFrequency\<close>,
  which the schema does not declare. What \<open>create\<close> does with a snapshot follows
  Mongoose's documented rules for these types:
  \<^item> a \<open>String\<close> path fails \<open>required\<close> when the value is the empty string;
  \<^item> a \<open>Number\<close> path casts a Number and rejects \<open>NaN\<close> with a cast error; the
    infinities are Numbers and are kept;
  \<^item> a path the schema does not declare is dropped (strict mode, the default).
  The result is either the list of failing paths (the \<open>ValidationError\<close>) or the stored
  document. The indexes (lines 8, 13, 34) speed up queries and change no result.
\<close>

text \<open>The date the snapshot is stored under: milliseconds since the epoch, as a \<open>Date\<close> holds it.\<close>

type_synonym js_date = int

record stored_summary =
  st_city :: city
  st_date :: js_date
  st_maxTemperature :: jsnum
  st_minTemperature :: jsnum
  st_avgTemperature :: jsnum
  st_dominantWeather :: condition

text \<open>The object the job passes to \<open>create\<close>: the snapshot with \<open>date\<close> added.\<close>

record stats_to_save =
  sv_summary :: daily_summary
  sv_date :: js_date

definition string_path_errors :: "string \<Rightarrow> string \<Rightarrow> string list" where
  "string_path_errors path v = (if v = [] then [path] else [])"

definition number_path_errors :: "string \<Rightarrow> jsnum \<Rightarrow> string list" where
  "number_path_errors path v = (if is_nan v then [path] else [])"

text \<open>The document a valid snapshot becomes: the six declared paths, nothing else.\<close>

definition stored_fields :: "daily_summary \<Rightarrow> js_date \<Rightarrow> stored_summary" where
  "stored_fields s dt =
     \<lparr>st_city = ds_city s, st_date = dt, st_maxTemperature = ds_maxTemperature s,
      st_minTemperature = ds_minTemperature s, st_avgTemperature = ds_avgTemperature s,
      st_dominantWeather = ds_dominantWeather s\<rparr>"

text \<open>\<open>WeatherSummary.create\<close> on the schema of lines 4--31: validation, then the stored document.\<close>

definition weather_summary_create :: "stats_to_save \<Rightarrow> string list + stored_summary" where
  "weather_summary_create doc =
     (let s = sv_summary doc;
          errs = string_path_errors ''city'' (ds_city s) @
                 number_path_errors ''maxTemperature'' (ds_maxTemperature s) @
                 number_path_errors ''minTemperature'' (ds_minTemperature s) @
                 number_path_errors ''avgTemperature'' (ds_avgTemperature s) @
                 string_path_errors ''dominantWeather'' (ds_dominantWeather s)
      in if errs = [] then Inr (stored_fields s (sv_date doc)) else Inl errs)"


section \<open>Lemmas\<close>

lemma weather_summary_create_Inr:
  "weather_summary_create doc = Inr st \<Longrightarrow> st = stored_fields (sv_summary doc) (sv_date doc)"
  by (simp add: weather_summary_create_def Let_def split: if_splits)

end
