(* ===== verification/Dates.thy ===== *)
theory Dates
  imports Prelude
begin

text \<open>
  The date arithmetic of \<open>src/cron/weather_save_cron.js\<close>, line 11:
  \<^verbatim>\<open>const yesterday = new Date(new Date().setDate(new Date().getDate() - 1));\<close>
  A \<open>Date\<close> is a time value in milliseconds since 1970-01-01T00:00Z. \<open>getDate\<close> reads the
  day of the month; \<open>setDate(k)\<close> keeps the year, month and time of day and moves to day
  \<open>k\<close> of that month, counting past either end of the month (\<open>setDate(0)\<close> is the last day
  of the month before). Both work in the process's local time zone, modelled here as UTC
  (offset 0, no daylight saving), and on time values from 1970 on.

  The expression reads the clock twice: first \<open>A = new Date()\<close>, whose \<open>setDate\<close> is
  called, then \<open>B = new Date()\<close>, whose \<open>getDate\<close> gives the argument. The model takes
  both readings.

  The calendar is the proleptic Gregorian one of ECMAScript, computed by the two loops
  \<open>year_loop\<close> and \<open>month_loop\<close> that peel whole years and months off a day count.
\<close>

type_synonym time_value = int

definition ms_per_day :: int where
  "ms_per_day = 86400000"

definition leap_year :: "int \<Rightarrow> bool" where
  "leap_year y \<longleftrightarrow> (y mod 4 = 0 \<and> y mod 100 \<noteq> 0) \<or> y mod 400 = 0"

definition days_in_year :: "int \<Rightarrow> nat" where
  "days_in_year y = (if leap_year y then 366 else 365)"

definition days_in_month :: "int \<Rightarrow> nat \<Rightarrow> nat" where
  "days_in_month y m =
     (if m = 2 then (if leap_year y then 29 else 28)
      else if m \<in> {4, 6, 9, 11} then 30 else 31)"

text \<open>Month loop: \<open>n\<close> days into month \<open>m\<close> of year \<open>y\<close>; the result is (year, month, day).\<close>

function month_loop :: "int \<Rightarrow> nat \<Rightarrow> nat \<Rightarrow> int \<times> nat \<times> nat" where
  "month_loop y m n =
     (if m < 12 \<and> days_in_month y m \<le> n then month_loop y (Suc m) (n - days_in_month y m)
      else (y, m, Suc n))"
  by pat_completeness auto
termination
  by (relation "measure (\<lambda>(y, m, n). 12 - m)") auto

function year_loop :: "int \<Rightarrow> nat \<Rightarrow> int \<times> nat \<times> nat" where
  "year_loop y n =
     (if n < days_in_year y then month_loop y 1 n else year_loop (y + 1) (n - days_in_year y))"
  by pat_completeness auto
termination
  by (relation "measure (\<lambda>(y, n). n)") (auto simp: days_in_year_def)

declare month_loop.simps [simp del] year_loop.simps [simp del]

text \<open>The civil date of a day number (days since 1970-01-01).\<close>

definition civil_from_days :: "nat \<Rightarrow> int \<times> nat \<times> nat" where
  "civil_from_days n = year_loop 1970 n"

text \<open>ECMAScript's MakeDay for a date in year \<open>y \<ge> 1970\<close>: days before the year, before the month, and \<open>d - 1\<close>.\<close>

definition days_from_civil :: "int \<Rightarrow> nat \<Rightarrow> int \<Rightarrow> int" where
  "days_from_civil y m d =
     int (\<Sum>y' \<in> {1970..<y}. days_in_year y') + int (\<Sum>m' \<in> {1..<m}. days_in_month y m') + d - 1"

definition day_number :: "time_value \<Rightarrow> nat" where
  "day_number t = nat (t div ms_per_day)"

definition get_date :: "time_value \<Rightarrow> nat" where
  "get_date t = (case civil_from_days (day_number t) of (y, m, d) \<Rightarrow> d)"

definition set_date :: "time_value \<Rightarrow> int \<Rightarrow> time_value" where
  "set_date t k =
     (case civil_from_days (day_number t) of
        (y, m, d) \<Rightarrow> days_from_civil y m k * ms_per_day + t mod ms_per_day)"

text \<open>Line 11 with the two clock readings \<open>a\<close> (the receiver) and \<open>b\<close> (the argument's).\<close>

definition js_yesterday :: "time_value \<Rightarrow> time_value \<Rightarrow> time_value" where
  "js_yesterday a b = set_date a (int (get_date b) - 1)"


section \<open>The calendar loops\<close>

lemma month_loop_days:
  "1 \<le> m \<Longrightarrow> month_loop y m n = (y', m', d) \<Longrightarrow>
   y' = y \<and> 1 \<le> d \<and> (\<Sum>i \<in> {1..<m'}. days_in_month y i) + d = (\<Sum>i \<in> {1..<m}. days_in_month y i) + Suc n"
proof (induction y m n rule: month_loop.induct)
  case (1 y m n)
  show ?case
  proof (cases "m < 12 \<and> days_in_month y m \<le> n")
    case True
    with "1.prems" have "month_loop y (Suc m) (n - days_in_month y m) = (y', m', d)"
      by (simp add: month_loop.simps [of y m n])
    with True "1.IH" have ih: "y' = y \<and> 1 \<le> d \<and>
        (\<Sum>i \<in> {1..<m'}. days_in_month y i) + d = (\<Sum>i \<in> {1..<Suc m}. days_in_month y i) + Suc (n - days_in_month y m)"
      by simp
    have "(\<Sum>i \<in> {1..<Suc m}. days_in_month y i) = (\<Sum>i \<in> {1..<m}. days_in_month y i) + days_in_month y m"
      using "1.prems"(1) by (simp add: sum.atLeastLessThan_Suc)
    with ih True show ?thesis by simp
  next
    case False
    with "1.prems" show ?thesis by (simp add: month_loop.simps [of y m n])
  qed
qed

lemma sum_years_Suc:
  "1970 \<le> y \<Longrightarrow> (\<Sum>i \<in> {1970..<y + 1}. days_in_year i) = (\<Sum>i \<in> {1970..<y}. days_in_year i) + days_in_year y"
proof -
  assume "1970 \<le> y"
  then have "{1970..<y + 1} = insert y {1970..<y}" by auto
  then show ?thesis by simp
qed

lemma year_loop_days:
  "1970 \<le> y \<Longrightarrow> year_loop y n = (y', m', d) \<Longrightarrow>
   1 \<le> d \<and> days_from_civil y' m' (int d) = int (\<Sum>i \<in> {1970..<y}. days_in_year i) + int n"
proof (induction y n rule: year_loop.induct)
  case (1 y n)
  show ?case
  proof (cases "n < days_in_year y")
    case True
    with "1.prems" have "month_loop y 1 n = (y', m', d)" by (simp add: year_loop.simps [of y n])
    from month_loop_days [OF _ this] have h: "y' = y" "1 \<le> d" "(\<Sum>i \<in> {1..<m'}. days_in_month y i) + d = Suc n"
      by simp_all
    from arg_cong [OF h(3), of int] have "int (\<Sum>i \<in> {1..<m'}. days_in_month y i) + int d = int n + 1"
      by (simp only: of_nat_add of_nat_Suc)
    with h show ?thesis by (simp add: days_from_civil_def del: of_nat_sum)
  next
    case False
    with "1.prems" have "year_loop (y + 1) (n - days_in_year y) = (y', m', d)"
      by (simp add: year_loop.simps [of y n])
    with False "1.IH" "1.prems"(1) have ih: "1 \<le> d \<and> days_from_civil y' m' (int d) =
        int (\<Sum>i \<in> {1970..<y + 1}. days_in_year i) + int (n - days_in_year y)"
      by simp
    with sum_years_Suc [OF "1.prems"(1)] False show ?thesis by simp
  qed
qed

lemma time_decomp: "0 \<le> t \<Longrightarrow> t = int (day_number t) * ms_per_day + t mod ms_per_day"
  by (simp add: day_number_def ms_per_day_def pos_imp_zdiv_nonneg_iff)

lemma civil_from_days_roundtrip:
  "civil_from_days n = (y, m, d) \<Longrightarrow> 1 \<le> d \<and> days_from_civil y m (int d) = int n"
  using year_loop_days [of 1970 n y m d] by (simp add: civil_from_days_def)

lemma days_from_civil_shift: "days_from_civil y m k = days_from_civil y m (int d) + (k - int d)"
  by (simp add: days_from_civil_def)

lemma js_yesterday_formula:
  assumes "0 \<le> a"
  shows "js_yesterday a b = a - (int (get_date a) + 1 - int (get_date b)) * ms_per_day"
proof -
  obtain y m d where c: "civil_from_days (day_number a) = (y, m, d)" by (cases "civil_from_days (day_number a)") auto
  have r: "days_from_civil y m (int d) = int (day_number a)" using civil_from_days_roundtrip [OF c] by simp
  have g: "get_date a = d" using c by (simp add: get_date_def)
  have "js_yesterday a b = days_from_civil y m (int (get_date b) - 1) * ms_per_day + a mod ms_per_day"
    using c by (simp add: js_yesterday_def set_date_def)
  also have "\<dots> = (int (day_number a) + (int (get_date b) - 1 - int d)) * ms_per_day + a mod ms_per_day"
    using r days_from_civil_shift [of y m "int (get_date b) - 1" d] by simp
  also have "\<dots> = a - (int (get_date a) + 1 - int (get_date b)) * ms_per_day"
    using time_decomp [OF assms] g by (simp add: algebra_simps)
  finally show ?thesis .
qed

lemma js_yesterday_same_day:
  assumes "0 \<le> a" and "day_number a = day_number b"
  shows "js_yesterday a b = a - ms_per_day"
  using js_yesterday_formula [OF assms(1), of b] assms(2) by (simp add: get_date_def)

section \<open>Properties\<close>


text \<open>
  C16: what line 11 computes for any two clock readings: \<open>setDate\<close> moves the first
  reading \<open>a\<close> by the difference between the second reading's day of the month and
  \<open>a\<close>'s, less one. When the readings straddle midnight at the end of a month whose last
  day is \<open>d\<close> (28 to 31), the second reading's date is 1, so the stored date is \<open>d\<close> days
  before \<open>a\<close> (the last day of the month before) instead of one.
\<close>

theorem yesterday_any_readings:
  assumes "0 \<le> a"
  shows "js_yesterday a b = a - (int (get_date a) + 1 - int (get_date b)) * ms_per_day"
  using assms by (rule js_yesterday_formula)

section \<open>Witnesses\<close>


lemma yesterday_any_readings_witness:
  "0 \<le> (5097599999::int) \<and> get_date 5097599999 = 28 \<and> get_date 5097600000 = 1 \<and>
   js_yesterday 5097599999 5097600000 = 5097599999 - 28 * ms_per_day \<and>
   0 \<le> (7775999999::int) \<and> get_date 7775999999 = 31 \<and> get_date 7776000000 = 1 \<and>
   js_yesterday 7775999999 7776000000 = 7775999999 - 31 * ms_per_day"
proof -
  have h: "0 \<le> (5097599999::int)" "0 \<le> (7775999999::int)" by simp_all
  have g: "get_date 5097599999 = 28" "get_date 5097600000 = 1" "get_date 7775999999 = 31" "get_date 7776000000 = 1"
    by code_simp+
  show ?thesis using yesterday_any_readings [OF h(1), of 5097600000] yesterday_any_readings [OF h(2), of 7776000000] h g
    by simp
qed

end
