(* ===== verification/HttpManager.thy ===== *)
theory HttpManager
  imports JsValues
begin

text \<open>
  \<open>src/services/http_manager.js\<close>: \<open>buildUrlWithParams(baseUrl, queryParams)\<close> and
  \<open>fetchData(url, retries)\<close>.

  \<^item> \<open>buildUrlWithParams\<close> serialises the parameters with \<open>URLSearchParams\<close>, i.e. the
    \<open>application/x-www-form-urlencoded\<close> serializer of the WHATWG URL standard, and sets
    them as the URL's query. Strings are byte strings here (Isabelle's \<open>char\<close> is a byte):
    the UTF-8 encoding the serializer applies first is taken as done. The parser of the
    same standard (\<open>form_decode\<close>, \<open>parse_params\<close>) is what the server applies to the
    query; it is modelled to state the round trip.
  \<^item> \<open>fetchData\<close> awaits \<open>axios.get(url, config)\<close>. The network is an oracle
    \<open>net url i\<close>: the answer to the \<open>i\<close>-th request for \<open>url\<close>, a body or the
    \<open>AxiosError\<close> it rejects with. An error is the four fields the \<open>catch\<close> reads:
    \<open>code\<close>, \<open>message\<close>, \<open>response\<close> (status and status text) and whether a
    \<open>request\<close> was made. The recursion in the \<open>catch\<close> is a recursion on \<open>retries\<close>;
    its result is the body or the message of the \<open>Error\<close> it throws, with the console
    lines written on the way. The rejected promise of the recursive call is returned from
    the \<open>catch\<close>, so it is not wrapped a second time.
\<close>

section \<open>Query strings\<close>

text \<open>The bytes the urlencoded serializer leaves as they are: ASCII alphanumerics and \<open>*-._\<close>.\<close>

definition url_unreserved :: "char \<Rightarrow> bool" where
  "url_unreserved c \<longleftrightarrow>
     (let n = of_char c :: nat in
        (48 \<le> n \<and> n \<le> 57) \<or> (65 \<le> n \<and> n \<le> 90) \<or> (97 \<le> n \<and> n \<le> 122) \<or> c \<in> set ''*-._'')"

definition hex_digit :: "nat \<Rightarrow> char" where
  "hex_digit n = (if n < 10 then char_of (48 + n) else char_of (55 + n))"

definition form_encode_char :: "char \<Rightarrow> string" where
  "form_encode_char c =
     (if url_unreserved c then [c]
      else if c = CHR '' '' then ''+''
      else [CHR ''%'', hex_digit (of_char c div 16), hex_digit (of_char c mod 16)])"

definition form_encode :: "string \<Rightarrow> string" where
  "form_encode s = concat (map form_encode_char s)"

fun join_amp :: "string list \<Rightarrow> string" where
  "join_amp [] = []"
| "join_amp [w] = w"
| "join_amp (w # ws) = w @ ''&'' @ join_amp ws"

text \<open>\<open>URLSearchParams.toString()\<close>: \<open>name=value\<close> pairs joined by \<open>&\<close>, in insertion order.\<close>

definition serialize_params :: "(string \<times> string) list \<Rightarrow> string" where
  "serialize_params ps = join_amp (map (\<lambda>(k, v). form_encode k @ ''='' @ form_encode v) ps)"

text \<open>
  Lines 14--20. \<open>url.search = params\<close> sets the query to the serialisation, prefixed by
  \<open>?\<close>, or removes the query when the serialisation is empty. The base URL is the
  constant endpoint of \<open>openweather_manager.js\<close>, which has no query and serialises to
  itself.
\<close>

definition build_url_with_params :: "string \<Rightarrow> (string \<times> string) list \<Rightarrow> string" where
  "build_url_with_params base ps =
     (let q = serialize_params ps in if q = [] then base else base @ ''?'' @ q)"

subsection \<open>The urlencoded parser\<close>

definition hex_value :: "char \<Rightarrow> nat option" where
  "hex_value c =
     (let n = of_char c :: nat in
        if 48 \<le> n \<and> n \<le> 57 then Some (n - 48)
        else if 65 \<le> n \<and> n \<le> 70 then Some (n - 55)
        else if 97 \<le> n \<and> n \<le> 102 then Some (n - 87)
        else None)"

fun percent_decode :: "string \<Rightarrow> string" where
  "percent_decode (c # a # b # rest) =
     (if c = CHR ''%'' then
        (case (hex_value a, hex_value b) of
           (Some x, Some y) \<Rightarrow> char_of (16 * x + y) # percent_decode rest
         | _ \<Rightarrow> c # percent_decode (a # b # rest))
      else c # percent_decode (a # b # rest))"
| "percent_decode cs = cs"

definition form_decode :: "string \<Rightarrow> string" where
  "form_decode s = percent_decode (map (\<lambda>c. if c = CHR ''+'' then CHR '' '' else c) s)"

fun split_on :: "char \<Rightarrow> string \<Rightarrow> string list" where
  "split_on d [] = [[]]"
| "split_on d (c # cs) = (let ws = split_on d cs in if c = d then [] # ws else (c # hd ws) # tl ws)"

definition parse_pair :: "string \<Rightarrow> string \<times> string" where
  "parse_pair s =
     (let k = takeWhile (\<lambda>c. c \<noteq> CHR ''='') s in (form_decode k, form_decode (drop (Suc (length k)) s)))"

text \<open>The parser: split on \<open>&\<close>, skip empty sequences, split each at its first \<open>=\<close>.\<close>

definition parse_params :: "string \<Rightarrow> (string \<times> string) list" where
  "parse_params q = map parse_pair (filter (\<lambda>w. w \<noteq> []) (split_on CHR ''&'' q))"

text \<open>The query a server reads from a URL: what follows the first \<open>?\<close>.\<close>

definition url_query :: "string \<Rightarrow> string" where
  "url_query u = drop (Suc (length (takeWhile (\<lambda>c. c \<noteq> CHR ''?'') u))) u"

section \<open>fetchData\<close>

text \<open>The fields of an \<open>AxiosError\<close> the \<open>catch\<close> block reads.\<close>

record axios_error =
  ax_code :: string
  ax_message :: string
  ax_response :: "(nat \<times> string) option"
  ax_request :: bool

text \<open>What axios rejects with, for the cases the code distinguishes (axios 1.x, Node adapter).\<close>

definition axios_status_error :: "nat \<Rightarrow> string \<Rightarrow> axios_error" where
  "axios_status_error st txt =
     \<lparr>ax_code = (if st < 500 then ''ERR_BAD_REQUEST'' else ''ERR_BAD_RESPONSE''),
      ax_message = ''Request failed with status code '' @ nat_str st,
      ax_response = Some (st, txt), ax_request = True\<rparr>"

definition axios_timeout_error :: axios_error where
  "axios_timeout_error =
     \<lparr>ax_code = ''ECONNABORTED'', ax_message = ''timeout of 5000ms exceeded'',
      ax_response = None, ax_request = True\<rparr>"

text \<open>A socket error of Node's \<open>http\<close> module, wrapped by \<open>AxiosError.from\<close>: code and message kept.\<close>

definition node_socket_error :: "string \<Rightarrow> string \<Rightarrow> axios_error" where
  "node_socket_error code msg = \<lparr>ax_code = code, ax_message = msg, ax_response = None, ax_request = True\<rparr>"

datatype console_msg = Warn string | ConsoleError string

definition max_retries :: nat where
  "max_retries = 3"

text \<open>Line 49: the errors that are retried.\<close>

definition retryable :: "axios_error \<Rightarrow> bool" where
  "retryable e \<longleftrightarrow> ax_code e = ''ECONNABORTED'' \<or> ax_message e = ''Network Error''"

definition retry_line :: "nat \<Rightarrow> string" where
  "retry_line r = ''Request failed (network issue), retrying... ('' @ nat_str r @ '' retries left)''"

text \<open>Lines 53--64: the line \<open>console.error\<close> prints for an error that is not retried.\<close>

definition failure_line :: "axios_error \<Rightarrow> string" where
  "failure_line e =
     (case ax_response e of
        Some (st, txt) \<Rightarrow> ''Request failed with status '' @ nat_str st @ '': '' @ txt
      | None \<Rightarrow> if ax_request e then ''Request made but no response received''
                else ''Unexpected error occurred: '' @ ax_message e)"

definition fetch_error_message :: "axios_error \<Rightarrow> string" where
  "fetch_error_message e = ''Failed to fetch data after multiple attempts due to: '' @ ax_message e"

text \<open>
  Lines 29--71. \<open>i\<close> counts the requests made so far for \<open>url\<close>; the result is the body
  or the message of the thrown \<open>Error\<close>, and the console lines in order.
\<close>

fun fetch_data ::
  "(string \<Rightarrow> nat \<Rightarrow> axios_error + 'b) \<Rightarrow> string \<Rightarrow> nat \<Rightarrow> nat \<Rightarrow> (string + 'b) \<times> console_msg list" where
  "fetch_data net url i retries =
     (case net url i of
        Inr body \<Rightarrow> (Inr body, [])
      | Inl e \<Rightarrow>
          if retryable e \<and> 0 < retries then
            (let (r, out) = fetch_data net url (Suc i) (retries - 1) in (r, Warn (retry_line retries) # out))
          else (Inl (fetch_error_message e), [ConsoleError (failure_line e)]))"

declare fetch_data.simps [simp del]

section \<open>Lemmas\<close>

lemma percent_decode_Cons: "c \<noteq> CHR ''%'' \<Longrightarrow> percent_decode (c # cs) = c # percent_decode cs"
  by (cases cs rule: percent_decode.cases) simp_all

lemma of_char_div16: "of_char c div 16 < (16::nat)"
  by (rule less_mult_imp_div_less) (use nat_of_char_less_256 [of c] in simp)

lemma hex_value_hex_digit: "n < 16 \<Longrightarrow> hex_value (hex_digit n) = Some n"
  by (auto simp: hex_value_def hex_digit_def Let_def)

lemma of_char_hex_digit: "n < 16 \<Longrightarrow> (of_char (hex_digit n) :: nat) = (if n < 10 then 48 + n else 55 + n)"
  by (simp add: hex_digit_def)

lemma hex_digit_not: "n < 16 \<Longrightarrow> hex_digit n \<notin> {CHR ''+'', CHR ''&'', CHR ''=''}"
proof
  assume n: "n < 16" and "hex_digit n \<in> {CHR ''+'', CHR ''&'', CHR ''=''}"
  then have "(of_char (hex_digit n) :: nat) \<in> {43, 38, 61}" by auto
  with n show False by (simp add: of_char_hex_digit split: if_splits)
qed

lemma plus_free_form_encode_char:
  "map (\<lambda>c. if c = CHR ''+'' then CHR '' '' else c) (form_encode_char c) =
   (if url_unreserved c then [c] else if c = CHR '' '' then [CHR '' ''] else form_encode_char c)"
proof -
  have "url_unreserved c \<Longrightarrow> c \<noteq> CHR ''+''" by (auto simp: url_unreserved_def)
  then show ?thesis
    using hex_digit_not [OF of_char_div16, of c] hex_digit_not [of "of_char c mod 16"]
    by (auto simp: form_encode_char_def)
qed

lemma form_decode_encode [simp]: "form_decode (form_encode s) = s"
proof (induction s)
  case Nil
  then show ?case by (simp add: form_decode_def form_encode_def)
next
  case (Cons c s)
  let ?R = "\<lambda>c. if c = CHR ''+'' then CHR '' '' else c"
  have ih: "percent_decode (map ?R (form_encode s)) = s" using Cons by (simp add: form_decode_def)
  have split: "map ?R (form_encode (c # s)) = map ?R (form_encode_char c) @ map ?R (form_encode s)"
    by (simp add: form_encode_def)
  have pct: "\<not> url_unreserved CHR ''%''" by (simp add: url_unreserved_def)
  show ?case
  proof (cases "url_unreserved c \<or> c = CHR '' ''")
    case True
    then have "c \<noteq> CHR ''%''" using pct by auto
    with True show ?thesis using ih
      by (auto simp: form_decode_def split plus_free_form_encode_char percent_decode_Cons)
  next
    case False
    have d1: "hex_digit (of_char c div 16) \<noteq> CHR ''+''" using hex_digit_not [OF of_char_div16] by auto
    have d2: "hex_digit (of_char c mod 16) \<noteq> CHR ''+''" using hex_digit_not [of "of_char c mod 16"] by auto
    have "char_of (16 * (of_char c div 16) + of_char c mod 16 :: nat) = c" by simp
    with False ih d1 d2 show ?thesis
      by (simp add: form_decode_def split plus_free_form_encode_char form_encode_char_def
                    hex_value_hex_digit [OF of_char_div16] hex_value_hex_digit [of "of_char c mod 16"])
  qed
qed

lemma form_encode_free: "d \<in> {CHR ''&'', CHR ''=''} \<Longrightarrow> d \<notin> set (form_encode s)"
proof -
  assume d: "d \<in> {CHR ''&'', CHR ''=''}"
  have "d \<notin> set (form_encode_char c)" for c
  proof -
    note of_char_div16 [of c]
    then show ?thesis using d hex_digit_not [of "of_char c div 16"] hex_digit_not [of "of_char c mod 16"]
      by (auto simp: form_encode_char_def url_unreserved_def)
  qed
  then show ?thesis by (auto simp: form_encode_def)
qed

lemma split_on_free: "d \<notin> set w \<Longrightarrow> split_on d w = [w]"
  by (induction w) auto

lemma split_on_append: "d \<notin> set w \<Longrightarrow> split_on d (w @ d # rest) = w # split_on d rest"
  by (induction w) (auto simp: Let_def)

lemma split_on_join_amp:
  "ws \<noteq> [] \<Longrightarrow> \<forall>w \<in> set ws. CHR ''&'' \<notin> set w \<Longrightarrow> split_on CHR ''&'' (join_amp ws) = ws"
proof (induction ws rule: join_amp.induct)
  case (3 w v vs)
  then show ?case using split_on_append [of "CHR ''&''" w] by simp
qed (auto simp: split_on_free)

lemma parse_pair_encoded: "parse_pair (form_encode k @ CHR ''='' # form_encode v) = (k, v)"
proof -
  have "takeWhile (\<lambda>c. c \<noteq> CHR ''='') (form_encode k @ CHR ''='' # form_encode v) = form_encode k"
    using form_encode_free [of "CHR ''=''" k] by (subst takeWhile_append2) auto
  then show ?thesis by (simp add: parse_pair_def)
qed

lemma parse_params_serialize: "parse_params (serialize_params ps) = ps"
proof -
  let ?ws = "map (\<lambda>(k, v). form_encode k @ CHR ''='' # form_encode v) ps"
  have "split_on CHR ''&'' (serialize_params ps) = (if ps = [] then [[]] else ?ws)"
  proof (cases "ps = []")
    case False
    have "\<forall>w \<in> set ?ws. CHR ''&'' \<notin> set w" using form_encode_free by auto
    with False show ?thesis by (simp add: serialize_params_def split_on_join_amp)
  qed (simp add: serialize_params_def)
  moreover have "filter (\<lambda>w. w \<noteq> []) ?ws = ?ws" by (auto simp: filter_id_conv)
  moreover have "map parse_pair ?ws = ps" by (induction ps) (auto simp: parse_pair_encoded)
  ultimately show ?thesis by (simp add: parse_params_def)
qed

lemma url_query_build: "CHR ''?'' \<notin> set base \<Longrightarrow> url_query (build_url_with_params base ps) = serialize_params ps"
proof -
  assume "CHR ''?'' \<notin> set base"
  then have "takeWhile (\<lambda>c. c \<noteq> CHR ''?'') (base @ CHR ''?'' # q) = base" for q
    by (subst takeWhile_append2) auto
  moreover have "length (takeWhile (\<lambda>c. c \<noteq> CHR ''?'') base) = length base"
    using \<open>CHR ''?'' \<notin> set base\<close> by (subst takeWhile_eq_all_conv [THEN iffD2]) auto
  ultimately show ?thesis by (simp add: url_query_def build_url_with_params_def Let_def)
qed

lemma fetch_data_ok: "net url i = Inr b \<Longrightarrow> fetch_data net url i r = (Inr b, [])"
  by (subst fetch_data.simps) (auto split: sum.split)

lemma fetch_data_fail:
  "net url i = Inl e \<Longrightarrow> \<not> (retryable e \<and> 0 < r) \<Longrightarrow>
   fetch_data net url i r = (Inl (fetch_error_message e), [ConsoleError (failure_line e)])"
  by (subst fetch_data.simps) (auto split: sum.split)

lemma fetch_data_retry:
  "net url i = Inl e \<Longrightarrow> retryable e \<Longrightarrow>
   fetch_data net url i (Suc r) =
     (fst (fetch_data net url (Suc i) r), Warn (retry_line (Suc r)) # snd (fetch_data net url (Suc i) r))"
  by (subst fetch_data.simps) (simp split: prod.split)

lemma status_error_not_retryable: "\<not> retryable (axios_status_error st txt)"
  by (simp add: retryable_def axios_status_error_def)

section \<open>Properties\<close>


text \<open>
  C23: \<open>fetchData\<close> makes at most \<open>retries + 1\<close> requests: its result and its console
  output depend only on the network's answers to the first \<open>retries + 1\<close> requests.
\<close>

theorem fetch_attempts_bound:
  assumes "\<forall>j \<le> r. net url (i + j) = net' url (i + j)"
  shows "fetch_data net url i r = fetch_data net' url i r"
  using assms
proof (induction r arbitrary: i)
  case 0
  then have "net url i = net' url i" by (metis add_0_right le0)
  then show ?case by (subst (1 2) fetch_data.simps) (simp split: sum.split)
next
  case (Suc r)
  have h0: "net url i = net' url i" using Suc.prems by (metis add_0_right le0)
  have "\<forall>j \<le> r. net url (Suc i + j) = net' url (Suc i + j)" using Suc.prems by fastforce
  then have "fetch_data net url (Suc i) r = fetch_data net' url (Suc i) r" by (rule Suc.IH)
  with h0 show ?case by (subst (1 2) fetch_data.simps) (simp split: sum.split)
qed

text \<open>
  C24: when every request times out, \<open>fetchData\<close> warns once per retry, counting the
  retries left down from \<open>retries\<close> to 1, prints that no response was received, and
  throws the error wrapping the last timeout's message, once.
\<close>

theorem fetch_timeouts_exhaust:
  assumes "\<forall>j \<le> r. net url (i + j) = Inl axios_timeout_error"
  shows "fetch_data net url i r =
           (Inl ''Failed to fetch data after multiple attempts due to: timeout of 5000ms exceeded'',
            map (\<lambda>k. Warn (retry_line k)) (rev [1..<Suc r]) @ [ConsoleError ''Request made but no response received''])"
  using assms
proof (induction r arbitrary: i)
  case 0
  then have "net url i = Inl axios_timeout_error" by (metis add_0_right le0)
  from fetch_data_fail [of net url i _ 0, OF this] show ?case
    by (simp add: fetch_error_message_def failure_line_def axios_timeout_error_def)
next
  case (Suc r)
  have h0: "net url i = Inl axios_timeout_error" using Suc.prems by (metis add_0_right le0)
  have "\<forall>j \<le> r. net url (Suc i + j) = Inl axios_timeout_error" using Suc.prems by fastforce
  note ih = Suc.IH [OF this]
  have "retryable axios_timeout_error" by (simp add: retryable_def axios_timeout_error_def)
  with fetch_data_retry [of net url i _ r, OF h0] ih show ?case by simp
qed

text \<open>
  C25: when the first \<open>k \<le> retries\<close> requests fail with retried errors and the next one
  succeeds, \<open>fetchData\<close> returns its body after \<open>k\<close> warnings.
\<close>

theorem fetch_success_within_retries:
  assumes "k \<le> r" and "\<forall>j < k. \<exists>e. net url (i + j) = Inl e \<and> retryable e" and "net url (i + k) = Inr b"
  shows "fetch_data net url i r = (Inr b, map (\<lambda>m. Warn (retry_line m)) (rev [Suc r - k..<Suc r]))"
  using assms
proof (induction k arbitrary: i r)
  case 0
  then show ?case by (simp add: fetch_data_ok)
next
  case (Suc k)
  then obtain r' where r: "r = Suc r'" by (cases r) auto
  obtain e where e: "net url i = Inl e" "retryable e" using Suc.prems(2) by (metis add_0_right zero_less_Suc)
  have "\<forall>j < k. \<exists>e. net url (Suc i + j) = Inl e \<and> retryable e" using Suc.prems(2) by fastforce
  moreover have "net url (Suc i + k) = Inr b" using Suc.prems(3) by simp
  ultimately have ih: "fetch_data net url (Suc i) r' = (Inr b, map (\<lambda>m. Warn (retry_line m)) (rev [Suc r' - k..<Suc r']))"
    using Suc.IH [of r' "Suc i"] Suc.prems(1) r by simp
  have "[Suc r - Suc k..<Suc r] = [Suc r' - k..<Suc r'] @ [Suc r']" using Suc.prems(1) r by simp
  with fetch_data_retry [of net url i e r', OF e] ih r show ?case by simp
qed

text \<open>
  C26: neither an HTTP error status nor a connection reset is retried. After a response
  outside 200--299 the request is made once, the status line is printed and the wrapped
  error is thrown. A connection reset, which Node reports with code \<open>ECONNRESET\<close>
  and a message other than \<open>Network Error\<close>, fails the test of line 49 in the same
  way, although the spec counts it among the retried network errors.
\<close>

theorem fetch_status_and_reset_not_retried:
  "(net url i = Inl (axios_status_error st txt) \<longrightarrow>
      fetch_data net url i r =
        (Inl (''Failed to fetch data after multiple attempts due to: Request failed with status code '' @ nat_str st),
         [ConsoleError (''Request failed with status '' @ nat_str st @ '': '' @ txt)])) \<and>
   (net' url i = Inl (node_socket_error ''ECONNRESET'' ''read ECONNRESET'') \<longrightarrow>
      fetch_data net' url i r =
        (Inl ''Failed to fetch data after multiple attempts due to: read ECONNRESET'',
         [ConsoleError ''Request made but no response received'']))"
proof (intro conjI impI)
  assume "net url i = Inl (axios_status_error st txt)"
  from fetch_data_fail [of net url i "axios_status_error st txt" r, OF this] status_error_not_retryable
  show "fetch_data net url i r =
          (Inl (''Failed to fetch data after multiple attempts due to: Request failed with status code '' @ nat_str st),
           [ConsoleError (''Request failed with status '' @ nat_str st @ '': '' @ txt)])"
    by (simp add: fetch_error_message_def failure_line_def axios_status_error_def)
next
  assume "net' url i = Inl (node_socket_error ''ECONNRESET'' ''read ECONNRESET'')"
  from fetch_data_fail [of net' url i _ r, OF this]
  show "fetch_data net' url i r =
          (Inl ''Failed to fetch data after multiple attempts due to: read ECONNRESET'',
           [ConsoleError ''Request made but no response received''])"
    by (simp add: retryable_def node_socket_error_def fetch_error_message_def failure_line_def)
qed

section \<open>Witnesses\<close>


lemma fetch_attempts_bound_witness:
  "fetch_data (\<lambda>u j. Inl axios_timeout_error :: axios_error + nat) ''u'' 0 max_retries =
   fetch_data (\<lambda>u j. if j < 4 then Inl axios_timeout_error else Inr (0::nat)) ''u'' 0 max_retries"
  by (rule fetch_attempts_bound) (simp add: max_retries_def)

lemma fetch_timeouts_exhaust_witness:
  "fetch_data (\<lambda>u j. Inl axios_timeout_error :: axios_error + nat) ''u'' 0 max_retries =
     (Inl ''Failed to fetch data after multiple attempts due to: timeout of 5000ms exceeded'',
      [Warn (retry_line 3), Warn (retry_line 2), Warn (retry_line 1),
       ConsoleError ''Request made but no response received''])"
  using fetch_timeouts_exhaust [of max_retries "\<lambda>u j. Inl axios_timeout_error :: axios_error + nat" "''u''" 0]
  by (simp add: max_retries_def upt_rec eval_nat_numeral)

lemma fetch_success_within_retries_witness:
  "fetch_data (\<lambda>u j. if j < 2 then Inl axios_timeout_error else Inr (7::nat)) ''u'' 0 max_retries =
     (Inr 7, [Warn (retry_line 3), Warn (retry_line 2)])"
proof -
  have "retryable axios_timeout_error" by (simp add: retryable_def axios_timeout_error_def)
  then show ?thesis
    using fetch_success_within_retries [of 2 max_retries "\<lambda>u j. if j < 2 then Inl axios_timeout_error else Inr (7::nat)" "''u''" 0 7]
    by (simp add: max_retries_def upt_rec eval_nat_numeral)
qed

lemma fetch_status_and_reset_not_retried_witness:
  "fetch_data (\<lambda>u j. Inl (axios_status_error 404 ''Not Found'') :: axios_error + nat) ''u'' 0 max_retries =
     (Inl (''Failed to fetch data after multiple attempts due to: Request failed with status code '' @ nat_str 404),
      [ConsoleError (''Request failed with status '' @ nat_str 404 @ '': Not Found'')]) \<and>
   fetch_data (\<lambda>u j. Inl (node_socket_error ''ECONNRESET'' ''read ECONNRESET'') :: axios_error + nat) ''u'' 0 max_retries =
     (Inl ''Failed to fetch data after multiple attempts due to: read ECONNRESET'',
      [ConsoleError ''Request made but no response received''])"
  using fetch_status_and_reset_not_retried
    [of "\<lambda>u j. Inl (axios_status_error 404 ''Not Found'') :: axios_error + nat" "''u''" 0 404 "''Not Found''" max_retries
        "\<lambda>u j. Inl (node_socket_error ''ECONNRESET'' ''read ECONNRESET'')"]
  by simp

end
