(* ===== verification/OpenWeather.thy ===== *)
theory OpenWeather
  imports JsValues HttpManager
begin

text \<open>
  \<open>src/services/openweather_manager.js\<close>, \<open>get_weather(city)\<close>: builds the request URL,
  awaits \<open>fetchData\<close> and returns the parsed body. Its \<open>catch\<close> logs
  \<open>Critical failure\<close> and falls off the end of the function, so every failure of
  \<open>fetchData\<close> becomes the resolved value \<open>undefined\<close>: the caller never sees the
  error. The parsed body is modelled by the fields the polling job reads:
  \<open>main.temp\<close>, \<open>main.temp_max\<close>, \<open>main.temp_min\<close> (Kelvin) and the
  \<open>main\<close> of each element of \<open>weather\<close>.
  \<open>get_weather_request\<close> is the whole function: the URL of lines 10--16, \<open>fetchData\<close>
  with its default retry count, then \<open>get_weather\<close>; the API key is the environment
  variable, \<open>None\<close> when it is unset.
\<close>

definition base_api_endpoint :: string where
  "base_api_endpoint = ''https://api.openweathermap.org/data/2.5/weather''"

text \<open>\<open>URLSearchParams\<close> converts each value of the object with ToString: \<open>undefined\<close> gives \<open>"undefined"\<close>.\<close>

definition env_string :: "string option \<Rightarrow> string" where
  "env_string v = (case v of Some s \<Rightarrow> s | None \<Rightarrow> ''undefined'')"

definition weather_url :: "city \<Rightarrow> string option \<Rightarrow> string" where
  "weather_url c key = build_url_with_params base_api_endpoint [(''q'', c), (''APPID'', env_string key)]"

record weather_main =
  main_temp :: jsnum
  main_temp_max :: jsnum
  main_temp_min :: jsnum

record api_response =
  resp_main :: "weather_main option"
  resp_weather :: "string list"

text \<open>
  What \<open>await fetchData(finalUrl)\<close> gives \<open>get_weather\<close>: the body, or the message of the
  error it throws (\<open>Inl\<close>).
\<close>

type_synonym fetch_outcome = "string + api_response"

text \<open>Lines 7--26: the resolved value (\<open>None\<close> is \<open>undefined\<close>) and the console lines.\<close>

definition get_weather :: "fetch_outcome \<Rightarrow> api_response option \<times> string list" where
  "get_weather outcome =
     (case outcome of
        Inr data \<Rightarrow> (Some data, [])
      | Inl msg \<Rightarrow> (None, [''Critical failure: '' @ msg]))"

definition get_weather_request ::
  "(string \<Rightarrow> nat \<Rightarrow> axios_error + api_response) \<Rightarrow> city \<Rightarrow> string option \<Rightarrow>
   fetch_outcome \<times> api_response option \<times> console_msg list" where
  "get_weather_request net c key =
     (let (r, out) = fetch_data net (weather_url c key) 0 max_retries;
          (resp, lines) = get_weather r
      in (r, resp, out @ map ConsoleError lines))"

section \<open>Properties\<close>

text \<open>
  C27: the request \<open>get_weather\<close> sends names the configured city exactly: the query of
  the URL decodes to \<open>q\<close> = the city and \<open>APPID\<close> = the key, whatever characters the
  city contains; when the key is not set, the request carries \<open>APPID=undefined\<close>.
\<close>

theorem weather_url_carries_city:
  "parse_params (url_query (weather_url c key)) = [(''q'', c), (''APPID'', env_string key)] \<and>
   parse_params (url_query (weather_url c None)) = [(''q'', c), (''APPID'', ''undefined'')]"
proof -
  have "CHR ''?'' \<notin> set base_api_endpoint" by (simp add: base_api_endpoint_def)
  then have "url_query (weather_url c k) = serialize_params [(''q'', c), (''APPID'', env_string k)]" for k
    by (simp add: weather_url_def url_query_build)
  then show ?thesis by (simp add: parse_params_serialize env_string_def)
qed

end
