(* ===== verification/Scheduler.thy ===== *)
theory Scheduler
  imports WeatherManager WeatherSummaryModel Dates OpenWeather
begin

text \<open>
  The two node-cron jobs that \<open>src/app.js\<close> starts on the one \<open>WeatherManager\<close>:
  \<open>createWeatherCron\<close> (\<open>src/cron/weather_cron.js\<close>) and \<open>saveWeatherCronJob\<close>
  (\<open>src/cron/weather_save_cron.js\<close>). Node runs their handlers on one thread and
  suspends a handler only at an \<open>await\<close>, so each handler is two atomic steps: the part
  before its \<open>await\<close> (run when the timer fires) and the part after it (run when the
  awaited promise settles). The system state holds the shared manager, the module-level
  flag \<open>isJobRunning\<close>, the handlers suspended at their \<open>await\<close>, the stored
  documents, the error log file and the console. An event is one of the four steps; which
  event comes next (timer firings, network and database latency) is left open, so every
  interleaving is a run of the step function, and the reachable states are those of an
  inductive relation.
\<close>

section \<open>State and events\<close>

datatype console_line =
    CronSkipped
  | CronStarted timestamp
  | CronFetched
  | CronManager manager_log
  | CronSummary daily_summary
  | CronError string
  | CronFinished timestamp
  | CriticalFailure string
  | SaveStarting
  | SaveDone city js_date
  | SaveFailed string

record sched_state =
  manager :: weather_manager
  isJobRunning :: bool
  polls_in_flight :: nat
  pending_saves :: "stats_to_save list"
  db :: "stored_summary list"
  error_log :: error_log
  console :: "console_line list"

datatype sched_event =
    PollTick timestamp
  | PollSettled timestamp fetch_outcome
  | SaveTick time_value time_value
  | SaveSettled nat bool

text \<open>
  The state right after \<open>createWeatherCron\<close> and \<open>saveWeatherCronJob\<close> have scheduled
  their handlers (\<open>app.js\<close> lines 79--80, \<open>weather_cron.js\<close> line 7).
\<close>

definition init_sched :: "weather_manager \<Rightarrow> sched_state" where
  "init_sched m =
     \<lparr>manager = m, isJobRunning = False, polls_in_flight = 0, pending_saves = [], db = [],
      error_log = [], console = []\<rparr>"

section \<open>The polling job\<close>

text \<open>
  \<open>weather_cron.js\<close> lines 13--24, up to \<open>await get_weather(...)\<close>: a firing while the
  flag is set is dropped with a warning; otherwise the flag is set and the fetch starts.
\<close>

definition poll_tick :: "timestamp \<Rightarrow> sched_state \<Rightarrow> sched_state" where
  "poll_tick now s =
     (if isJobRunning s then s\<lparr>console := console s @ [CronSkipped]\<rparr>
      else s\<lparr>isJobRunning := True, polls_in_flight := Suc (polls_in_flight s),
              console := console s @ [CronStarted now]\<rparr>)"

text \<open>
  Lines 28--33: the object literal passed to \<open>addWeatherData\<close>. Reading a property of
  \<open>undefined\<close> throws a \<open>TypeError\<close> before \<open>addWeatherData\<close> is called.
\<close>

definition type_error :: "string \<Rightarrow> string" where
  "type_error prop = ''Cannot read properties of undefined (reading '' @ [CHR 0x27] @ prop @ [CHR 0x27] @ '')''"

definition observation_of :: "api_response option \<Rightarrow> string + weather_data" where
  "observation_of r =
     (case r of
        None \<Rightarrow> Inl (type_error ''main'')
      | Some data \<Rightarrow>
          (case resp_main data of
             None \<Rightarrow> Inl (type_error ''temp'')
           | Some mn \<Rightarrow>
               (case resp_weather data of
                  [] \<Rightarrow> Inl (type_error ''main'')
                | c # _ \<Rightarrow> Inr \<lparr>wd_temperature = main_temp mn, wd_maxTemperature = main_temp_max mn,
                               wd_minTemperature = main_temp_min mn, wd_condition = c\<rparr>)))"

text \<open>The \<open>catch\<close> block, lines 38--40: print the message and append it to the error log.\<close>

definition poll_catch :: "timestamp \<Rightarrow> string \<Rightarrow> sched_state \<Rightarrow> sched_state" where
  "poll_catch now msg s =
     s\<lparr>console := console s @ [CronError msg], error_log := log_error_to_file now msg (error_log s)\<rparr>"

text \<open>
  Lines 24--44 after the \<open>await\<close>: read the observation, \<open>addWeatherData\<close>, print the
  summary; any exception goes to the \<open>catch\<close>; the \<open>finally\<close> clears the flag.
\<close>

definition poll_settled :: "timestamp \<Rightarrow> fetch_outcome \<Rightarrow> sched_state \<Rightarrow> sched_state" where
  "poll_settled now outcome s =
     (let (resp, lines) = get_weather outcome;
          s1 = s\<lparr>console := console s @ map CriticalFailure lines @ [CronFetched]\<rparr>;
          s2 = (case observation_of resp of
                  Inl msg \<Rightarrow> poll_catch now msg s1
                | Inr d \<Rightarrow>
                    (let (m', err, logs) = add_weather_data (manager s1) d;
                         s' = s1\<lparr>manager := m', console := console s1 @ map CronManager logs\<rparr>
                     in case err of
                          Some e \<Rightarrow> poll_catch now (trigger_error_message e) s'
                        | None \<Rightarrow> s'\<lparr>console := console s' @ [CronSummary (manager_daily_summary m')]\<rparr>))
      in s2\<lparr>isJobRunning := False, polls_in_flight := polls_in_flight s2 - 1,
             console := console s2 @ [CronFinished now]\<rparr>)"

section \<open>The persistence job\<close>

text \<open>
  \<open>weather_save_cron.js\<close> lines 8--16, up to \<open>await WeatherSummary.create(...)\<close>: the
  date from the two clock readings, the snapshot, and the document handed to \<open>create\<close>.
\<close>

definition save_tick :: "time_value \<Rightarrow> time_value \<Rightarrow> sched_state \<Rightarrow> sched_state" where
  "save_tick a b s =
     (let yesterday = js_yesterday a b;
          stats_to_save = \<lparr>sv_summary = manager_daily_summary (manager s), sv_date = yesterday\<rparr>
      in s\<lparr>console := console s @ [SaveStarting], pending_saves := pending_saves s @ [stats_to_save]\<rparr>)"

text \<open>
  Lines 16--22 after the \<open>await\<close>, for the \<open>i\<close>-th pending \<open>create\<close>: the schema's
  validation, then the database write (\<open>ok\<close>: whether the server accepted it). Success
  appends the document; a failure is printed and not retried.
\<close>

definition save_settled :: "nat \<Rightarrow> bool \<Rightarrow> sched_state \<Rightarrow> sched_state" where
  "save_settled i ok s =
     (let doc = pending_saves s ! i;
          s1 = s\<lparr>pending_saves := take i (pending_saves s) @ drop (Suc i) (pending_saves s)\<rparr>
      in case weather_summary_create doc of
           Inl errs \<Rightarrow> s1\<lparr>console := console s1 @ [SaveFailed (''ValidationError: '' @ concat errs)]\<rparr>
         | Inr st \<Rightarrow>
             if ok then s1\<lparr>db := db s1 @ [st], console := console s1 @ [SaveDone (st_city st) (st_date st)]\<rparr>
             else s1\<lparr>console := console s1 @ [SaveFailed ''database error'']\<rparr>)"

section \<open>Steps and runs\<close>

text \<open>
  One step; \<open>None\<close> when the event cannot happen in the state (no suspended handler to
  resume, or the clock running backwards between the two readings).
\<close>

fun sched_step :: "sched_state \<Rightarrow> sched_event \<Rightarrow> sched_state option" where
  "sched_step s (PollTick now) = Some (poll_tick now s)"
| "sched_step s (PollSettled now r) =
     (if polls_in_flight s = 0 then None else Some (poll_settled now r s))"
| "sched_step s (SaveTick a b) = (if a \<le> b then Some (save_tick a b s) else None)"
| "sched_step s (SaveSettled i ok) =
     (if i < length (pending_saves s) then Some (save_settled i ok s) else None)"

fun sched_run :: "sched_state \<Rightarrow> sched_event list \<Rightarrow> sched_state option" where
  "sched_run s [] = Some s"
| "sched_run s (e # es) = (case sched_step s e of None \<Rightarrow> None | Some s' \<Rightarrow> sched_run s' es)"

inductive reachable :: "weather_manager \<Rightarrow> sched_state \<Rightarrow> bool" for m where
  init: "reachable m (init_sched m)"
| step: "reachable m s \<Longrightarrow> sched_step s e = Some s' \<Longrightarrow> reachable m s'"


section \<open>What the runs keep true\<close>

text \<open>The polling flag is set exactly while one polling handler is suspended at its fetch.\<close>

definition flag_inv :: "sched_state \<Rightarrow> bool" where
  "flag_inv s \<longleftrightarrow> polls_in_flight s = (if isJobRunning s then 1 else 0)"

text \<open>
  Consistency of what the persistence job sees: \<open>prefix_snapshot c hs sm\<close> says that
  \<open>sm\<close> is the summary of the statistics after the first \<open>k\<close> observations of the
  history \<open>hs\<close>, for some \<open>k\<close>; \<open>consistent_state\<close> says that the manager's
  statistics are those of some history of whole \<open>add_stats\<close> calls and that every
  pending and every stored snapshot is the summary after a prefix of that history.
\<close>

definition prefix_snapshot :: "city \<Rightarrow> weather_data list \<Rightarrow> daily_summary \<Rightarrow> bool" where
  "prefix_snapshot c hs sm \<longleftrightarrow> (\<exists>k \<le> length hs. sm = get_daily_summary (stats_of c (take k hs)))"

definition consistent_state :: "city \<Rightarrow> sched_state \<Rightarrow> bool" where
  "consistent_state c s \<longleftrightarrow>
     (\<exists>hs. weatherStats (manager s) = stats_of c hs \<and>
           list_all (\<lambda>doc. prefix_snapshot c hs (sv_summary doc)) (pending_saves s) \<and>
           list_all (\<lambda>st. \<exists>sm dt. prefix_snapshot c hs sm \<and> st = stored_fields sm dt) (db s))"

text \<open>A manager for the concrete runs below, and a well-formed OpenWeather response.\<close>

definition paris :: weather_manager where
  "paris = new_weather_manager ''Paris'' Celsius"

definition clear_response :: api_response where
  "clear_response = \<lparr>resp_main = Some \<lparr>main_temp = Fin 300.15, main_temp_max = Fin 301.15, main_temp_min = Fin 299.15\<rparr>,
                      resp_weather = [''Clear'']\<rparr>"

section \<open>Lemmas\<close>

lemma poll_catch_fields [sched_simps]:
  "manager (poll_catch now msg s) = manager s" "isJobRunning (poll_catch now msg s) = isJobRunning s"
  "polls_in_flight (poll_catch now msg s) = polls_in_flight s" "pending_saves (poll_catch now msg s) = pending_saves s"
  "db (poll_catch now msg s) = db s"
  by (simp_all add: poll_catch_def)

lemma poll_tick_fields [sched_simps]:
  "manager (poll_tick now s) = manager s" "pending_saves (poll_tick now s) = pending_saves s"
  "db (poll_tick now s) = db s" "error_log (poll_tick now s) = error_log s"
  "isJobRunning (poll_tick now s) = True"
  "polls_in_flight (poll_tick now s) = (if isJobRunning s then polls_in_flight s else Suc (polls_in_flight s))"
  by (simp_all add: poll_tick_def)

lemma poll_settled_fields [sched_simps]:
  "isJobRunning (poll_settled now r s) = False"
  "polls_in_flight (poll_settled now r s) = polls_in_flight s - 1"
  "pending_saves (poll_settled now r s) = pending_saves s"
  "db (poll_settled now r s) = db s"
  by (auto simp: poll_settled_def Let_def sched_simps split: prod.splits sum.splits option.splits)

lemma poll_settled_manager:
  "manager (poll_settled now r s) =
     (case observation_of (fst (get_weather r)) of
        Inl _ \<Rightarrow> manager s
      | Inr d \<Rightarrow> fst (add_weather_data (manager s) d))"
  by (auto simp: poll_settled_def Let_def sched_simps split: prod.splits sum.splits option.splits)

lemma save_tick_fields [sched_simps]:
  "manager (save_tick a b s) = manager s" "isJobRunning (save_tick a b s) = isJobRunning s"
  "polls_in_flight (save_tick a b s) = polls_in_flight s" "db (save_tick a b s) = db s"
  "pending_saves (save_tick a b s) =
     pending_saves s @ [\<lparr>sv_summary = manager_daily_summary (manager s), sv_date = js_yesterday a b\<rparr>]"
  by (simp_all add: save_tick_def Let_def)

lemma save_settled_fields [sched_simps]:
  "manager (save_settled i ok s) = manager s" "isJobRunning (save_settled i ok s) = isJobRunning s"
  "polls_in_flight (save_settled i ok s) = polls_in_flight s"
  "pending_saves (save_settled i ok s) = take i (pending_saves s) @ drop (Suc i) (pending_saves s)"
  by (simp_all add: save_settled_def Let_def split: sum.splits)

lemma save_settled_db:
  "db (save_settled i ok s) = db s \<or>
   (\<exists>st. weather_summary_create (pending_saves s ! i) = Inr st \<and> db (save_settled i ok s) = db s @ [st])"
  by (auto simp: save_settled_def Let_def split: sum.splits)

lemma sched_step_flag_inv: "flag_inv s \<Longrightarrow> sched_step s e = Some s' \<Longrightarrow> flag_inv s'"
  by (cases e) (auto simp: flag_inv_def sched_simps split: if_splits)

lemma reachable_flag_inv: "reachable m s \<Longrightarrow> flag_inv s"
proof (induction rule: reachable.induct)
  case init
  then show ?case by (simp add: flag_inv_def init_sched_def)
next
  case (step s e s')
  then show ?case by (blast intro: sched_step_flag_inv)
qed

lemma poll_settled_error_log:
  "error_log (poll_settled now r s) = error_log s \<or>
   (\<exists>msg. error_log (poll_settled now r s) = error_log s @ [\<lparr>el_time = now, el_message = msg\<rparr>])"
  by (auto simp: poll_settled_def poll_catch_def log_error_to_file_def Let_def split: prod.splits sum.splits option.splits)

lemma prefix_snapshot_snoc: "prefix_snapshot c hs sm \<Longrightarrow> prefix_snapshot c (hs @ [x]) sm"
proof -
  assume "prefix_snapshot c hs sm"
  then obtain k where k: "k \<le> length hs" "sm = get_daily_summary (stats_of c (take k hs))"
    by (auto simp: prefix_snapshot_def)
  then have "take k (hs @ [x]) = take k hs" by simp
  with k show ?thesis unfolding prefix_snapshot_def by (intro exI [of _ k]) simp
qed

lemma prefix_snapshot_current: "prefix_snapshot c hs (get_daily_summary (stats_of c hs))"
  unfolding prefix_snapshot_def by (intro exI [of _ "length hs"]) simp

lemma sched_step_consistent:
  assumes "consistent_state c s" and "sched_step s e = Some s'"
  shows "consistent_state c s'"
proof -
  from assms(1) obtain hs where st: "weatherStats (manager s) = stats_of c hs"
    and pend: "list_all (\<lambda>doc. prefix_snapshot c hs (sv_summary doc)) (pending_saves s)"
    and dbs: "list_all (\<lambda>st. \<exists>sm dt. prefix_snapshot c hs sm \<and> st = stored_fields sm dt) (db s)"
    by (auto simp: consistent_state_def)
  show ?thesis
  proof (cases e)
    case (PollTick now)
    with assms(2) st pend dbs show ?thesis by (auto simp: consistent_state_def sched_simps)
  next
    case (PollSettled now r)
    with assms(2) have s': "s' = poll_settled now r s" by (simp split: if_splits)
    show ?thesis
    proof (cases "observation_of (fst (get_weather r))")
      case (Inl msg)
      with s' st pend dbs show ?thesis
        by (auto simp: consistent_state_def sched_simps poll_settled_manager)
    next
      case (Inr d)
      let ?d = "format_weather_data (manager s) d"
      have "weatherStats (manager s') = stats_of c (hs @ [?d])"
        using s' Inr st by (simp add: poll_settled_manager add_weather_data_manager)
      moreover have "list_all (\<lambda>doc. prefix_snapshot c (hs @ [?d]) (sv_summary doc)) (pending_saves s')"
        using s' pend by (simp add: sched_simps list_all_iff prefix_snapshot_snoc)
      moreover have "list_all (\<lambda>st. \<exists>sm dt. prefix_snapshot c (hs @ [?d]) sm \<and> st = stored_fields sm dt) (db s')"
        using s' dbs by (fastforce simp: sched_simps list_all_iff intro: prefix_snapshot_snoc)
      ultimately show ?thesis unfolding consistent_state_def by blast
    qed
  next
    case (SaveTick a b)
    with assms(2) have s': "s' = save_tick a b s" by (simp split: if_splits)
    have "prefix_snapshot c hs (manager_daily_summary (manager s))"
      using st by (simp add: manager_daily_summary_def prefix_snapshot_current)
    with s' st pend dbs show ?thesis by (auto simp: consistent_state_def sched_simps)
  next
    case (SaveSettled i ok)
    with assms(2) have i: "i < length (pending_saves s)" and s': "s' = save_settled i ok s"
      by (simp_all split: if_splits)
    have doc: "prefix_snapshot c hs (sv_summary (pending_saves s ! i))"
      using pend i by (simp add: list_all_iff)
    have "list_all (\<lambda>st. \<exists>sm dt. prefix_snapshot c hs sm \<and> st = stored_fields sm dt) (db s')"
    proof (cases "db s' = db s")
      case True
      with dbs show ?thesis by simp
    next
      case False
      with save_settled_db [of i ok s] s' obtain st where
        cr: "weather_summary_create (pending_saves s ! i) = Inr st" and db': "db s' = db s @ [st]"
        by auto
      from weather_summary_create_Inr [OF cr] doc dbs db' show ?thesis by auto
    qed
    moreover have "list_all (\<lambda>doc. prefix_snapshot c hs (sv_summary doc)) (pending_saves s')"
      using s' pend by (simp add: sched_simps list_all_remove_nth del: list_all_append)
    moreover have "weatherStats (manager s') = stats_of c hs" using s' st by (simp add: sched_simps)
    ultimately show ?thesis unfolding consistent_state_def by blast
  qed
qed

lemma reachable_run: "reachable m s \<Longrightarrow> sched_run s es = Some s' \<Longrightarrow> reachable m s'"
proof (induction es arbitrary: s)
  case Nil
  then show ?case by simp
next
  case (Cons e es)
  then show ?case by (auto split: option.splits intro: reachable.step)
qed

lemma sched_run_append:
  "sched_run s (es1 @ es2) = (case sched_run s es1 of None \<Rightarrow> None | Some s' \<Rightarrow> sched_run s' es2)"
  by (induction s es1 rule: sched_run.induct) (auto split: option.split)

lemma drain_saves:
  "length oks = length (pending_saves s) \<Longrightarrow>
   \<exists>s'. sched_run s (map (SaveSettled 0) oks) = Some s' \<and>
        pending_saves s' = [] \<and> polls_in_flight s' = polls_in_flight s \<and> isJobRunning s' = isJobRunning s"
proof (induction oks arbitrary: s)
  case Nil
  then show ?case by simp
next
  case (Cons ok oks)
  let ?s1 = "save_settled 0 ok s"
  have "length oks = length (pending_saves ?s1)" using Cons.prems by (simp add: sched_simps)
  from Cons.IH [OF this] obtain s' where
    "sched_run ?s1 (map (SaveSettled 0) oks) = Some s'" "pending_saves s' = []"
    "polls_in_flight s' = polls_in_flight ?s1" "isJobRunning s' = isJobRunning ?s1"
    by blast
  moreover have "sched_step s (SaveSettled 0 ok) = Some ?s1" using Cons.prems by (cases "pending_saves s") simp_all
  ultimately show ?case by (simp add: sched_simps)
qed

section \<open>Properties\<close>

text \<open>
  C12: non-reentrancy of the polling job. In every reachable state at most one polling
  handler is suspended at its fetch, the flag is set exactly when one is, and a firing
  while one is in flight changes nothing but the console: the aggregator never sees two
  overlapping fetch-and-ingest cycles.
\<close>

theorem polling_non_reentrant:
  assumes "reachable m s"
  shows "polls_in_flight s \<le> 1 \<and> (isJobRunning s \<longleftrightarrow> polls_in_flight s = 1) \<and>
         (0 < polls_in_flight s \<longrightarrow> poll_tick now s = s\<lparr>console := console s @ [CronSkipped]\<rparr>)"
  using reachable_flag_inv [OF assms] by (auto simp: flag_inv_def poll_tick_def split: if_splits)

text \<open>
  C13: every completion of a fetch, whether the fetch failed, the response was malformed
  or a trigger threw, clears the flag (the \<open>finally\<close> block), so the next firing starts
  a new cycle; the completion appends at most one line, stamped with its time, to the
  error log.
\<close>

theorem poll_completion_releases_flag:
  assumes "reachable m s" and "sched_step s (PollSettled now r) = Some s'"
  shows "\<not> isJobRunning s' \<and> polls_in_flight s' = 0 \<and>
         polls_in_flight (poll_tick t s') = 1 \<and>
         (error_log s' = error_log s \<or> (\<exists>msg. error_log s' = error_log s @ [\<lparr>el_time = now, el_message = msg\<rparr>]))"
proof -
  have inv: "flag_inv s" using assms(1) by (rule reachable_flag_inv)
  from assms(2) have p: "0 < polls_in_flight s" and s': "s' = poll_settled now r s"
    by (auto split: if_splits)
  with inv have "polls_in_flight s = 1" by (simp add: flag_inv_def split: if_splits)
  with s' show ?thesis using poll_settled_error_log [of now r s] by (simp add: sched_simps)
qed

text \<open>
  C14: snapshot consistency. From a fresh manager, in every reachable state, under every
  interleaving of the two jobs and of the settlements of their fetches and writes, the
  statistics are those of a sequence of whole \<open>add_stats\<close> calls, and every snapshot
  waiting to be written and every stored document is the summary after a prefix of that
  same sequence: no snapshot shows a half-updated aggregator.
\<close>

theorem snapshots_consistent:
  assumes "weatherStats m = new_weather_stats c" and "reachable m s"
  shows "consistent_state c s"
  using assms(2)
proof (induction rule: reachable.induct)
  case init
  show ?case
    using assms(1) unfolding consistent_state_def
    by (intro exI [of _ "[]"]) (simp add: init_sched_def)
next
  case (step s e s')
  from step.IH step.hyps(2) show ?case by (rule sched_step_consistent)
qed


text \<open>
  C20: the store is append-only. Every step keeps the stored documents as a prefix and adds
  at most one: repeated firings on the same day add documents with the same date, and no
  step updates or removes one.
\<close>

theorem db_append_only:
  "sched_step s e = Some s' \<Longrightarrow> \<exists>new. db s' = db s @ new \<and> length new \<le> 1"
proof (cases e)
  case (SaveSettled i ok)
  moreover assume "sched_step s e = Some s'"
  ultimately have "s' = save_settled i ok s" by (simp split: if_splits)
  then show ?thesis using save_settled_db [of i ok s] by auto
qed (auto simp: sched_simps split: if_splits)

text \<open>
  C32: the suspended handlers always settle: from every reachable state, whatever the
  fetch outcome and the database's answers, resuming the polling handler (if one is
  suspended) and then every pending save is a run of the system that ends with the flag
  clear and nothing in flight.
\<close>

theorem sched_quiesce:
  assumes "reachable m s" and "length oks = length (pending_saves s)"
  shows "\<exists>s'. sched_run s ((if isJobRunning s then [PollSettled now r] else []) @ map (SaveSettled 0) oks) = Some s' \<and>
              reachable m s' \<and> \<not> isJobRunning s' \<and> polls_in_flight s' = 0 \<and> pending_saves s' = []"
proof -
  have inv: "flag_inv s" by (rule reachable_flag_inv [OF assms(1)])
  let ?es1 = "if isJobRunning s then [PollSettled now r] else []"
  obtain s1 where r1: "sched_run s ?es1 = Some s1" and f1: "\<not> isJobRunning s1" "polls_in_flight s1 = 0"
      and p1: "pending_saves s1 = pending_saves s"
  proof (cases "isJobRunning s")
    case True
    then have "polls_in_flight s = 1" using inv by (simp add: flag_inv_def)
    with True show ?thesis by (intro that [of "poll_settled now r s"]) (simp_all add: sched_simps)
  next
    case False
    then show ?thesis using inv by (intro that [of s]) (simp_all add: flag_inv_def)
  qed
  from drain_saves [of oks s1] assms(2) p1 obtain s2 where
    r2: "sched_run s1 (map (SaveSettled 0) oks) = Some s2"
    and q: "pending_saves s2 = []" "polls_in_flight s2 = 0" "\<not> isJobRunning s2"
    using f1 by auto
  have r: "sched_run s (?es1 @ map (SaveSettled 0) oks) = Some s2"
    using r1 r2 by (simp add: sched_run_append)
  then have "reachable m s2" using reachable_run [OF assms(1)] by blast
  with r q show ?thesis by blast
qed

section \<open>Witnesses\<close>

lemma polling_non_reentrant_witness:
  "reachable paris (poll_tick 0 (init_sched paris)) \<and>
   poll_tick 60000 (poll_tick 0 (init_sched paris)) =
     (poll_tick 0 (init_sched paris))\<lparr>console := console (poll_tick 0 (init_sched paris)) @ [CronSkipped]\<rparr>"
proof -
  have r: "reachable paris (poll_tick 0 (init_sched paris))"
    by (rule reachable.step [OF reachable.init, where e = "PollTick 0"]) simp
  have "0 < polls_in_flight (poll_tick 0 (init_sched paris))"
    by (simp add: poll_tick_def init_sched_def)
  with r polling_non_reentrant [OF r, of 60000] show ?thesis by blast
qed

lemma poll_completion_releases_flag_witness:
  "sched_step (poll_tick 0 (init_sched paris)) (PollSettled 1000 (Inl ''timeout'')) = Some (poll_settled 1000 (Inl ''timeout'') (poll_tick 0 (init_sched paris))) \<and>
   \<not> isJobRunning (poll_settled 1000 (Inl ''timeout'') (poll_tick 0 (init_sched paris)))"
proof -
  have r: "reachable paris (poll_tick 0 (init_sched paris))"
    by (rule reachable.step [OF reachable.init, where e = "PollTick 0"]) simp
  have st: "sched_step (poll_tick 0 (init_sched paris)) (PollSettled 1000 (Inl ''timeout'')) =
            Some (poll_settled 1000 (Inl ''timeout'') (poll_tick 0 (init_sched paris)))"
    by (simp add: poll_tick_def init_sched_def)
  show ?thesis using st poll_completion_releases_flag [OF r st] by blast
qed

text \<open>A run of both jobs that stores one document: one observation, then one save.\<close>

lemma paris_run_stores_one:
  "\<exists>s'. sched_run (init_sched paris)
          [PollTick 0, PollSettled 1000 (Inr clear_response), SaveTick 5097600000 5097600000, SaveSettled 0 True] = Some s' \<and>
        length (db s') = 1"
proof -
  have "map_option (length \<circ> db) (sched_run (init_sched paris)
          [PollTick 0, PollSettled 1000 (Inr clear_response), SaveTick 5097600000 5097600000, SaveSettled 0 True]) = Some 1"
    by code_simp
  then show ?thesis by auto
qed

lemma snapshots_consistent_witness:
  "\<exists>s'. sched_run (init_sched paris)
          [PollTick 0, PollSettled 1000 (Inr clear_response), SaveTick 5097600000 5097600000, SaveSettled 0 True] = Some s' \<and>
        consistent_state ''Paris'' s' \<and> length (db s') = 1"
proof -
  obtain s' where s': "sched_run (init_sched paris)
          [PollTick 0, PollSettled 1000 (Inr clear_response), SaveTick 5097600000 5097600000, SaveSettled 0 True] = Some s'"
    and l: "length (db s') = 1"
    using paris_run_stores_one by blast
  have "weatherStats paris = new_weather_stats ''Paris''" by (simp add: paris_def new_weather_manager_def)
  moreover have "reachable paris s'" using reachable.init s' by (rule reachable_run)
  ultimately have "consistent_state ''Paris'' s'" by (rule snapshots_consistent)
  with s' l show ?thesis by blast
qed

lemma db_append_only_witness:
  "sched_step (init_sched paris) (SaveTick 0 0) = Some (save_tick 0 0 (init_sched paris)) \<and>
   db (save_tick 0 0 (init_sched paris)) = []"
proof -
  have st: "sched_step (init_sched paris) (SaveTick 0 0) = Some (save_tick 0 0 (init_sched paris))" by simp
  from db_append_only [OF st] have "\<exists>new. db (save_tick 0 0 (init_sched paris)) = [] @ new \<and> length new \<le> 1"
    by (simp add: init_sched_def)
  with st show ?thesis by (simp add: sched_simps init_sched_def)
qed

lemma sched_quiesce_witness:
  "reachable paris (poll_tick 0 (init_sched paris)) \<and>
   (\<exists>s'. sched_run (poll_tick 0 (init_sched paris)) [PollSettled 60000 (Inr clear_response)] = Some s' \<and>
         \<not> isJobRunning s' \<and> polls_in_flight s' = 0 \<and> pending_saves s' = [])"
proof -
  have r: "reachable paris (poll_tick 0 (init_sched paris))"
    by (rule reachable.step [OF reachable.init, where e = "PollTick 0"]) simp
  have l: "length ([] :: bool list) = length (pending_saves (poll_tick 0 (init_sched paris)))"
    by (simp add: sched_simps init_sched_def)
  show ?thesis using sched_quiesce [OF r l, of 60000 "Inr clear_response"] r
    by (auto simp: sched_simps init_sched_def)
qed

end
