(* ===== verification/App.thy ===== *)
theory App
  imports Scheduler "HOL-Library.Monad_Syntax"
begin

text \<open>
  \<open>src/app.js\<close> and \<open>src/utils/mongo_db.js\<close>: the start-up of the process.
  \<open>connectToDB\<close> either connects or prints the error and exits with status 1. Then
  \<open>askMultipleQuestions\<close> reads, in order, the city, the unit, and for each of the two
  trigger kinds a \<open>Y/N\<close> answer followed, on \<open>Y\<close>, by an operator and a threshold;
  an invalid unit throws before the manager is built. The main function catches that
  error and prints it; otherwise it starts both cron jobs on the manager.

  The terminal is a record of the answers still to be typed and the prompts printed.
  \<open>rl.question\<close> prints its prompt and waits: with no answer left the process waits
  for ever, which is the value \<open>None\<close> of the option monad. The outcome of
  \<open>mongoose.connect\<close> is an argument (\<open>Inl\<close> its error message).
\<close>

record tty =
  tty_input :: "string list"
  tty_output :: "string list"

text \<open>\<open>askQuestion\<close>, lines 18--20.\<close>

definition ask_question :: "string \<Rightarrow> tty \<Rightarrow> (string \<times> tty) option" where
  "ask_question q t =
     (case tty_input t of
        [] \<Rightarrow> None
      | a # rest \<Rightarrow> Some (a, \<lparr>tty_input = rest, tty_output = tty_output t @ [q]\<rparr>))"

text \<open>Lines 39--46 and 50--57: an optional trigger on a fixed attribute.\<close>

definition ask_trigger ::
  "string \<Rightarrow> attribute \<Rightarrow> string \<Rightarrow> weather_manager \<Rightarrow> tty \<Rightarrow> (weather_manager \<times> tty) option" where
  "ask_trigger answer a threshold_prompt m t =
     (if answer = ''Y'' then
        do {
          (op, t1) \<leftarrow> ask_question ''Enter Operator: '' t;
          (th, t2) \<leftarrow> ask_question threshold_prompt t1;
          Some (add_trigger m a op (JStr th), t2)
        }
      else Some (m, t))"

definition invalid_type_message :: "string \<Rightarrow> string" where
  "invalid_type_message s = ''Invalid temperature type: '' @ s @ ''. It should be either celcius or fahrenheit.''"

text \<open>\<open>askMultipleQuestions\<close>, lines 23--64: the manager, or the message of the error thrown.\<close>

definition ask_multiple_questions :: "tty \<Rightarrow> ((string + weather_manager) \<times> tty) option" where
  "ask_multiple_questions t0 =
     do {
       (c, t1) \<leftarrow> ask_question ''Please enter your city: '' t0;
       (ty, t2) \<leftarrow> ask_question ''Enter temperature type (celsius/fahrenheit): '' t1;
       (case get_temperature_type ty of
          None \<Rightarrow> Some (Inl (invalid_type_message ty), t2)
        | Some tt \<Rightarrow>
            do {
              (a1, t3) \<leftarrow> ask_question ''Do you want to add a temprature trigger: (Y/N)'' t2;
              (m1, t4) \<leftarrow> ask_trigger a1 ''temperature'' ''Enter Threshold: '' (new_weather_manager c tt) t3;
              (a2, t5) \<leftarrow> ask_question ''Do you want to add a weather condition trigger: (Y/N)'' t4;
              (m2, t6) \<leftarrow> ask_trigger a2 ''condition'' ''Enter condition: '' m1 t5;
              Some (Inr m2, t6)
            })
     }"

datatype startup =
    Exited nat
  | StartFailed string
  | Started weather_manager

text \<open>
  Lines 69--85 with \<open>connectToDB\<close>: the outcome of start-up (\<open>None\<close> while waiting for
  input), the terminal, and the scheduler's initial state when both jobs are started.
\<close>

text \<open>
  \<open>connectToDB\<close>, \<open>src/utils/mongo_db.js\<close> lines 6--14: \<open>Inr\<close> the terminal after a
  connection, \<open>Inl\<close> the terminal at \<open>process.exit(1)\<close>.
\<close>

definition connect_to_db :: "string + unit \<Rightarrow> tty \<Rightarrow> tty + tty" where
  "connect_to_db conn t =
     (case conn of
        Inl err \<Rightarrow> Inl (t\<lparr>tty_output := tty_output t @ [''Error: '' @ err]\<rparr>)
      | Inr _ \<Rightarrow> Inr (t\<lparr>tty_output := tty_output t @ [''MongoDB connected successfully'']\<rparr>))"

definition app_main :: "string + unit \<Rightarrow> tty \<Rightarrow> (startup \<times> tty) option" where
  "app_main conn t =
     (case connect_to_db conn t of
        Inl t' \<Rightarrow> Some (Exited 1, t')
      | Inr t' \<Rightarrow>
          (case ask_multiple_questions t' of
             None \<Rightarrow> None
           | Some (Inl msg, t'') \<Rightarrow> Some (StartFailed msg, t''\<lparr>tty_output := tty_output t'' @ [''Error occurred: '' @ msg]\<rparr>)
           | Some (Inr m, t'') \<Rightarrow> Some (Started m, t'')))"

text \<open>A start-up session for the concrete instances below.\<close>

definition demo_manager :: weather_manager where
  "demo_manager = add_trigger (add_trigger (new_weather_manager ''Paris'' Celsius) ''temperature'' ''=='' (JStr ''27''))
                    ''condition'' ''=='' (JStr ''Clear'')"

definition demo_tty :: tty where
  "demo_tty = \<lparr>tty_input = [''Paris'', ''Celsius'', ''Y'', ''=='', ''27'', ''Y'', ''=='', ''Clear''], tty_output = []\<rparr>"

definition started_system :: "startup \<Rightarrow> sched_state option" where
  "started_system r = (case r of Started m \<Rightarrow> Some (init_sched m) | _ \<Rightarrow> None)"

section \<open>Lemmas\<close>

lemma ask_question_Some:
  "ask_question q t = Some (a, t') \<Longrightarrow> tty_input t = a # tty_input t' \<and> tty_output t' = tty_output t @ [q]"
  by (auto simp: ask_question_def split: list.splits)

lemma ask_trigger_Some:
  assumes "ask_trigger ans a p m t = Some (m', t')"
  shows "weatherStats m' = weatherStats m \<and> temperatureType m' = temperatureType m \<and>
         (\<exists>ts. triggers m' = triggers m @ ts \<and> length ts \<le> 1 \<and>
               (\<forall>tr \<in> set ts. attribute tr = a \<and> (\<exists>s. threshold tr = JStr s)))"
proof (cases "ans = ''Y''")
  case True
  with assms obtain op t1 th where "triggers m' = triggers m @ [new_weather_trigger a op (JStr th)]"
      "weatherStats m' = weatherStats m" "temperatureType m' = temperatureType m"
    by (auto simp: ask_trigger_def add_trigger_def bind_eq_Some_conv split: prod.splits)
  then show ?thesis by (auto simp: new_weather_trigger_def)
next
  case False
  with assms show ?thesis by (auto simp: ask_trigger_def)
qed

lemma ask_multiple_questions_Inr:
  assumes "ask_multiple_questions t = Some (Inr m, t')"
  shows "\<exists>c ty rest tt. tty_input t = c # ty # rest \<and> get_temperature_type ty = Some tt \<and>
           weatherStats m = new_weather_stats c \<and> temperatureType m = tt \<and>
           (\<exists>ts1 ts2. triggers m = ts1 @ ts2 \<and> length ts1 \<le> 1 \<and> length ts2 \<le> 1 \<and>
              (\<forall>tr \<in> set ts1. attribute tr = ''temperature'' \<and> (\<exists>s. threshold tr = JStr s)) \<and>
              (\<forall>tr \<in> set ts2. attribute tr = ''condition'' \<and> (\<exists>s. threshold tr = JStr s)))"
proof -
  from assms obtain c t1 ty t2 tt a1 t3 m1 t4 a2 t5 where
    q1: "ask_question ''Please enter your city: '' t = Some (c, t1)" and
    q2: "ask_question ''Enter temperature type (celsius/fahrenheit): '' t1 = Some (ty, t2)" and
    tt: "get_temperature_type ty = Some tt" and
    q3: "ask_question ''Do you want to add a temprature trigger: (Y/N)'' t2 = Some (a1, t3)" and
    g1: "ask_trigger a1 ''temperature'' ''Enter Threshold: '' (new_weather_manager c tt) t3 = Some (m1, t4)" and
    q4: "ask_question ''Do you want to add a weather condition trigger: (Y/N)'' t4 = Some (a2, t5)" and
    g2: "ask_trigger a2 ''condition'' ''Enter condition: '' m1 t5 = Some (m, t')"
    by (auto simp: ask_multiple_questions_def bind_eq_Some_conv split: prod.splits option.splits)
  from ask_trigger_Some [OF g1] obtain ts1 where h1: "weatherStats m1 = new_weather_stats c"
      "temperatureType m1 = tt" "triggers m1 = ts1" "length ts1 \<le> 1"
      "\<forall>tr \<in> set ts1. attribute tr = ''temperature'' \<and> (\<exists>s. threshold tr = JStr s)"
    by (auto simp: new_weather_manager_def)
  from ask_trigger_Some [OF g2] h1 obtain ts2 where "weatherStats m = new_weather_stats c"
      "temperatureType m = tt" "triggers m = ts1 @ ts2" "length ts2 \<le> 1"
      "\<forall>tr \<in> set ts2. attribute tr = ''condition'' \<and> (\<exists>s. threshold tr = JStr s)"
    by auto
  moreover have "tty_input t = c # ty # tty_input t2"
    using ask_question_Some [OF q1] ask_question_Some [OF q2] by simp
  ultimately show ?thesis using tt h1 by blast
qed

lemma app_main_demo:
  "app_main (Inr ()) demo_tty =
     Some (Started demo_manager,
           \<lparr>tty_input = [], tty_output = [''MongoDB connected successfully'', ''Please enter your city: '',
              ''Enter temperature type (celsius/fahrenheit): '', ''Do you want to add a temprature trigger: (Y/N)'',
              ''Enter Operator: '', ''Enter Threshold: '', ''Do you want to add a weather condition trigger: (Y/N)'',
              ''Enter Operator: '', ''Enter condition: '']\<rparr>)"
proof -
  have g: "get_temperature_type ''Celsius'' = Some Celsius" by code_simp
  show ?thesis
    by (simp add: app_main_def connect_to_db_def ask_multiple_questions_def ask_question_def ask_trigger_def demo_tty_def demo_manager_def g)
qed

section \<open>Properties\<close>

text \<open>
  C29: scheduling begins only after a successful database connection and a valid unit:
  whenever start-up starts the two jobs, the connection succeeded, the first two
  answers were the city and a unit \<open>getTemperatureType\<close> accepts, and the jobs start
  from the scheduler's initial state on a fresh manager for that city and unit.
\<close>

theorem startup_guards:
  assumes "app_main conn t = Some (r, t')" and "started_system r = Some s"
  shows "conn = Inr () \<and> reachable (manager s) s \<and>
         (\<exists>c ty rest tt. tty_input t = c # ty # rest \<and> get_temperature_type ty = Some tt \<and>
            weatherStats (manager s) = new_weather_stats c \<and> temperatureType (manager s) = tt)"
proof -
  from assms obtain m t'' where c: "conn = Inr ()" and r: "r = Started m" and s: "s = init_sched m"
      and a: "ask_multiple_questions (t\<lparr>tty_output := tty_output t @ [''MongoDB connected successfully'']\<rparr>) = Some (Inr m, t'')"
    by (auto simp: app_main_def connect_to_db_def started_system_def split: sum.splits option.splits prod.splits startup.splits)
  have "manager s = m" using s by (simp add: init_sched_def)
  then show ?thesis using ask_multiple_questions_Inr [OF a] c s reachable.init [of m] by auto
qed

text \<open>
  C30: an invalid unit aborts start-up before any trigger question and before
  scheduling: the error thrown in \<open>askMultipleQuestions\<close> reaches the main function's
  \<open>catch\<close>, which prints it.
\<close>

theorem startup_invalid_unit:
  assumes "get_temperature_type ty = None"
  shows "app_main (Inr ()) \<lparr>tty_input = c # ty # rest, tty_output = out\<rparr> =
           Some (StartFailed (invalid_type_message ty),
                 \<lparr>tty_input = rest,
                  tty_output = out @ [''MongoDB connected successfully'', ''Please enter your city: '',
                                      ''Enter temperature type (celsius/fahrenheit): '',
                                      ''Error occurred: '' @ invalid_type_message ty]\<rparr>)"
  using assms by (simp add: app_main_def connect_to_db_def ask_multiple_questions_def ask_question_def)

text \<open>
  C31: the triggers configured at start-up are at most one on \<open>temperature\<close> followed
  by at most one on \<open>condition\<close>, each with the typed string as threshold; so an
  \<open>==\<close> trigger configured at start-up never fires on a Number.
\<close>

theorem startup_triggers_shape:
  assumes "app_main conn t = Some (Started m, t')"
  shows "(\<exists>ts1 ts2. triggers m = ts1 @ ts2 \<and> length ts1 \<le> 1 \<and> length ts2 \<le> 1 \<and>
            list_all (\<lambda>tr. attribute tr = ''temperature'') ts1 \<and> list_all (\<lambda>tr. attribute tr = ''condition'') ts2) \<and>
         list_all (\<lambda>tr. \<exists>s. threshold tr = JStr s) (triggers m) \<and>
         list_all (\<lambda>tr. operator tr = ''=='' \<longrightarrow> (\<forall>n. is_triggered tr (JNum n) = Inr False)) (triggers m)"
proof -
  from assms obtain t'' where
    "ask_multiple_questions (t\<lparr>tty_output := tty_output t @ [''MongoDB connected successfully'']\<rparr>) = Some (Inr m, t'')"
    by (auto simp: app_main_def connect_to_db_def split: sum.splits option.splits prod.splits)
  from ask_multiple_questions_Inr [OF this] obtain ts1 ts2 where
    tr: "triggers m = ts1 @ ts2" "length ts1 \<le> 1" "length ts2 \<le> 1"
    "\<forall>tr \<in> set ts1. attribute tr = ''temperature'' \<and> (\<exists>s. threshold tr = JStr s)"
    "\<forall>tr \<in> set ts2. attribute tr = ''condition'' \<and> (\<exists>s. threshold tr = JStr s)"
    by blast
  then have str: "\<forall>tr \<in> set (triggers m). \<exists>s. threshold tr = JStr s" by auto
  have "operator tr = ''=='' \<longrightarrow> is_triggered tr (JNum n) = Inr False" if "tr \<in> set (triggers m)" for tr n
    using str that by (auto simp: is_triggered_def)
  then show ?thesis using tr str by (auto simp: list_all_iff)
qed

section \<open>Witnesses\<close>

lemma startup_guards_witness:
  "started_system (Started demo_manager) = Some (init_sched demo_manager) \<and>
   reachable demo_manager (init_sched demo_manager) \<and> temperatureType demo_manager = Celsius"
proof -
  have s: "started_system (Started demo_manager) = Some (init_sched demo_manager)" by (simp add: started_system_def)
  have "manager (init_sched demo_manager) = demo_manager" by (simp add: init_sched_def)
  then show ?thesis using startup_guards [OF app_main_demo s] s
    by (auto simp: demo_manager_def add_trigger_def new_weather_manager_def)
qed

lemma startup_invalid_unit_witness:
  "get_temperature_type ''kelvin'' = None \<and>
   app_main (Inr ()) \<lparr>tty_input = [''Paris'', ''kelvin''], tty_output = []\<rparr> =
     Some (StartFailed (invalid_type_message ''kelvin''),
           \<lparr>tty_input = [], tty_output = [''MongoDB connected successfully'', ''Please enter your city: '',
              ''Enter temperature type (celsius/fahrenheit): '', ''Error occurred: '' @ invalid_type_message ''kelvin'']\<rparr>)"
proof -
  have k: "get_temperature_type ''kelvin'' = None" by code_simp
  show ?thesis using startup_invalid_unit [OF k, of "''Paris''" "[]" "[]"] k by simp
qed

lemma startup_triggers_shape_witness:
  "triggers demo_manager = [new_weather_trigger ''temperature'' ''=='' (JStr ''27''), new_weather_trigger ''condition'' ''=='' (JStr ''Clear'')] \<and>
   is_triggered (new_weather_trigger ''temperature'' ''=='' (JStr ''27'')) (JNum (Fin 27)) = Inr False"
proof -
  have t: "triggers demo_manager = [new_weather_trigger ''temperature'' ''=='' (JStr ''27''), new_weather_trigger ''condition'' ''=='' (JStr ''Clear'')]"
    by (simp add: demo_manager_def add_trigger_def new_weather_manager_def)
  show ?thesis using startup_triggers_shape [OF app_main_demo] t by (simp add: new_weather_trigger_def)
qed

end
