(* ===== verification/FrequencyObject.thy ===== *)
theory FrequencyObject
  imports WeatherStats
begin

text \<open>
  The frequency table of \<open>src/services/weather_stats.js\<close> as JavaScript has it:
  \<open>this.weatherFrequency = {}\<close> is a plain object, so \<open>weatherFrequency[condition]\<close>
  reads an own property or, failing that, a property inherited from
  \<open>Object.prototype\<close>. \<open>WeatherStats\<close> models the table as a map from conditions to
  counts; this theory models lines 46--57 on the object itself and relates the two.
  For a condition that names no property of \<open>Object.prototype\<close> the map model is exact
  (\<open>stats_refine_object\<close>); for one that does, the counts diverge
  (\<open>prototype_names_miscounted\<close>).
\<close>

text \<open>
  What reading a property of the object can give: \<open>undefined\<close>, a Number (an own
  property; the code only ever stores Numbers), a function inherited from
  \<open>Object.prototype\<close>, or \<open>Object.prototype\<close> itself (the \<open>__proto__\<close> accessor).
\<close>

datatype prop_val = PUndef | PNum jsnum | PFun | PObj

definition object_prototype_methods :: "string list" where
  "object_prototype_methods =
     [''constructor'', ''hasOwnProperty'', ''isPrototypeOf'', ''propertyIsEnumerable'', ''toLocaleString'',
      ''toString'', ''valueOf'', ''__defineGetter__'', ''__defineSetter__'', ''__lookupGetter__'', ''__lookupSetter__'']"

text \<open>The properties an empty object literal inherits (ECMAScript, Object.prototype).\<close>

definition proto_get :: "condition \<Rightarrow> prop_val" where
  "proto_get c = (if c = ''__proto__'' then PObj else if c \<in> set object_prototype_methods then PFun else PUndef)"

text \<open>
  The three JavaScript operations lines 47--54 apply to a property value: the truth test
  of the \<open>if\<close> (\<open>0\<close> and \<open>NaN\<close> are falsy), ToNumeric before \<open>++\<close>, and \<open>>\<close>
  against a Number (a function or an object becomes a string that ToNumber reads as
  \<open>NaN\<close>, so the comparison is false).
\<close>

fun js_truthy :: "prop_val \<Rightarrow> bool" where
  "js_truthy PUndef = False"
| "js_truthy (PNum n) = (n \<noteq> Fin 0 \<and> n \<noteq> NaN)"
| "js_truthy PFun = True"
| "js_truthy PObj = True"

fun to_numeric :: "prop_val \<Rightarrow> jsnum" where
  "to_numeric (PNum n) = n"
| "to_numeric _ = NaN"

fun prop_gt_num :: "prop_val \<Rightarrow> jsnum \<Rightarrow> bool" where
  "prop_gt_num (PNum n) m = num_gt n m"
| "prop_gt_num _ m = False"

text \<open>
  The three fields lines 46--57 read and write: the frequency object's own properties,
  \<open>dominantWeather\<close> and \<open>dominantWeatherFrequency\<close> (a Number), as \<open>resetStats\<close>
  initialises them (lines 15--17).
\<close>

record freq_obj =
  fo_own :: "condition \<rightharpoonup> jsnum"
  fo_dominant :: condition
  fo_dominant_freq :: jsnum

definition fo_empty :: freq_obj where
  "fo_empty = \<lparr>fo_own = Map.empty, fo_dominant = [], fo_dominant_freq = Fin 0\<rparr>"

text \<open>\<open>this.weatherFrequency[condition]\<close>: the own property, else the inherited one.\<close>

definition fo_get :: "freq_obj \<Rightarrow> condition \<Rightarrow> prop_val" where
  "fo_get fo c = (case fo_own fo c of Some n \<Rightarrow> PNum n | None \<Rightarrow> proto_get c)"

text \<open>
  Assignment creates or updates an own property, except for \<open>__proto__\<close>, whose setter
  ignores a value that is not an object.
\<close>

definition fo_set :: "freq_obj \<Rightarrow> condition \<Rightarrow> jsnum \<Rightarrow> freq_obj" where
  "fo_set fo c v = (if c = ''__proto__'' then fo else fo\<lparr>fo_own := (fo_own fo)(c \<mapsto> v)\<rparr>)"

text \<open>Lines 46--57 of \<open>add_stats\<close> on the object.\<close>

definition count_condition_obj :: "freq_obj \<Rightarrow> condition \<Rightarrow> freq_obj" where
  "count_condition_obj fo c =
     (let fo1 = (if js_truthy (fo_get fo c) then fo_set fo c (js_add (to_numeric (fo_get fo c)) (Fin 1))
                 else fo_set fo c (Fin 1))
      in if prop_gt_num (fo_get fo1 c) (fo_dominant_freq fo1)
         then fo1\<lparr>fo_dominant := c, fo_dominant_freq := to_numeric (fo_get fo1 c)\<rparr>
         else fo1)"

text \<open>The object after \<open>add_stats\<close> calls with the given conditions, from a fresh object.\<close>

definition count_conditions_obj :: "condition list \<Rightarrow> freq_obj" where
  "count_conditions_obj cs = foldl count_condition_obj fo_empty cs"

text \<open>The abstraction: the object a state of the map model stands for.\<close>

definition fo_of_stats :: "weather_stats \<Rightarrow> freq_obj" where
  "fo_of_stats s =
     \<lparr>fo_own = (\<lambda>c. map_option (\<lambda>n. Fin (real n)) (weatherFrequency s c)),
      fo_dominant = dominantWeather s, fo_dominant_freq = Fin (real (dominantWeatherFrequency s))\<rparr>"


section \<open>Lemmas\<close>

lemma stats_of_freq_pos: "weatherFrequency (stats_of c ds) x = Some k \<Longrightarrow> 0 < k"
proof (induction ds arbitrary: k rule: rev_induct)
  case Nil
  then show ?case by (simp add: stats_simps)
next
  case (snoc d ds)
  then show ?case by (auto simp: stats_simps split: if_splits option.splits)
qed

lemma count_condition_obj_refines:
  assumes "proto_get (wd_condition d) = PUndef" and "\<And>x k. weatherFrequency s x = Some k \<Longrightarrow> 0 < k"
  shows "fo_of_stats (add_stats s d) = count_condition_obj (fo_of_stats s) (wd_condition d)"
proof (cases "weatherFrequency s (wd_condition d)")
  case None
  with assms(1) show ?thesis
    by (auto simp: fo_of_stats_def count_condition_obj_def fo_get_def fo_set_def stats_simps Let_def
                   proto_get_def js_eval split: if_splits)
next
  case (Some k)
  with assms(2) have "0 < k" by blast
  with Some assms(1) show ?thesis
    by (auto simp: fo_of_stats_def count_condition_obj_def fo_get_def fo_set_def stats_simps Let_def
                   proto_get_def js_eval split: if_splits)
qed

lemma fo_own_count:
  "fo_own (count_condition_obj fo c) =
     (if c = ''__proto__'' then fo_own fo
      else (fo_own fo)(c \<mapsto> (if js_truthy (fo_get fo c) then js_add (to_numeric (fo_get fo c)) (Fin 1) else Fin 1)))"
  by (simp add: count_condition_obj_def fo_set_def Let_def)

lemma foldl_replicate_Suc: "foldl f a (replicate (Suc n) x) = f (foldl f a (replicate n x)) x"
proof -
  have "replicate (Suc n) x = replicate n x @ [x]" by (simp add: replicate_append_same)
  then show ?thesis by simp
qed

lemma proto_key_kept:
  assumes "fo_own fo ''__proto__'' = None" and "fo_dominant fo \<noteq> ''__proto__''"
  shows "fo_own (count_condition_obj fo c) ''__proto__'' = None \<and> fo_dominant (count_condition_obj fo c) \<noteq> ''__proto__''"
proof (cases "c = ''__proto__''")
  case True
  with assms show ?thesis
    by (simp add: count_condition_obj_def fo_set_def fo_get_def proto_get_def Let_def)
next
  case False
  with assms show ?thesis
    by (auto simp: count_condition_obj_def fo_set_def Let_def)
qed

lemma proto_key_never_counted:
  "fo_own (count_conditions_obj cs) ''__proto__'' = None \<and> fo_dominant (count_conditions_obj cs) \<noteq> ''__proto__''"
proof (induction cs rule: rev_induct)
  case Nil
  then show ?case by (simp add: count_conditions_obj_def fo_empty_def)
next
  case (snoc c cs)
  then show ?case using proto_key_kept [of "count_conditions_obj cs" c] by (simp add: count_conditions_obj_def)
qed

lemma count_conditions_obj_snoc:
  "count_conditions_obj (replicate (Suc n) x) = count_condition_obj (count_conditions_obj (replicate n x)) x"
  by (simp only: count_conditions_obj_def foldl_replicate_Suc)

lemma to_string_first: "fo_own (count_conditions_obj [''toString'']) ''toString'' = Some NaN"
  by (simp add: count_conditions_obj_def fo_own_count fo_empty_def fo_get_def proto_get_def object_prototype_methods_def)

lemma to_string_counts:
  "fo_own (count_conditions_obj (replicate (Suc (Suc k)) ''toString'')) ''toString'' = Some (Fin (real (Suc k)))"
proof (induction k)
  case 0
  show ?case
    using to_string_first
    by (simp only: count_conditions_obj_snoc [of "Suc 0"]) (simp add: fo_own_count fo_get_def)
next
  case (Suc k)
  then show ?case
    by (simp only: count_conditions_obj_snoc [of "Suc (Suc k)"]) (simp add: fo_own_count fo_get_def)
qed

lemma count_list_replicate_same: "count_list (replicate n x) x = n"
  by (induction n) auto


section \<open>Properties\<close>

text \<open>
  C6: a condition named like a method of \<open>Object.prototype\<close> is counted one behind: the
  first observation of \<open>toString\<close> reads the inherited function, which is truthy, and
  stores \<open>NaN\<close> (a function plus one); the second reads \<open>NaN\<close>, which is falsy, and
  stores 1; so after \<open>k + 2\<close> observations the count is \<open>k + 1\<close> where the spec's
  table has \<open>k + 2\<close>. A condition named \<open>__proto__\<close> is never counted and never
  becomes dominant, whatever the history.
\<close>

theorem prototype_names_miscounted:
  "fo_own (count_conditions_obj [''toString'']) ''toString'' = Some NaN \<and>
   fo_own (count_conditions_obj (replicate (Suc (Suc k)) ''toString'')) ''toString'' = Some (Fin (real (Suc k))) \<and>
   frequency_spec (replicate (Suc (Suc k)) ''toString'') ''toString'' = Some (Suc (Suc k)) \<and>
   fo_own (count_conditions_obj cs) ''__proto__'' = None \<and> fo_dominant (count_conditions_obj cs) \<noteq> ''__proto__''"
proof -
  note to_string_first
  moreover have "frequency_spec (replicate (Suc (Suc k)) ''toString'') ''toString'' = Some (Suc (Suc k))"
    by (simp add: frequency_spec_def count_list_replicate_same)
  ultimately show ?thesis using to_string_counts [of k] proto_key_never_counted [of cs] by simp
qed

text \<open>
  The map model is exact for ordinary names: after any history whose conditions name
  no property of \<open>Object.prototype\<close>, the statistics of \<open>WeatherStats\<close> stand for
  exactly the object the code builds (own properties holding the counts, the dominant
  condition and its count).
\<close>

lemma stats_refine_object:
  assumes "list_all (\<lambda>x. proto_get x = PUndef) (map wd_condition ds)"
  shows "fo_of_stats (stats_of c ds) = count_conditions_obj (map wd_condition ds)"
  using assms
proof (induction ds rule: rev_induct)
  case Nil
  then show ?case by (simp add: fo_of_stats_def count_conditions_obj_def fo_empty_def stats_simps)
next
  case (snoc d ds)
  then have "fo_of_stats (stats_of c ds) = count_conditions_obj (map wd_condition ds)" by simp
  moreover have "proto_get (wd_condition d) = PUndef" using snoc.prems by simp
  ultimately show ?case
    using count_condition_obj_refines [of d "stats_of c ds"] stats_of_freq_pos [of c ds]
    by (simp add: count_conditions_obj_def)
qed


end
