(* ===== verification/CronSchedule.thy ===== *)
theory CronSchedule
  imports Scheduler "HOL-Library.Monad_Syntax"
begin

text \<open>
  The timers of the two jobs: the \<open>cron.schedule\<close> calls of \<open>createWeatherCron\<close>
  (\<open>src/cron/weather_cron.js\<close> lines 12--13 and 45--48) and of \<open>saveWeatherCronJob\<close>
  (\<open>src/cron/weather_save_cron.js\<close> lines 5--6 and 24--26). A pattern string is split
  at single spaces into five fields (minute, hour, day of month, month, day of week) and
  each field is parsed; node-cron refuses the pattern when a field does not parse or is out
  of range. The parser covers the field forms the repository uses: \<open>*\<close>, \<open>*/n\<close> and a
  decimal number. node-cron expands \<open>*/n\<close> to the values of the field's range that
  \<open>n\<close> divides, and a pattern of five fields fires at second 0 of every minute whose
  fields all match, read in the time zone of the options (here always UTC). Time is
  counted in whole seconds since the epoch, the granularity of node-cron's timer; the
  handler's clock readings are the firing instant in milliseconds. The firings of a list
  of tasks over an interval of seconds become events of the scheduler of
  \<open>Scheduler\<close>, tasks firing in the same second in the order they were created.
\<close>

section \<open>Patterns\<close>

datatype cron_field = CronAny | CronStep nat | CronVal nat

record cron_pattern =
  cp_minute :: cron_field
  cp_hour :: cron_field
  cp_dom :: cron_field
  cp_month :: cron_field
  cp_dow :: cron_field

text \<open>
  The pattern is split with \<open>split_on\<close> of \<open>HttpManager\<close>, which is
  \<open>String.prototype.split\<close> with a one-character separator (empty pieces are kept).
\<close>

definition parse_field :: "string \<Rightarrow> cron_field option" where
  "parse_field s =
     (if s = ''*'' then Some CronAny
      else if take 2 s = ''*/'' then
        (case digits_nat 10 (drop 2 s) of
           None \<Rightarrow> None
         | Some n \<Rightarrow> if 0 < n then Some (CronStep n) else None)
      else map_option CronVal (digits_nat 10 s))"

definition field_ok :: "nat \<Rightarrow> nat \<Rightarrow> cron_field \<Rightarrow> bool" where
  "field_ok lo hi f = (case f of CronAny \<Rightarrow> True | CronStep n \<Rightarrow> 0 < n | CronVal v \<Rightarrow> lo \<le> v \<and> v \<le> hi)"

definition pattern_ok :: "cron_pattern \<Rightarrow> bool" where
  "pattern_ok p \<longleftrightarrow>
     field_ok 0 59 (cp_minute p) \<and> field_ok 0 23 (cp_hour p) \<and> field_ok 1 31 (cp_dom p) \<and>
     field_ok 1 12 (cp_month p) \<and> field_ok 0 7 (cp_dow p)"

definition parse_cron_pattern :: "string \<Rightarrow> cron_pattern option" where
  "parse_cron_pattern s =
     (case split_on (CHR '' '') s of
        [a, b, c, d, e] \<Rightarrow>
          do {
            mi \<leftarrow> parse_field a; h \<leftarrow> parse_field b; dm \<leftarrow> parse_field c;
            mo \<leftarrow> parse_field d; dw \<leftarrow> parse_field e;
            let p = \<lparr>cp_minute = mi, cp_hour = h, cp_dom = dm, cp_month = mo, cp_dow = dw\<rparr>;
            if pattern_ok p then Some p else None
          }
      | _ \<Rightarrow> None)"

section \<open>Matching a second\<close>

primrec field_matches :: "cron_field \<Rightarrow> nat \<Rightarrow> bool" where
  "field_matches CronAny v = True"
| "field_matches (CronStep n) v = (v mod n = 0)"
| "field_matches (CronVal x) v = (v = x)"

text \<open>node-cron reads a day of week 7 as Sunday, 0.\<close>

definition dow_matches :: "cron_field \<Rightarrow> nat \<Rightarrow> bool" where
  "dow_matches f v = (case f of CronVal x \<Rightarrow> v = x mod 7 | _ \<Rightarrow> field_matches f v)"

definition utc_weekday :: "nat \<Rightarrow> nat" where
  "utc_weekday s = (s div 86400 + 4) mod 7"

definition cron_matches :: "cron_pattern \<Rightarrow> nat \<Rightarrow> bool" where
  "cron_matches p s \<longleftrightarrow>
     s mod 60 = 0 \<and> field_matches (cp_minute p) (s div 60 mod 60) \<and>
     field_matches (cp_hour p) (s div 3600 mod 24) \<and>
     (case civil_from_days (s div 86400) of
        (y, mo, d) \<Rightarrow> field_matches (cp_dom p) d \<and> field_matches (cp_month p) mo) \<and>
     dow_matches (cp_dow p) (utc_weekday s)"

section \<open>Scheduled tasks\<close>

datatype cron_handler = PollingHandler | PersistenceHandler

record cron_options =
  co_scheduled :: bool
  co_timezone :: string

record scheduled_task =
  task_pattern :: cron_pattern
  task_options :: cron_options
  task_handler :: cron_handler

datatype cron_error = InvalidPattern string

text \<open>\<open>cron.schedule(expression, handler, options)\<close>: validation, then the task.\<close>

definition cron_schedule :: "string \<Rightarrow> cron_handler \<Rightarrow> cron_options \<Rightarrow> cron_error + scheduled_task" where
  "cron_schedule expr h opts =
     (case parse_cron_pattern expr of
        None \<Rightarrow> Inl (InvalidPattern expr)
      | Some p \<Rightarrow> Inr \<lparr>task_pattern = p, task_options = opts, task_handler = h\<rparr>)"

definition task_fires :: "scheduled_task \<Rightarrow> nat \<Rightarrow> bool" where
  "task_fires t s \<longleftrightarrow> co_scheduled (task_options t) \<and> cron_matches (task_pattern t) s"

text \<open>\<open>weather_cron.js\<close> lines 45--48.\<close>

definition weather_cron_options :: cron_options where
  "weather_cron_options = \<lparr>co_scheduled = True, co_timezone = ''UTC''\<rparr>"

text \<open>\<open>weather_cron.js\<close> lines 12--13: a firing every minute.\<close>

definition create_weather_cron :: "cron_error + scheduled_task" where
  "create_weather_cron = cron_schedule ''*/1 * * * *'' PollingHandler weather_cron_options"

text \<open>\<open>weather_save_cron.js\<close> lines 24--26; \<open>scheduled\<close> keeps node-cron's default, true.\<close>

definition save_cron_options :: cron_options where
  "save_cron_options = \<lparr>co_scheduled = True, co_timezone = ''UTC''\<rparr>"

text \<open>
  \<open>weather_save_cron.js\<close> lines 5--6: every third minute. The comments of lines 4 and 6
  say 00:00 every day; the daily pattern is the commented-out line 7.
\<close>

definition save_weather_cron_job :: "cron_error + scheduled_task" where
  "save_weather_cron_job = cron_schedule ''*/3 * * * *'' PersistenceHandler save_cron_options"

text \<open>\<open>app.js\<close> lines 79--80: the polling task is created first, then the persistence task.\<close>

definition app_cron_tasks :: "scheduled_task list" where
  "app_cron_tasks =
     (case create_weather_cron of
        Inl _ \<Rightarrow> []
      | Inr p \<Rightarrow> (case save_weather_cron_job of Inl _ \<Rightarrow> [p] | Inr q \<Rightarrow> [p, q]))"

section \<open>Firings as scheduler events\<close>

definition tick_event :: "cron_handler \<Rightarrow> nat \<Rightarrow> sched_event" where
  "tick_event h s =
     (case h of
        PollingHandler \<Rightarrow> PollTick (1000 * s)
      | PersistenceHandler \<Rightarrow> SaveTick (int (1000 * s)) (int (1000 * s)))"

definition firing_events :: "scheduled_task list \<Rightarrow> nat \<Rightarrow> sched_event list" where
  "firing_events ts s = map (\<lambda>t. tick_event (task_handler t) s) (filter (\<lambda>t. task_fires t s) ts)"

definition timer_events :: "scheduled_task list \<Rightarrow> nat \<Rightarrow> nat \<Rightarrow> sched_event list" where
  "timer_events ts a b = concat (map (firing_events ts) [a..<b])"

fun is_save_tick :: "sched_event \<Rightarrow> bool" where
  "is_save_tick (SaveTick _ _) = True"
| "is_save_tick _ = False"

fun is_poll_tick :: "sched_event \<Rightarrow> bool" where
  "is_poll_tick (PollTick _) = True"
| "is_poll_tick _ = False"

text \<open>A pattern that reads only the minute field, and the two tasks the jobs create.\<close>

definition every_minute_pattern :: "cron_field \<Rightarrow> cron_pattern" where
  "every_minute_pattern f = \<lparr>cp_minute = f, cp_hour = CronAny, cp_dom = CronAny, cp_month = CronAny, cp_dow = CronAny\<rparr>"

definition poll_task :: scheduled_task where
  "poll_task = \<lparr>task_pattern = every_minute_pattern (CronStep 1), task_options = weather_cron_options,
                task_handler = PollingHandler\<rparr>"

definition save_task :: scheduled_task where
  "save_task = \<lparr>task_pattern = every_minute_pattern (CronStep 3), task_options = save_cron_options,
                task_handler = PersistenceHandler\<rparr>"

section \<open>Lemmas\<close>

lemma cron_matches_minute_only:
  "cron_matches (every_minute_pattern f) s \<longleftrightarrow> s mod 60 = 0 \<and> field_matches f (s div 60 mod 60)"
  by (simp add: cron_matches_def every_minute_pattern_def dow_matches_def split: prod.split)

lemma create_weather_cron_task:
  "create_weather_cron = Inr poll_task"
  by (simp add: create_weather_cron_def cron_schedule_def parse_cron_pattern_def parse_field_def digits_nat_def
                digit_value_def pattern_ok_def field_ok_def every_minute_pattern_def poll_task_def save_task_def)

lemma save_weather_cron_job_task:
  "save_weather_cron_job = Inr save_task"
  by (simp add: save_weather_cron_job_def cron_schedule_def parse_cron_pattern_def parse_field_def digits_nat_def
                digit_value_def pattern_ok_def field_ok_def every_minute_pattern_def poll_task_def save_task_def)

lemma every_third_minute: "(s mod 60 = 0 \<and> s div 60 mod 60 mod 3 = 0) \<longleftrightarrow> s mod (180::nat) = 0"
proof -
  have "s div 60 mod 60 mod 3 = s div 60 mod 3" by (simp add: mod_mod_cancel)
  moreover have "s mod 180 = 60 * (s div 60 mod 3) + s mod 60" using mod_mult2_eq [of s 60 3] by simp
  ultimately show ?thesis by (simp only:) (simp add: conj_commute)
qed

lemma mod_block: "k * m < x \<Longrightarrow> x < k * m + k \<Longrightarrow> x mod k \<noteq> (0::nat)"
proof -
  assume a: "k * m < x" "x < k * m + k"
  then have "x div k = m" by (simp add: div_nat_eqI mult.commute)
  with a show ?thesis by (metis dvd_mult_div_cancel mod_0_imp_dvd less_irrefl)
qed

lemma multiples_in_block: "0 < k \<Longrightarrow> length (filter (\<lambda>s. s mod k = 0) [k * m..<k * m + k]) = 1"
proof -
  assume k: "0 < k"
  have "filter (\<lambda>s. s mod k = 0) [Suc (k * m)..<k * m + k] = []"
    using mod_block [of k m] by (auto simp: filter_empty_conv)
  moreover have "[k * m..<k * m + k] = k * m # [Suc (k * m)..<k * m + k]" using k by (simp add: upt_conv_Cons)
  ultimately show ?thesis by simp
qed

lemma multiples_in_range: "0 < k \<Longrightarrow> length (filter (\<lambda>s. s mod k = 0) [k * q..<k * q + k * r]) = r"
proof (induction r)
  case 0
  then show ?case by simp
next
  case (Suc r)
  have "[k * q..<k * q + k * Suc r] = [k * q..<k * q + k * r] @ [k * (q + r)..<k * (q + r) + k]"
    using upt_add_eq_append [of "k * q" "k * q + k * r" k] by (simp add: algebra_simps)
  with Suc multiples_in_block [of k "q + r"] show ?case by simp
qed

lemma app_cron_tasks_eq: "app_cron_tasks = [poll_task, save_task]"
  by (simp add: app_cron_tasks_def create_weather_cron_task save_weather_cron_job_task)

lemma poll_task_fires: "task_fires poll_task = (\<lambda>s. s mod 60 = 0)"
  by (simp add: fun_eq_iff poll_task_def task_fires_def weather_cron_options_def cron_matches_minute_only)

lemma save_task_fires: "task_fires save_task = (\<lambda>s. s mod 180 = 0)"
  by (simp add: fun_eq_iff save_task_def task_fires_def save_cron_options_def cron_matches_minute_only every_third_minute)

lemma day_multiples:
  assumes "k * r = 86400" "0 < k"
  shows "length (filter (\<lambda>s. s mod k = 0) [86400 * d..<86400 * Suc d]) = r"
proof -
  have "k * (r * d) = 86400 * d" using assms(1) by (metis mult.assoc)
  with assms multiples_in_range [of k "r * d" r] show ?thesis by (simp add: add.commute)
qed

lemma poll_fires_per_day: "length (filter (task_fires poll_task) [86400 * d..<86400 * Suc d]) = 1440"
  using day_multiples [of 60 1440 d] by (simp add: poll_task_fires)

lemma save_fires_per_day: "length (filter (task_fires save_task) [86400 * d..<86400 * Suc d]) = 480"
  using day_multiples [of 180 480 d] by (simp add: save_task_fires)

lemma tick_event_step:
  "sched_step s (tick_event h n) =
     Some (case h of PollingHandler \<Rightarrow> poll_tick (1000 * n) s
                   | PersistenceHandler \<Rightarrow> save_tick (int (1000 * n)) (int (1000 * n)) s)"
  by (cases h) (simp_all add: tick_event_def)

lemma run_tick_events:
  "list_all (\<lambda>e. \<exists>h n. e = tick_event h n) es \<Longrightarrow>
   \<exists>s'. sched_run s es = Some s' \<and>
        length (pending_saves s') = length (pending_saves s) + length (filter is_save_tick es) \<and>
        isJobRunning s' = (isJobRunning s \<or> list_ex is_poll_tick es) \<and> db s' = db s \<and> manager s' = manager s"
proof (induction es arbitrary: s)
  case Nil
  then show ?case by simp
next
  case (Cons e es)
  then obtain h n where e: "e = tick_event h n" and rest: "list_all (\<lambda>e. \<exists>h n. e = tick_event h n) es" by auto
  let ?s1 = "case h of PollingHandler \<Rightarrow> poll_tick (1000 * n) s
                     | PersistenceHandler \<Rightarrow> save_tick (int (1000 * n)) (int (1000 * n)) s"
  from Cons.IH [OF rest, of ?s1] obtain s' where
    "sched_run ?s1 es = Some s'"
    "length (pending_saves s') = length (pending_saves ?s1) + length (filter is_save_tick es)"
    "isJobRunning s' = (isJobRunning ?s1 \<or> list_ex is_poll_tick es)" "db s' = db ?s1" "manager s' = manager ?s1"
    by blast
  with e show ?case by (cases h) (auto simp: tick_event_step tick_event_def sched_simps)
qed

lemma timer_events_ticks: "list_all (\<lambda>e. \<exists>h n. e = tick_event h n) (timer_events ts a b)"
  by (auto simp: timer_events_def firing_events_def list_all_iff)

lemma app_firing_events:
  "firing_events app_cron_tasks n =
     (if n mod 60 = 0 then [PollTick (1000 * n)] else []) @
     (if n mod 180 = 0 then [SaveTick (int (1000 * n)) (int (1000 * n))] else [])"
  by (simp add: firing_events_def app_cron_tasks_eq poll_task_fires save_task_fires tick_event_def)
     (simp add: poll_task_def save_task_def)

lemma app_save_ticks:
  "length (filter is_save_tick (timer_events app_cron_tasks a b)) = length (filter (\<lambda>n. n mod 180 = 0) [a..<b])"
  by (induction b) (simp_all add: timer_events_def app_firing_events)

lemma app_poll_tick_first: "list_ex is_poll_tick (timer_events app_cron_tasks (86400 * d) (86400 * Suc d))"
proof -
  have "(86400 * d) mod 60 = 0" using dvd_mult2 [of 60 86400 d] by (simp add: mod_eq_0_iff_dvd)
  then have "PollTick (1000 * (86400 * d)) \<in> set (firing_events app_cron_tasks (86400 * d))"
    by (simp add: app_firing_events)
  moreover have "86400 * d \<in> set [86400 * d..<86400 * Suc d]" by simp
  ultimately have "PollTick (1000 * (86400 * d)) \<in> set (timer_events app_cron_tasks (86400 * d) (86400 * Suc d))"
    unfolding timer_events_def set_concat set_map by blast
  then show ?thesis unfolding list_ex_iff by force
qed

section \<open>Properties\<close>

text \<open>
  C7: when the jobs run. \<open>createWeatherCron\<close> schedules a task that fires at second 0 of
  every minute and \<open>saveWeatherCronJob\<close> one that fires at second 0 of every third minute
  (UTC). In every UTC day the polling job fires 1440 times and the persistence job 480 times,
  not once at 00:00 as the comments of \<open>weather_save_cron.js\<close> say.
\<close>

theorem job_firing_times: 
  "create_weather_cron = Inr poll_task \<and> (\<forall>s. task_fires poll_task s \<longleftrightarrow> s mod 60 = 0) \<and>
   length (filter (task_fires poll_task) [86400 * d..<86400 * Suc d]) = 1440 \<and>
   save_weather_cron_job = Inr save_task \<and> (\<forall>s. task_fires save_task s \<longleftrightarrow> s mod 180 = 0) \<and>
   length (filter (task_fires save_task) [86400 * d..<86400 * Suc d]) = 480"
  using poll_fires_per_day [of d] save_fires_per_day [of d]
  by (simp add: create_weather_cron_task save_weather_cron_job_task poll_task_fires save_task_fires)

text \<open>
  C18: a day of timer firings drives the two jobs. From any reachable state, the events of
  one UTC day's firings of the tasks \<open>app.js\<close> creates, with no fetch settling during the
  day, are all accepted: the first polling firing starts a fetch (if none is in flight) and
  every later one is skipped, so exactly one fetch is in flight at the end; the 480
  persistence firings each queue a snapshot; nothing is stored and the statistics are
  unchanged until a fetch or a write settles.
\<close>

theorem day_without_fetch_result:
  assumes "reachable m s"
  shows "\<exists>s'. sched_run s (timer_events app_cron_tasks (86400 * d) (86400 * Suc d)) = Some s' \<and> reachable m s' \<and>
              isJobRunning s' \<and> polls_in_flight s' = 1 \<and>
              length (pending_saves s') = length (pending_saves s) + 480 \<and> db s' = db s \<and> manager s' = manager s"
proof -
  obtain s' where run: "sched_run s (timer_events app_cron_tasks (86400 * d) (86400 * Suc d)) = Some s'"
    and f: "length (pending_saves s') = length (pending_saves s) + length (filter is_save_tick (timer_events app_cron_tasks (86400 * d) (86400 * Suc d)))"
      "isJobRunning s' = (isJobRunning s \<or> list_ex is_poll_tick (timer_events app_cron_tasks (86400 * d) (86400 * Suc d)))"
      "db s' = db s" "manager s' = manager s"
    using run_tick_events [OF timer_events_ticks] by blast
  have r: "reachable m s'" using assms run by (rule reachable_run)
  have "length (filter (\<lambda>n. n mod 180 = 0) [86400 * d..<86400 * Suc d]) = 480" by (rule day_multiples) simp_all
  then have p: "length (pending_saves s') = length (pending_saves s) + 480" using f(1) by (simp only: app_save_ticks)
  have j: "isJobRunning s'" using f(2) app_poll_tick_first by blast
  then have "polls_in_flight s' = 1" using reachable_flag_inv [OF r] by (simp add: flag_inv_def)
  with run r p j f(3,4) show ?thesis by blast
qed

section \<open>Witnesses\<close>

lemma day_without_fetch_result_witness:
  "reachable paris (init_sched paris) \<and>
   (\<exists>s'. sched_run (init_sched paris) (timer_events app_cron_tasks 0 86400) = Some s' \<and>
         isJobRunning s' \<and> polls_in_flight s' = 1 \<and> length (pending_saves s') = 480 \<and> db s' = [])"
proof -
  have r: "reachable paris (init_sched paris)" by (rule reachable.init)
  have "pending_saves (init_sched paris) = [] \<and> db (init_sched paris) = []" by (simp add: init_sched_def)
  with day_without_fetch_result [OF r, of 0] r show ?thesis by auto
qed

end
