(* ===== verification/Spec2Isabelle.thy ===== *)
theory Spec2Isabelle
  imports App FrequencyObject CronSchedule
begin

text \<open>
  \<^bold>\<open>A verification model of the weather-monitoring system.\<close>

  \<^emph>\<open>The program.\<close> A Node.js process (\<open>src/app.js\<close>) asks for a city, a temperature
  unit and optional triggers, builds one \<open>WeatherManager\<close>
  (\<open>src/services/weather_manager.js\<close>) and starts two node-cron jobs on it: the polling job
  (\<open>src/cron/weather_cron.js\<close>), which every minute fetches the city's weather from
  OpenWeather (\<open>src/services/openweather_manager.js\<close>, \<open>src/services/http_manager.js\<close>)
  and feeds it to \<open>addWeatherData\<close>, guarded by the flag \<open>isJobRunning\<close>; and the
  persistence job (\<open>src/cron/weather_save_cron.js\<close>), which every three minutes stores
  \<open>getDailySummary()\<close> with yesterday's date through the Mongoose model
  (\<open>src/models/weather_stats_schema.js\<close>). \<open>addWeatherData\<close> converts the temperatures
  (\<open>src/utils/utils.js\<close>, \<open>src/utils/enums.js\<close>), updates the running statistics
  (\<open>WeatherStats\<close>, \<open>src/services/weather_stats.js\<close>) and evaluates the triggers
  (\<open>WeatherTrigger\<close>, \<open>src/services/weather_triggers.js\<close>).

  \<^emph>\<open>The library.\<close>
  \<^item> \<open>Prelude\<close>: names of the model's types, rule collections, generic list and map facts.
  \<^item> \<open>JsValues\<close>: the JavaScript semantics the code relies on. Numbers are \<open>Fin r\<close>
    (an exact real), \<open>NaN\<close>, \<open>PosInf\<close>, \<open>NegInf\<close>; \<open>js_add\<close>, \<open>js_sub\<close>,
    \<open>js_mul\<close>, \<open>js_div\<close> follow IEEE special-value rules; \<open>js_less_than\<close> is
    ECMAScript's IsLessThan (two strings compare by code, otherwise both sides go through
    ToNumber, and \<open>NaN\<close> gives \<open>undefined\<close>); \<open>string_to_number\<close> is StringToNumber;
    \<open>js_strict_eq\<close> is \<open>===\<close>.
  \<^item> \<open>Enums\<close>: \<open>TemperatureType\<close> as a datatype and \<open>getTemperatureType\<close>.
  \<^item> \<open>Utils\<close>: \<open>kelvinToCelsius\<close>, \<open>celsiusToFahrenheit\<close>, \<open>logErrorToFile\<close>
    (the error log as a list of lines).
  \<^item> \<open>WeatherStats\<close>: the record \<open>weather_stats\<close> (the object's fields),
    \<open>reset_stats\<close>, \<open>new_weather_stats\<close>, \<open>add_stats\<close>, \<open>get_average_temperature\<close>,
    \<open>get_daily_summary\<close>; \<open>stats_of c ds\<close> is the object after the calls
    \<open>add_stats\<close> on the history \<open>ds\<close>. The abstract specification \<open>summary_spec\<close>
    computes the summary from the history; \<open>stats_inv\<close> is the object's invariant.
  \<^item> \<open>WeatherTriggers\<close>: the record \<open>weather_trigger\<close> and \<open>is_triggered\<close>, whose
    exception for an unsupported operator is the \<open>Inl\<close> branch.
  \<^item> \<open>WeatherManager\<close>: the record \<open>weather_manager\<close>, \<open>add_trigger\<close>,
    \<open>format_temperature\<close>, \<open>check_triggers_loop\<close> (the \<open>for\<close> loop of
    \<open>checkWeatherTriggers\<close>, returning the console lines and the exception that escapes),
    \<open>check_weather_triggers\<close>, \<open>add_weather_data\<close>, \<open>manager_daily_summary\<close>.
    \<open>ingest_all\<close> is a sequence of \<open>addWeatherData\<close> calls.
  \<^item> \<open>FrequencyObject\<close>: lines 46--57 of \<open>add_stats\<close> on the frequency table as
    the plain object it is (own properties, and those inherited from
    \<open>Object.prototype\<close>), related to the map model by the abstraction \<open>fo_of_stats\<close>
    (the lemma \<open>stats_refine_object\<close>: the map model is exact for ordinary names).
  \<^item> \<open>WeatherSummaryModel\<close>: \<open>WeatherSummary.create\<close> on the schema, following
    Mongoose's documented rules: required String paths reject \<open>''\<close>, Number paths reject
    \<open>NaN\<close>, undeclared paths are dropped. The result is the failing paths or the document.
  \<^item> \<open>Dates\<close>: the UTC calendar as two terminating loops (\<open>year_loop\<close>, \<open>month_loop\<close>),
    \<open>getDate\<close>, \<open>setDate\<close>, and \<open>js_yesterday a b\<close> for line 11 of
    \<open>weather_save_cron.js\<close> with its two clock readings.
  \<^item> \<open>HttpManager\<close>: \<open>buildUrlWithParams\<close> with the urlencoded serializer of
    \<open>URLSearchParams\<close> (and the parser a server applies, for the round trip), and
    \<open>fetch_data\<close>, the recursion of \<open>fetchData\<close> on its retry counter. The network is an
    oracle \<open>net url i\<close> giving the answer to the \<open>i\<close>-th request, a body or the
    \<open>AxiosError\<close> fields the \<open>catch\<close> reads.
  \<^item> \<open>OpenWeather\<close>: the URL \<open>get_weather\<close> builds (\<open>weather_url\<close>), and
    \<open>get_weather_request\<close>, the whole function: \<open>fetchData\<close> with three retries, then the
    \<open>catch\<close> that turns a failure into \<open>undefined\<close>.
  \<^item> \<open>Scheduler\<close>: both cron jobs as one system. The state \<open>sched_state\<close> holds the
    manager, the flag \<open>isJobRunning\<close>, the fetches and saves in flight, the database, the
    error file and the console. Each async handler is split at its \<open>await\<close> into two
    atomic steps (\<open>poll_tick\<close>/\<open>poll_settled\<close>, \<open>save_tick\<close>/\<open>save_settled\<close>),
    because JavaScript runs each of them to completion. \<open>sched_step\<close> takes one event:
    a firing, or a settled promise, with the fetch outcome or the database's answer as
    its argument. \<open>reachable\<close> is the inductive set of states of every interleaving.
  \<^item> \<open>App\<close>: \<open>connectToDB\<close> and the start-up of \<open>app.js\<close> in the option monad over a
    terminal of pending answers (\<open>None\<close> while it waits for input); \<open>started_system\<close>
    is the scheduler's initial state when both jobs are started.
  \<^item> \<open>CronSchedule\<close>: the \<open>cron.schedule\<close> calls of both jobs. node-cron's pattern syntax
    for the forms the repository uses (\<open>*\<close>, \<open>*/n\<close>, a number) as a parser
    \<open>parse_cron_pattern\<close> (split at single spaces, five fields, range checks);
    \<open>cron_matches\<close> says whether a pattern fires at a second (counted from the epoch, UTC);
    \<open>create_weather_cron\<close> and \<open>save_weather_cron_job\<close> are the scheduled tasks or the
    \<open>InvalidPattern\<close> error; \<open>timer_events\<close> turns the firings of the tasks over an
    interval of seconds into events of \<open>Scheduler\<close>, tasks firing in the same second in
    the order \<open>app.js\<close> creates them.

  \<^emph>\<open>What is proved.\<close>
  \<^item> Statistics: the incremental statistics refine the history-based specification for
    finite readings (C1); \<open>add_stats\<close> preserves \<open>stats_inv\<close> (C2); the dominant
    condition is the first to reach the highest frequency (C3); the extremes ignore
    \<open>NaN\<close> (C4); one \<open>NaN\<close> poisons the average (C5). On the plain object the code really
    uses, a condition named \<open>toString\<close> is counted one behind and one named
    \<open>__proto__\<close> never (C6).
  \<^item> Triggers: \<open>==\<close> never fires on a Number against a string threshold (C8); a threshold
    typed as decimal digits compares as its number (C33).
  \<^item> Manager: an unsupported operator aborts the whole trigger pass after the observation
    is recorded (C9); otherwise the met triggers are reported in insertion order (C10);
    every reading is recorded minus 273.15 in \<open>celsius\<close> mode and unconverted (Kelvin) in
    \<open>fahrenheit\<close> mode (C11); the manager's summary refines the specification of the
    converted readings (C17).
  \<^item> Scheduler: the polling job is never re-entered (C12); every completion releases the
    flag and logs at most one line (C13); under every interleaving each snapshot is the
    summary after a prefix of the observations (C14); the database is append-only (C20);
    whatever the network and the database answer, the suspended handlers can always all
    settle (C32).
  \<^item> Dates: \<open>yesterday\<close> is one day back when both readings fall on the same day (C15);
    for any two readings it is the first moved by the difference of their days of the
    month less one, so across midnight at a month end it is 28 to 31 days back (C16).
  \<^item> Persistence: rejection before the first observation and after a \<open>NaN\<close> (C19).
  \<^item> Enums: the unit lookup (C21).
  \<^item> HTTP: \<open>buildUrlWithParams\<close> keeps the base and its query decodes to exactly the
    parameters (C22); at most \<open>retries + 1\<close> requests (C23); exhausted timeouts (C24);
    success within the retries (C25); no retry on an HTTP status nor on a connection
    reset (C26).
  \<^item> OpenWeather: the request names the city exactly, and carries \<open>APPID=undefined\<close>
    without a key (C27); a failed fetch reaches the error file as a \<open>TypeError\<close> (C28).
  \<^item> Start-up: the jobs start only after a connection and a valid unit (C29); an invalid
    unit aborts before the trigger questions (C30); the triggers it configures have
    string thresholds, so an \<open>==\<close> temperature trigger never fires (C31).
  \<^item> Timers: the polling job fires every minute and the persistence job every third minute,
    1440 and 480 times a UTC day, not daily at 00:00 as the comments say (C7); a day of
    firings with no fetch settling leaves one fetch in flight, skips every other polling
    firing and queues 480 snapshots (C18).

  \<^emph>\<open>Bounds.\<close> No definition uses fuel: the calendar loops terminate on the months left
  and the days left, \<open>fetch_data\<close> on its retry counter, and the scheduler is a step
  function over events; start-up waiting for input is the value \<open>None\<close>, not a loop.
  Calendar examples use dates in 1970 so that \<open>code_simp\<close> evaluates them in the kernel
  quickly; the theorems hold for every time value from 1970 on. Timer firings are counted
  per UTC day of 86400 seconds, as ECMAScript time has no leap seconds.

  \<^emph>\<open>Plan.\<close> Every file under \<open>src/\<close> has a model, and every operation that changes
  state is a definition, the schedule strings and options of the jobs included. What the
  map leaves uncovered is module plumbing (\<open>require\<close>, \<open>module.exports\<close>), comments
  and closing braces. The scheduler of \<open>Scheduler\<close> accepts events in any order; the
  timer model of \<open>CronSchedule\<close> produces the order node-cron gives them.

  \<^emph>\<open>Not modelled.\<close> IEEE rounding of finite Numbers (they are exact reals), the sign of
  zero, and Number-to-string formatting; trigger attributes that name a property of
  \<open>Object.prototype\<close> (\<open>app.js\<close> only creates \<open>temperature\<close> and \<open>condition\<close>
  triggers, so \<open>weather_data_get\<close> gives the four own properties or \<open>undefined\<close>); non-ASCII
  white space in StringToNumber; the console lines \<open>fetchData\<close> prints while a polling
  handler is suspended (the polling event carries the fetch outcome; the lines are stated
  of \<open>fetch_data\<close> and \<open>get_weather_request\<close> instead); retry counts other than naturals
  (the code only passes the default 3); the console output format; the node-cron pattern forms the
  repository does not use (ranges, lists, names, a seconds field), for which the parser
  gives \<open>None\<close>; node-cron's combination of a restricted day of month with a restricted
  day of week (the model requires both to match); time zones other than UTC; the drift of
  node-cron's timer within the firing second; the process's local time
  zone (modelled as UTC) and dates before 1970; the network, MongoDB and the terminal,
  whose answers are arguments of the events (a fetch outcome, a save that succeeds or
  fails).
\<close>


section \<open>Properties across components\<close>

text \<open>
  C17: what the manager reports refines the history-based specification: after any
  sequence of \<open>addWeatherData\<close> calls with finite readings (exceptions from triggers
  included), \<open>getDailySummary\<close> is \<open>summary_spec\<close> of the readings as the unit mode
  converts them (Kelvin minus 273.15 in \<open>celsius\<close> mode, unchanged in \<open>fahrenheit\<close>).
\<close>

theorem ingest_refinement:
  assumes "\<forall>d \<in> set ds. finite_data d"
  shows "manager_daily_summary (ingest_all (new_weather_manager c tt) ds) =
           summary_spec c (map (format_weather_data (new_weather_manager c tt)) ds)"
proof -
  have "\<forall>d \<in> set (map (format_weather_data (new_weather_manager c tt)) ds). finite_data d"
    using assms by (auto intro: finite_data_format)
  then show ?thesis
    by (simp add: manager_daily_summary_def ingest_all_new summary_of_finite_history)
qed

text \<open>
  The spec's persistence example. The document stored for a snapshot taken after one
  reading \<open>(10, 12, 8, Clear)\<close> has maximum 12, minimum 8, average 10 and dominant
  condition \<open>Clear\<close>. It has no \<open>dominantWeatherFrequency\<close>: the schema does not
  declare it, so the frequency of 1 the spec expects in the record is dropped.
\<close>

theorem persistence_example:
  assumes "c \<noteq> []"
  shows "weather_summary_create
           \<lparr>sv_summary = get_daily_summary (stats_of c [obs 10 12 8 ''Clear'']), sv_date = dt\<rparr> =
         Inr \<lparr>st_city = c, st_date = dt, st_maxTemperature = Fin 12, st_minTemperature = Fin 8,
              st_avgTemperature = Fin 10, st_dominantWeather = ''Clear''\<rparr>"
  using assms
  by (simp add: weather_summary_create_def Let_def obs_def get_daily_summary_def get_average_temperature_def
                stats_of_def stats_simps string_path_errors_def number_path_errors_def stored_fields_def)

text \<open>
  Before the first successful poll the snapshot's dominant condition is the empty
  string, which the schema's \<open>required\<close> rejects: every persistence firing before then
  fails validation (and every one fails when the configured city is empty).
\<close>

lemma save_fails_without_observation:
  "weather_summary_create \<lparr>sv_summary = get_daily_summary (stats_of c []), sv_date = dt\<rparr> =
     Inl (string_path_errors ''city'' c @ [''dominantWeather''])"
  by (simp add: weather_summary_create_def Let_def get_daily_summary_def get_average_temperature_def
                stats_simps string_path_errors_def number_path_errors_def)

text \<open>
  Once one \<open>NaN\<close> temperature has been recorded, the average is \<open>NaN\<close>, which the
  schema's \<open>Number\<close> cast rejects: every later persistence firing fails validation.
\<close>

lemma nan_blocks_persistence:
  assumes "\<exists>d \<in> set ds. is_nan (wd_temperature d)"
  shows "\<exists>errs. weather_summary_create \<lparr>sv_summary = get_daily_summary (stats_of c ds), sv_date = dt\<rparr> = Inl errs \<and>
                ''avgTemperature'' \<in> set errs"
proof -
  have "ds \<noteq> []" using assms by auto
  with stats_of_sum_nan [OF assms, of c]
  have "ds_avgTemperature (get_daily_summary (stats_of c ds)) = NaN"
    by (simp add: get_daily_summary_def get_average_temperature_def stats_of_temperatures)
  then show ?thesis by (auto simp: weather_summary_create_def Let_def number_path_errors_def)
qed

text \<open>
  C19: two states of the statistics in which every persistence firing fails the schema's
  validation. Before the first successful poll the snapshot's dominant condition is the
  empty string, which \<open>required\<close> rejects (and the city too when it is empty); once one
  \<open>NaN\<close> temperature has been recorded the average is \<open>NaN\<close>, which the \<open>Number\<close>
  cast rejects.
\<close>

theorem persistence_rejected:
  "weather_summary_create \<lparr>sv_summary = get_daily_summary (stats_of c []), sv_date = dt\<rparr> =
     Inl (string_path_errors ''city'' c @ [''dominantWeather'']) \<and>
   ((\<exists>d \<in> set ds. is_nan (wd_temperature d)) \<longrightarrow>
      (\<exists>errs. weather_summary_create \<lparr>sv_summary = get_daily_summary (stats_of c ds), sv_date = dt\<rparr> = Inl errs \<and>
              ''avgTemperature'' \<in> set errs))"
  using save_fails_without_observation nan_blocks_persistence by blast

text \<open>
  C28: a failed fetch reaches the error file as a \<open>TypeError\<close>, not as the fetch error:
  \<open>get_weather\<close> swallows the error \<open>fetchData\<close> throws (printing it as a critical
  failure) and resolves to \<open>undefined\<close>, so the polling job fails reading \<open>main\<close>
  of it, logs that message with the cycle's timestamp, and clears its flag.
\<close>

theorem fetch_failure_logged_as_type_error:
  assumes "reachable m s" and "isJobRunning s"
    and "fst (fetch_data net (weather_url c key) 0 max_retries) = Inl msg"
  shows "\<exists>s'. sched_step s (PollSettled now (fst (get_weather_request net c key))) = Some s' \<and>
              error_log s' = error_log s @ [\<lparr>el_time = now, el_message = type_error ''main''\<rparr>] \<and>
              console s' = console s @ [CriticalFailure (''Critical failure: '' @ msg), CronFetched,
                                        CronError (type_error ''main''), CronFinished now] \<and>
              \<not> isJobRunning s'"
proof -
  have "polls_in_flight s = 1" using reachable_flag_inv [OF assms(1)] assms(2) by (simp add: flag_inv_def)
  moreover have "fst (get_weather_request net c key) = Inl msg"
    using assms(3) by (cases "fetch_data net (weather_url c key) 0 max_retries")
                      (simp add: get_weather_request_def case_prod_beta)
  ultimately show ?thesis
    by (simp add: poll_settled_def get_weather_def observation_of_def poll_catch_def log_error_to_file_def)
qed

section \<open>Witnesses\<close>

lemma ingest_refinement_witness:
  "manager_daily_summary (ingest_all (new_weather_manager ''Paris'' Celsius) [obs 300.15 301.15 299.15 ''Clear''])
     = summary_spec ''Paris'' [obs 27 28 26 ''Clear'']"
proof -
  have h: "\<forall>d \<in> set [obs 300.15 301.15 299.15 ''Clear'']. finite_data d" by (simp add: obs_def finite_data_def)
  have "map (format_weather_data (new_weather_manager ''Paris'' Celsius)) [obs 300.15 301.15 299.15 ''Clear'']
          = [obs 27 28 26 ''Clear'']"
    by (simp add: obs_def format_weather_data_def format_temperature_def new_weather_manager_def kelvin_to_celsius_def)
  with ingest_refinement [OF h, of "''Paris''" Celsius] show ?thesis by simp
qed

lemma persistence_example_witness:
  "weather_summary_create \<lparr>sv_summary = get_daily_summary (stats_of ''Paris'' [obs 10 12 8 ''Clear'']), sv_date = 0\<rparr> =
   Inr \<lparr>st_city = ''Paris'', st_date = 0, st_maxTemperature = Fin 12, st_minTemperature = Fin 8,
        st_avgTemperature = Fin 10, st_dominantWeather = ''Clear''\<rparr>"
  by (rule persistence_example) simp

lemma persistence_rejected_witness:
  "(\<exists>d \<in> set [obs 10 12 8 ''Clear''\<lparr>wd_temperature := NaN\<rparr>]. is_nan (wd_temperature d)) \<and>
   (\<exists>errs. weather_summary_create \<lparr>sv_summary = get_daily_summary (stats_of ''Paris'' [obs 10 12 8 ''Clear''\<lparr>wd_temperature := NaN\<rparr>]), sv_date = 0\<rparr> = Inl errs \<and>
          ''avgTemperature'' \<in> set errs)"
  using persistence_rejected [of "''Paris''" 0 "[obs 10 12 8 ''Clear''\<lparr>wd_temperature := NaN\<rparr>]"] by simp

lemma fetch_failure_logged_as_type_error_witness:
  "reachable paris (poll_tick 0 (init_sched paris)) \<and> isJobRunning (poll_tick 0 (init_sched paris)) \<and>
   fst (fetch_data (\<lambda>u j. Inl axios_timeout_error :: axios_error + api_response) (weather_url ''Paris'' None) 0 max_retries) =
     Inl ''Failed to fetch data after multiple attempts due to: timeout of 5000ms exceeded'' \<and>
   (\<exists>s'. sched_step (poll_tick 0 (init_sched paris))
           (PollSettled 60000 (fst (get_weather_request (\<lambda>u j. Inl axios_timeout_error) ''Paris'' None))) = Some s' \<and>
         error_log s' = [\<lparr>el_time = 60000, el_message = type_error ''main''\<rparr>] \<and> \<not> isJobRunning s')"
proof -
  have r: "reachable paris (poll_tick 0 (init_sched paris))"
    by (rule reachable.step [OF reachable.init, where e = "PollTick 0"]) simp
  have j: "isJobRunning (poll_tick 0 (init_sched paris))" by (simp add: sched_simps)
  have f: "fst (fetch_data (\<lambda>u j. Inl axios_timeout_error :: axios_error + api_response) (weather_url ''Paris'' None) 0 max_retries) =
           Inl ''Failed to fetch data after multiple attempts due to: timeout of 5000ms exceeded''"
    by code_simp
  have e: "error_log (poll_tick 0 (init_sched paris)) = []" by (simp add: sched_simps init_sched_def)
  have p: "polls_in_flight (poll_tick 0 (init_sched paris)) = 1" by (simp add: sched_simps init_sched_def)
  show ?thesis using fetch_failure_logged_as_type_error [OF r j f, of 60000] r j f e p by auto
qed

end
